(* ===== verification/Prelude.thy ===== *)
theory Prelude
  imports Main "HOL-Library.Sublist" "HOL-Library.List_Lexorder" "HOL-Library.Char_ord"
begin

text \<open>
  Shared vocabulary of the development: the names of the model's types (file and
  folder names are Python strings, a path is the list of its components), the
  collections of rewrite rules the component theories feed, and generic facts on
  lists and options that several components use (searching a directory listing with
  \<open>find\<close>, filtering it, taking the least element after a sort).
\<close>

named_theorems pystr_simps "evaluation rules of the modelled Python string operations"
named_theorems fs_simps "evaluation rules of the modelled file-system operations"

type_synonym name = string
type_synonym path = "name list"

text \<open>
  The code picks \<open>sorted(cands, key=...)[0]\<close>, or nothing when the list is empty.
\<close>

definition first_of :: "'a list \<Rightarrow> 'a option" where
  "first_of xs = (case xs of [] \<Rightarrow> None | x # _ \<Rightarrow> Some x)"

subsection \<open>Searching a list\<close>

lemma find_Some_D [dest]: "find P xs = Some x \<Longrightarrow> x \<in> set xs \<and> P x"
  by (induction xs) (auto split: if_splits)

lemma find_None_D [dest]: "find P xs = None \<Longrightarrow> x \<in> set xs \<Longrightarrow> \<not> P x"
  by (simp add: find_None_iff)

lemma find_Some_first:
  "find P xs = Some x \<Longrightarrow> \<exists>us vs. xs = us @ x # vs \<and> (\<forall>u\<in>set us. \<not> P u)"
proof (induction xs)
  case Nil
  then show ?case by simp
next
  case (Cons y ys)
  show ?case
  proof (cases "P y")
    case True
    with Cons.prems show ?thesis by force
  next
    case False
    with Cons.prems obtain us vs where "ys = us @ x # vs" "\<forall>u\<in>set us. \<not> P u"
      using Cons.IH by auto
    with False show ?thesis by (metis append_Cons set_ConsD)
  qed
qed

lemma find_append_first:
  "\<forall>u\<in>set us. \<not> P u \<Longrightarrow> P x \<Longrightarrow> find P (us @ x # vs) = Some x"
  by (induction us) auto

lemma find_cong_set:
  "(\<And>x. x \<in> set xs \<Longrightarrow> P x = Q x) \<Longrightarrow> find P xs = find Q xs"
  by (induction xs) auto

subsection \<open>The first element after a sort\<close>

lemma first_of_simps [simp]:
  "first_of [] = None" "first_of (x # xs) = Some x"
  by (simp_all add: first_of_def)

lemma first_of_None_iff [simp]: "first_of xs = None \<longleftrightarrow> xs = []"
  by (cases xs) auto

lemma first_of_Some_set: "first_of xs = Some x \<Longrightarrow> x \<in> set xs"
  by (cases xs) auto

lemma first_of_sort_key_least:
  assumes "first_of (sort_key f xs) = Some x" and "y \<in> set xs"
  shows "f x \<le> f y"
proof -
  obtain zs where zs: "sort_key f xs = x # zs"
    using assms(1) by (cases "sort_key f xs") auto
  have "sorted (map f (sort_key f xs))" by simp
  with zs have "\<forall>z\<in>set zs. f x \<le> f z" by simp
  moreover have "y \<in> set (sort_key f xs)" using assms(2) by simp
  ultimately show ?thesis using zs by auto
qed

lemma first_of_sort_key_in:
  "first_of (sort_key f xs) = Some x \<Longrightarrow> x \<in> set xs"
  using first_of_Some_set by fastforce

end
