(* ===== verification/PyLib.thy ===== *)
theory PyLib
  imports Prelude
begin

text \<open>
  The parts of Python's standard library that the sources call on strings, written
  from the library's documented behaviour (they are not code of the repository).
  A Python \<open>str\<close> is a sequence of Unicode code points; the model reads an Isabelle
  \<open>char\<close> as a code point of the Latin-1 range U+0000..U+00FF, which holds every
  character of the Portuguese folder names the programs handle.  Each operation is
  the Python one restricted to that range: \<open>str.isspace\<close>, \<open>str.isdecimal\<close> (what
  the regular expression class \<open>\d\<close> matches), \<open>str.lower\<close>, \<open>str.strip\<close>,
  \<open>str.split\<close>, the substring test \<open>a in b\<close>, \<open>str(n)\<close> for a natural number, the
  components of a \<open>pathlib\<close> path given as a string (POSIX separators), and
  \<open>PurePath.stem\<close> / \<open>PurePath.suffix\<close>.
\<close>

definition py_isspace :: "char \<Rightarrow> bool" where
  "py_isspace c \<longleftrightarrow> (let n = of_char c :: nat in
     (9 \<le> n \<and> n \<le> 13) \<or> (28 \<le> n \<and> n \<le> 32) \<or> n = 133 \<or> n = 160)"

definition py_isdigit :: "char \<Rightarrow> bool" where
  "py_isdigit c \<longleftrightarrow> (let n = of_char c :: nat in 48 \<le> n \<and> n \<le> 57)"

text \<open>\<open>str.lower\<close> on one code point: A--Z and the Latin-1 capitals (but \<open>\<times>\<close>).\<close>

definition lower_code :: "nat \<Rightarrow> nat" where
  "lower_code n = (if (65 \<le> n \<and> n \<le> 90) \<or> (192 \<le> n \<and> n \<le> 222 \<and> n \<noteq> 215) then n + 32 else n)"

definition py_lower_char :: "char \<Rightarrow> char" where
  "py_lower_char c = char_of (lower_code (of_char c))"

definition py_lower :: "string \<Rightarrow> string" where
  "py_lower s = map py_lower_char s"

text \<open>
  \<open>str.upper\<close> on one code point: a--z and the Latin-1 small letters (but the division
  sign).  The three Latin-1 letters whose Python capital lies outside Latin-1 or has two
  letters (\<open>\<mu>\<close> 181, sharp s 223, y-diaeresis 255) are left unchanged.
\<close>

definition upper_code :: "nat \<Rightarrow> nat" where
  "upper_code n = (if (97 \<le> n \<and> n \<le> 122) \<or> (224 \<le> n \<and> n \<le> 254 \<and> n \<noteq> 247) then n - 32 else n)"

definition py_upper :: "string \<Rightarrow> string" where
  "py_upper s = map (\<lambda>c. char_of (upper_code (of_char c))) s"

definition py_strip :: "string \<Rightarrow> string" where
  "py_strip s = rev (dropWhile py_isspace (rev (dropWhile py_isspace s)))"

text \<open>\<open>s.split(d)\<close> for a one-character separator: never empty, \<open>''''.split(d) = ['']\<close>.\<close>

fun split_on :: "char \<Rightarrow> string \<Rightarrow> string list" where
  "split_on d [] = [[]]"
| "split_on d (c # cs) =
     (if c = d then [] # split_on d cs
      else (let r = split_on d cs in (c # hd r) # tl r))"

text \<open>\<open>a in b\<close> on strings is the contiguous-substring test; \<open>'' in b\<close> holds.\<close>

abbreviation py_in :: "string \<Rightarrow> string \<Rightarrow> bool" where
  "py_in a b \<equiv> sublist a b"

text \<open>
  \<open>Path(s).parts\<close> for a relative path string: the components between \<open>/\<close>, with
  empty components and \<open>.\<close> dropped (\<open>Path('')\<close> and \<open>Path('.')\<close> have no parts).
\<close>

definition path_parts :: "string \<Rightarrow> name list" where
  "path_parts s = filter (\<lambda>x. x \<noteq> [] \<and> x \<noteq> ''.'') (split_on (CHR ''/'') s)"

text \<open>\<open>str(n)\<close>: the decimal digits of a natural number, and reading them back.\<close>

fun nat_str :: "nat \<Rightarrow> string" where
  "nat_str n = (if n < 10 then [char_of (48 + n)]
                else nat_str (n div 10) @ [char_of (48 + n mod 10)])"

declare nat_str.simps [simp del]

definition str_nat :: "string \<Rightarrow> nat" where
  "str_nat s = foldl (\<lambda>acc c. 10 * acc + (of_char c - 48)) 0 s"

text \<open>
  \<open>PurePath(name).suffix\<close> and \<open>.stem\<close>: the suffix starts at the last dot, unless
  that dot is the first or the last character of the name.
\<close>

definition last_dot :: "string \<Rightarrow> nat option" where
  "last_dot s = (let ds = filter (\<lambda>i. s ! i = CHR ''.'') [0..<length s] in
     if ds = [] then None else Some (last ds))"

definition has_suffix_dot :: "string \<Rightarrow> nat option" where
  "has_suffix_dot s = (case last_dot s of
     Some i \<Rightarrow> if 0 < i \<and> i < length s - 1 then Some i else None
   | None \<Rightarrow> None)"

definition path_suffix :: "string \<Rightarrow> string" where
  "path_suffix s = (case has_suffix_dot s of Some i \<Rightarrow> drop i s | None \<Rightarrow> [])"

definition path_stem :: "string \<Rightarrow> string" where
  "path_stem s = (case has_suffix_dot s of Some i \<Rightarrow> take i s | None \<Rightarrow> s)"

declare py_isspace_def [pystr_simps] py_isdigit_def [pystr_simps]
  py_lower_char_def [pystr_simps] lower_code_def [pystr_simps] py_lower_def [pystr_simps] py_strip_def [pystr_simps]
  upper_code_def [pystr_simps] py_upper_def [pystr_simps]
  path_parts_def [pystr_simps] path_suffix_def [pystr_simps] path_stem_def [pystr_simps]
  has_suffix_dot_def [pystr_simps] last_dot_def [pystr_simps]

subsection \<open>Facts on the string operations\<close>

text \<open>Deciding equalities between computed characters and literals by code point.\<close>

lemmas char_order_simps [pystr_simps] = less_eq_char_def less_char_def

lemma char_of_eq_iff [pystr_simps]: "char_of (n::nat) = c \<longleftrightarrow> n mod 256 = of_char c"
  by (metis char_of_char of_char_of)

lemma split_on_not_Nil [simp]: "split_on d s \<noteq> []"
  by (induction s) (auto simp: Let_def)

lemma stem_suffix_append: "path_stem s @ path_suffix s = s"
  by (simp add: path_stem_def path_suffix_def split: option.splits)

text \<open>A string is trimmed when it neither starts nor ends with white space.\<close>

definition trimmed :: "string \<Rightarrow> bool" where
  "trimmed r \<longleftrightarrow> r = [] \<or> \<not> py_isspace (hd r) \<and> \<not> py_isspace (last r)"

lemma py_strip_trimmed_id: "trimmed r \<Longrightarrow> py_strip r = r"
proof (cases "r = []")
  case True
  then show ?thesis by (simp add: py_strip_def)
next
  case False
  assume t: "trimmed r"
  with False have "dropWhile py_isspace r = r" "dropWhile py_isspace (rev r) = rev r"
    by (simp_all add: trimmed_def dropWhile_eq_self_iff hd_rev)
  then show ?thesis by (simp add: py_strip_def)
qed

lemma trimmed_py_strip: "trimmed (py_strip s)"
proof -
  define a where "a = dropWhile py_isspace s"
  define b where "b = dropWhile py_isspace (rev a)"
  have ps: "py_strip s = rev b" by (simp add: py_strip_def a_def b_def)
  show ?thesis
  proof (cases "b = []")
    case True
    then show ?thesis by (simp add: ps trimmed_def)
  next
    case False
    then have hb: "\<not> py_isspace (hd b)" unfolding b_def by (rule hd_dropWhile)
    have "hd b \<in> set (rev a)" using False unfolding b_def
      by (metis hd_in_set set_dropWhileD)
    then have lb: "last b = last (rev a)" unfolding b_def
      using hb b_def dropWhile_last by metis
    have "a \<noteq> []" using False by (auto simp: b_def)
    then have "\<not> py_isspace (hd a)" unfolding a_def by (rule hd_dropWhile)
    with lb \<open>a \<noteq> []\<close> have "\<not> py_isspace (last b)" by (simp add: last_rev)
    with hb False show ?thesis by (simp add: ps trimmed_def hd_rev last_rev)
  qed
qed

lemma py_strip_idem [simp]: "py_strip (py_strip s) = py_strip s"
  by (rule py_strip_trimmed_id [OF trimmed_py_strip])

lemma set_py_strip: "set (py_strip s) \<subseteq> set s"
  unfolding py_strip_def by (fastforce dest!: set_dropWhileD)

lemma lower_code_lt: "n < 256 \<Longrightarrow> lower_code n < 256"
  by (simp add: lower_code_def)

lemma lower_code_small: "n < 128 \<Longrightarrow> lower_code n < 128"
  by (simp add: lower_code_def)

lemma lower_code_idem [simp]: "lower_code (lower_code n) = lower_code n"
  by (simp add: lower_code_def)

lemma of_char_py_lower_char: "of_char (py_lower_char c) = lower_code (of_char c)"
  using lower_code_lt [OF nat_of_char_less_256 [of c]] by (simp add: py_lower_char_def)

lemma py_lower_char_idem [simp]: "py_lower_char (py_lower_char c) = py_lower_char c"
  by (simp add: py_lower_char_def [of "py_lower_char c"] of_char_py_lower_char)
    (simp add: py_lower_char_def)

lemma nat_str_digits: "\<forall>c\<in>set (nat_str n). py_isdigit c"
  by (induction n rule: nat_str.induct)
     (subst nat_str.simps, auto simp: py_isdigit_def of_char_of)

lemma nat_str_not_Nil [simp]: "nat_str n \<noteq> []"
  by (subst nat_str.simps) simp

lemma str_nat_snoc: "str_nat (xs @ [c]) = 10 * str_nat xs + (of_char c - 48)"
  by (simp add: str_nat_def)

text \<open>Round trip: reading back the digits of \<open>str(n)\<close> gives \<open>n\<close>.\<close>

lemma str_nat_nat_str [simp]: "str_nat (nat_str n) = n"
proof (induction n rule: nat_str.induct)
  case (1 n)
  show ?case
  proof (cases "n < 10")
    case True
    then show ?thesis by (simp add: nat_str.simps str_nat_def)
  next
    case False
    then have "str_nat (nat_str n) = 10 * str_nat (nat_str (n div 10)) + n mod 10"
      by (simp add: nat_str.simps str_nat_snoc)
    with "1" False show ?thesis by simp
  qed
qed

lemma inj_nat_str: "inj nat_str"
  by (rule inj_on_inverseI [where g = str_nat]) simp

end
