(* ===== verification/Normalize.thy ===== *)
theory Normalize
  imports PyLib
begin

text \<open>
  NameNormalizer: \<open>_strip_accents\<close> and \<open>_normalize_token\<close>
  (src/LicitagovLicitacaoMesApp.py lines 51--58; the same text is repeated in
  docket.py and LicitagovLicitacaoMesApp_UI.py).  \<open>_normalize_token\<close> removes accents,
  lower-cases, strips white space, deletes a leading ordinal such as \<open>"02. "\<close> with the
  regular expression \<open>^\d+\s*[\.\-]?\s*\<close>, and deletes every space, dot, underscore
  and hyphen.  The lemmas show the output alphabet, the insensitivity to ordinal
  prefixes that month and folder matching rely on, when the normaliser is idempotent,
  and that it is not idempotent in general.
\<close>

text \<open>
  \<open>unicodedata.normalize("NFD", s)\<close> followed by dropping the combining marks
  (category Mn): on Latin-1 exactly the letters with a canonical decomposition lose
  their diacritic; nothing else of the range decomposes or is a combining mark.
\<close>

definition base_code :: "nat \<Rightarrow> nat" where
  "base_code n =
     (if 192 \<le> n \<and> n \<le> 197 then 65
      else if n = 199 then 67
      else if 200 \<le> n \<and> n \<le> 203 then 69
      else if 204 \<le> n \<and> n \<le> 207 then 73
      else if n = 209 then 78
      else if 210 \<le> n \<and> n \<le> 214 then 79
      else if 217 \<le> n \<and> n \<le> 220 then 85
      else if n = 221 then 89
      else if 224 \<le> n \<and> n \<le> 229 then 97
      else if n = 231 then 99
      else if 232 \<le> n \<and> n \<le> 235 then 101
      else if 236 \<le> n \<and> n \<le> 239 then 105
      else if n = 241 then 110
      else if 242 \<le> n \<and> n \<le> 246 then 111
      else if 249 \<le> n \<and> n \<le> 252 then 117
      else if n = 253 \<or> n = 255 then 121
      else n)"

definition base_char :: "char \<Rightarrow> char" where
  "base_char c = char_of (base_code (of_char c))"

definition strip_accents :: "string \<Rightarrow> string" where
  "strip_accents s = map base_char s"

text \<open>
  \<open>re.sub(r"^\d+\s*[\.\-]?\s*", "", s)\<close>.  The pattern is anchored and every part
  after \<open>\d+\<close> may match the empty string, so the first (greedy) attempt of the
  matcher succeeds: it takes the longest run of digits, then of white space, then at
  most one dot or hyphen, then the longest run of white space.
\<close>

definition drop_num_prefix :: "string \<Rightarrow> string" where
  "drop_num_prefix s =
     (if s \<noteq> [] \<and> py_isdigit (hd s) then
        (let s1 = dropWhile py_isspace (dropWhile py_isdigit s);
             s2 = (case s1 of [] \<Rightarrow> []
                   | c # r \<Rightarrow> if c = CHR ''.'' \<or> c = CHR ''-'' then r else s1)
         in dropWhile py_isspace s2)
      else s)"

text \<open>\<open>s.replace(" ", "").replace(".", "").replace("_", "").replace("-", "")\<close>.\<close>

definition remove_char :: "char \<Rightarrow> string \<Rightarrow> string" where
  "remove_char d s = filter (\<lambda>c. c \<noteq> d) s"

definition remove_seps :: "string \<Rightarrow> string" where
  "remove_seps s = remove_char CHR ''-'' (remove_char CHR ''_''
                     (remove_char CHR ''.'' (remove_char CHR '' '' s)))"

definition normalize_token :: "string \<Rightarrow> string" where
  "normalize_token name = remove_seps (drop_num_prefix (py_strip (py_lower (strip_accents name))))"

definition is_sep :: "char \<Rightarrow> bool" where
  "is_sep c \<longleftrightarrow> c = CHR '' '' \<or> c = CHR ''.'' \<or> c = CHR ''_'' \<or> c = CHR ''-''"

definition is_ascii_letter :: "char \<Rightarrow> bool" where
  "is_ascii_letter c \<longleftrightarrow> (let n = of_char c :: nat in (65 \<le> n \<and> n \<le> 90) \<or> (97 \<le> n \<and> n \<le> 122))"

lemmas normalize_simps [pystr_simps] = normalize_token_def remove_seps_def remove_char_def
  drop_num_prefix_def strip_accents_def base_char_def base_code_def

subsection \<open>Facts on the pieces\<close>

lemma remove_seps_filter: "remove_seps s = filter (\<lambda>c. \<not> is_sep c) s"
  unfolding remove_seps_def remove_char_def is_sep_def by (simp add: conj_ac)

lemma set_drop_num_prefix: "set (drop_num_prefix s) \<subseteq> set s"
proof -
  have dw: "set (dropWhile P xs) \<subseteq> set xs" for P and xs :: string
    by (auto dest: set_dropWhileD)
  define s1 where "s1 = dropWhile py_isspace (dropWhile py_isdigit s)"
  define s2 where "s2 = (case s1 of [] \<Rightarrow> []
                   | c # r \<Rightarrow> if c = CHR ''.'' \<or> c = CHR ''-'' then r else s1)"
  have "set s1 \<subseteq> set s" unfolding s1_def using dw by blast
  moreover have "set s2 \<subseteq> set s1" unfolding s2_def by (auto split: list.splits)
  moreover have "set (dropWhile py_isspace s2) \<subseteq> set s2" by (rule dw)
  ultimately show ?thesis
    unfolding drop_num_prefix_def Let_def s1_def [symmetric] s2_def [symmetric] by auto
qed

lemma drop_num_prefix_id: "s = [] \<or> \<not> py_isdigit (hd s) \<Longrightarrow> drop_num_prefix s = s"
  by (auto simp: drop_num_prefix_def)

lemma base_code_cases: "base_code n = n \<or> base_code n < 128"
  unfolding base_code_def by simp

lemma base_code_small: "n < 192 \<Longrightarrow> base_code n = n"
  unfolding base_code_def by simp

lemma base_code_lt: "n < 256 \<Longrightarrow> base_code n < 256"
  unfolding base_code_def by simp

lemma base_code_fixed_range:
  "base_code n = n \<Longrightarrow> 192 \<le> n \<Longrightarrow> n \<le> 222 \<Longrightarrow> n \<in> {198, 208, 215, 216, 222}"
  unfolding base_code_def by (simp split: if_splits; presburger)

text \<open>Lower-casing a character without accent gives a character without accent.\<close>

lemma base_lower_base: "base_code (lower_code (base_code n)) = lower_code (base_code n)"
proof (cases "base_code n = n")
  case False
  then have "base_code n < 128" using base_code_cases by blast
  then have "lower_code (base_code n) < 192" using lower_code_small by fastforce
  then show ?thesis by (rule base_code_small)
next
  case True
  show ?thesis
  proof (cases "192 \<le> n \<and> n \<le> 222")
    case True
    with \<open>base_code n = n\<close> have "n \<in> {198, 208, 215, 216, 222}"
      using base_code_fixed_range by blast
    then show ?thesis by (auto simp: lower_code_def base_code_def)
  next
    case False
    then have "lower_code n < 192 \<or> lower_code n = n" unfolding lower_code_def by auto
    with \<open>base_code n = n\<close> show ?thesis by (auto simp: base_code_small)
  qed
qed

lemma of_char_base_char: "of_char (base_char c) = base_code (of_char c)"
  using base_code_lt [OF nat_of_char_less_256 [of c]] by (simp add: base_char_def)

lemma base_char_lower_fixed:
  "base_char (py_lower_char (base_char c)) = py_lower_char (base_char c)"
proof -
  have "of_char (base_char (py_lower_char (base_char c))) = (of_char (py_lower_char (base_char c)) :: nat)"
    by (simp add: of_char_base_char of_char_py_lower_char base_lower_base)
  then show ?thesis by (rule of_char_eqI)
qed

lemma set_normalize_token:
  "set (normalize_token x) \<subseteq> set (py_lower (strip_accents x))"
proof -
  have "set (remove_seps (drop_num_prefix (py_strip t))) \<subseteq> set t" for t
    using set_drop_num_prefix set_py_strip by (fastforce simp: remove_seps_filter)
  then show ?thesis by (simp add: normalize_token_def)
qed

lemma low_char_fixed:
  assumes "of_char c < (65::nat)"
  shows "base_char c = c" and "py_lower_char c = c"
proof -
  have "of_char (base_char c) = (of_char c :: nat)"
    using assms by (simp add: of_char_base_char base_code_small)
  then show "base_char c = c" by (rule of_char_eqI)
  have "of_char (py_lower_char c) = (of_char c :: nat)"
    using assms by (simp add: of_char_py_lower_char lower_code_def)
  then show "py_lower_char c = c" by (rule of_char_eqI)
qed

lemma space_char_fixed:
  assumes "py_isspace c"
  shows "base_char c = c" and "py_lower_char c = c"
proof -
  have n: "of_char c < (192::nat)" "\<not> (65 \<le> (of_char c :: nat) \<and> (of_char c :: nat) \<le> 90)"
    using assms by (auto simp: py_isspace_def Let_def)
  have "of_char (base_char c) = (of_char c :: nat)"
    using n by (simp add: of_char_base_char base_code_small)
  then show "base_char c = c" by (rule of_char_eqI)
  have "of_char (py_lower_char c) = (of_char c :: nat)"
    using n by (simp add: of_char_py_lower_char lower_code_def)
  then show "py_lower_char c = c" by (rule of_char_eqI)
qed

text \<open>Accent removal and lower-casing leave digits, white space, dots and hyphens alone.\<close>

lemma lower_strip_accents_fixed:
  assumes "\<forall>c\<in>set xs. py_isdigit c \<or> py_isspace c \<or> c = CHR ''.'' \<or> c = CHR ''-''"
  shows "py_lower (strip_accents xs) = xs"
proof -
  have "py_lower_char (base_char c) = c" if "c \<in> set xs" for c
  proof -
    from assms that have "py_isspace c \<or> of_char c < (65::nat)"
      by (auto simp: py_isdigit_def)
    then show ?thesis using low_char_fixed space_char_fixed by metis
  qed
  then show ?thesis by (simp add: py_lower_def strip_accents_def map_idI)
qed

lemma ascii_letter_lowered:
  assumes "is_ascii_letter c"
  shows "\<not> py_isspace (py_lower_char (base_char c)) \<and> \<not> py_isdigit (py_lower_char (base_char c))
         \<and> py_lower_char (base_char c) \<noteq> CHR ''.'' \<and> py_lower_char (base_char c) \<noteq> CHR ''-''"
proof -
  have "of_char c < (192::nat)" using assms by (auto simp: is_ascii_letter_def Let_def)
  then have b: "of_char (base_char c) = (of_char c :: nat)"
    by (simp add: of_char_base_char base_code_small)
  have "97 \<le> (of_char (py_lower_char (base_char c)) :: nat) \<and> (of_char (py_lower_char (base_char c)) :: nat) \<le> 122"
    using assms by (auto simp: of_char_py_lower_char b lower_code_def is_ascii_letter_def Let_def)
  then show ?thesis
    by (auto simp: py_isspace_def py_isdigit_def Let_def dest: arg_cong [where f = "of_char :: char \<Rightarrow> nat"])
qed

lemma dropWhile_snoc_keep: "\<not> P a \<Longrightarrow> dropWhile P (ys @ [a]) = dropWhile P ys @ [a]"
  by (induction ys) auto

lemma py_strip_hd:
  assumes "t \<noteq> []" "\<not> py_isspace (hd t)"
  shows "py_strip t \<noteq> [] \<and> hd (py_strip t) = hd t"
proof -
  obtain a r where t: "t = a # r" using assms(1) by (cases t) auto
  with assms have "dropWhile py_isspace (rev r @ [a]) = dropWhile py_isspace (rev r) @ [a]"
    by (simp add: dropWhile_snoc_keep)
  with t assms show ?thesis by (simp add: py_strip_def)
qed

lemma py_strip_append_left:
  assumes "x \<noteq> []" "\<not> py_isspace (hd x)" "t \<noteq> []" "\<not> py_isspace (hd t)"
  shows "py_strip (x @ t) = x @ py_strip t"
proof -
  have d1: "dropWhile py_isspace (x @ t) = x @ t"
    using assms(1,2) by (cases x) auto
  have d2: "dropWhile py_isspace t = t"
    using assms(3,4) by (cases t) auto
  have "hd t \<in> set (rev t)" using assms(3) by simp
  then have "dropWhile py_isspace (rev t @ rev x) = dropWhile py_isspace (rev t) @ rev x"
    using assms(4) by (rule dropWhile_append1)
  then show ?thesis by (simp add: py_strip_def d1 d2)
qed

subsection \<open>Properties of the normaliser\<close>

text \<open>
  The output of \<open>_normalize_token\<close> contains no space, dot, underscore or hyphen,
  no upper-case letter and no accented letter: applying accent removal or lower-casing
  to it changes nothing.
\<close>

lemma normalize_token_chars:
  "\<forall>c\<in>set (normalize_token x). \<not> is_sep c \<and> base_char c = c \<and> py_lower_char c = c"
proof
  fix c assume c: "c \<in> set (normalize_token x)"
  then have "\<not> is_sep c"
    by (simp add: normalize_token_def remove_seps_filter)
  moreover from c set_normalize_token have "c \<in> set (py_lower (strip_accents x))" by blast
  then obtain d where "c = py_lower_char (base_char d)"
    by (auto simp: py_lower_def strip_accents_def)
  then have "base_char c = c \<and> py_lower_char c = c"
    by (simp add: base_char_lower_fixed)
  ultimately show "\<not> is_sep c \<and> base_char c = c \<and> py_lower_char c = c" by simp
qed

text \<open>
  The regular expression deletes exactly a prefix of the shape it describes when the
  rest starts with a character that is neither white space, a digit, a dot nor a hyphen.
\<close>

lemma drop_num_prefix_prefixed:
  assumes ds: "ds \<noteq> []" "\<forall>c\<in>set ds. py_isdigit c"
    and w: "\<forall>c\<in>set w1. py_isspace c" "\<forall>c\<in>set w2. py_isspace c"
    and p: "p = [] \<or> p = ''.'' \<or> p = ''-''"
    and u: "u \<noteq> []" "\<not> py_isspace (hd u) \<and> \<not> py_isdigit (hd u) \<and> hd u \<noteq> CHR ''.'' \<and> hd u \<noteq> CHR ''-''"
  shows "drop_num_prefix (ds @ w1 @ p @ w2 @ u) = u"
proof -
  have du: "dropWhile py_isspace u = u" using u by (cases u) auto
  have case_u: "(case u of [] \<Rightarrow> [] | c # r \<Rightarrow> if c = CHR ''.'' \<or> c = CHR ''-'' then r else u) = u"
    using u by (cases u) auto
  have sp_dig: "\<not> py_isdigit c" if "py_isspace c" for c
    using that by (auto simp: py_isdigit_def py_isspace_def Let_def)
  have "\<not> py_isdigit (hd (p @ w2 @ u))"
    using p w(2) u sp_dig by (cases w2) (auto simp: py_isdigit_def Let_def)
  then have hdR: "\<not> py_isdigit (hd (w1 @ p @ w2 @ u))"
    using w(1) sp_dig by (cases w1) auto
  have dig: "dropWhile py_isdigit (ds @ w1 @ p @ w2 @ u) = w1 @ p @ w2 @ u"
  proof -
    have "dropWhile py_isdigit (w1 @ p @ w2 @ u) = w1 @ p @ w2 @ u"
      using hdR u by (simp add: dropWhile_eq_self_iff)
    then show ?thesis using ds(2) by (simp add: dropWhile_append2)
  qed
  have hdX: "ds @ w1 @ p @ w2 @ u \<noteq> [] \<and> py_isdigit (hd (ds @ w1 @ p @ w2 @ u))"
    using ds by (cases ds) auto
  show ?thesis
    using p
  proof (elim disjE)
    assume "p = []"
    then have "dropWhile py_isspace (dropWhile py_isdigit (ds @ w1 @ p @ w2 @ u)) = u"
      using dig w du by (simp add: dropWhile_append2)
    then show ?thesis using hdX case_u du by (simp add: drop_num_prefix_def Let_def)
  next
    assume p1: "p = ''.''"
    have "\<not> py_isspace CHR ''.''" by (simp add: py_isspace_def)
    then have "dropWhile py_isspace (dropWhile py_isdigit (ds @ w1 @ p @ w2 @ u)) = CHR ''.'' # w2 @ u"
      using dig w(1) p1 by (simp add: dropWhile_append2)
    then show ?thesis using hdX du w(2) by (simp add: drop_num_prefix_def Let_def dropWhile_append2)
  next
    assume p1: "p = ''-''"
    have "\<not> py_isspace CHR ''-''" by (simp add: py_isspace_def)
    then have "dropWhile py_isspace (dropWhile py_isdigit (ds @ w1 @ p @ w2 @ u)) = CHR ''-'' # w2 @ u"
      using dig w(1) p1 by (simp add: dropWhile_append2)
    then show ?thesis using hdX du w(2) by (simp add: drop_num_prefix_def Let_def dropWhile_append2)
  qed
qed

text \<open>
  C14.  Folder names that differ only in an ordinal prefix normalise alike: for any
  digits, then any white space, at most one dot or hyphen and any white space (what
  \<open>^\d+\s*[\.\-]?\s*\<close> matches), followed by a name that starts with a letter,
  the prefix is invisible to \<open>_normalize_token\<close>.  This is what makes
  \<open>"02. FEVEREIRO"\<close>, \<open>"2.FEVEREIRO"\<close> and \<open>"FEVEREIRO"\<close> the same folder.
\<close>

theorem normalize_token_ordinal_prefix:
  assumes ds: "ds \<noteq> []" "\<forall>c\<in>set ds. py_isdigit c"
    and w: "\<forall>c\<in>set w1. py_isspace c" "\<forall>c\<in>set w2. py_isspace c"
    and p: "p = [] \<or> p = ''.'' \<or> p = ''-''"
    and s: "s \<noteq> []" "is_ascii_letter (hd s)"
  shows "normalize_token (ds @ w1 @ p @ w2 @ s) = normalize_token s"
proof -
  define t where "t = py_lower (strip_accents s)"
  define u where "u = py_strip t"
  have hs: "\<not> py_isspace (hd t) \<and> \<not> py_isdigit (hd t) \<and> hd t \<noteq> CHR ''.'' \<and> hd t \<noteq> CHR ''-''"
    and tne: "t \<noteq> []"
    using s ascii_letter_lowered [of "hd s"]
    by (auto simp: t_def py_lower_def strip_accents_def hd_map)
  have une: "u \<noteq> []" and hu: "hd u = hd t"
    using py_strip_hd [OF tne] hs by (auto simp: u_def)
  have fixed: "py_lower (strip_accents (ds @ w1 @ p @ w2)) = ds @ w1 @ p @ w2"
    using ds w p by (intro lower_strip_accents_fixed) auto
  have low: "py_lower (strip_accents (ds @ w1 @ p @ w2 @ s)) = (ds @ w1 @ p @ w2) @ t"
    using fixed by (simp add: t_def py_lower_def strip_accents_def)
  have hdx: "\<not> py_isspace (hd (ds @ w1 @ p @ w2))"
    using ds by (cases ds) (auto simp: py_isdigit_def py_isspace_def Let_def)
  have strip: "py_strip ((ds @ w1 @ p @ w2) @ t) = (ds @ w1 @ p @ w2) @ u"
    unfolding u_def using ds hdx tne hs by (intro py_strip_append_left) auto
  have "drop_num_prefix (ds @ w1 @ p @ w2 @ u) = u"
    using ds w p une hu hs by (intro drop_num_prefix_prefixed) auto
  moreover have "drop_num_prefix u = u"
    using une hu hs by (intro drop_num_prefix_id) simp
  ultimately show ?thesis
    using low strip by (simp add: normalize_token_def u_def t_def)
qed

lemma normalize_token_fixed_parts:
  "strip_accents (normalize_token x) = normalize_token x"
  "py_lower (normalize_token x) = normalize_token x"
  "remove_seps (normalize_token x) = normalize_token x"
  using normalize_token_chars [of x]
  by (simp_all add: strip_accents_def py_lower_def map_idI remove_seps_filter)

subsection \<open>Lengths\<close>

text \<open>Every stage of the normaliser after the character maps only removes characters.\<close>

lemma length_dropWhile_hd:
  "xs \<noteq> [] \<Longrightarrow> P (hd xs) \<Longrightarrow> length (dropWhile P xs) < length xs"
  by (cases xs) (simp_all add: le_imp_less_Suc length_dropWhile_le)

lemma length_remove_seps: "length (remove_seps s) \<le> length s"
  by (simp add: remove_seps_filter)

lemma length_py_strip: "length (py_strip s) \<le> length s"
  using length_dropWhile_le [of py_isspace "rev (dropWhile py_isspace s)"]
    length_dropWhile_le [of py_isspace s]
  by (simp add: py_strip_def)

lemma length_py_strip_less:
  assumes "\<not> trimmed s"
  shows "length (py_strip s) < length s"
proof -
  have ne: "s \<noteq> []" using assms by (simp add: trimmed_def)
  let ?t = "dropWhile py_isspace s"
  have t: "length ?t \<le> length s" by (rule length_dropWhile_le)
  show ?thesis
  proof (cases "py_isspace (hd s)")
    case True
    have "length ?t < length s" by (rule length_dropWhile_hd [of s py_isspace, OF ne True])
    then show ?thesis
      using length_dropWhile_le [of py_isspace "rev ?t"] by (simp add: py_strip_def)
  next
    case False
    then have l: "py_isspace (last s)" using assms ne by (simp add: trimmed_def)
    have "?t = s" using False ne by (cases s) simp_all
    then have "length (dropWhile py_isspace (rev ?t)) < length (rev ?t)"
      using l ne by (intro length_dropWhile_hd) (simp_all add: hd_rev)
    then show ?thesis by (simp add: py_strip_def \<open>?t = s\<close>)
  qed
qed

lemma length_skip_sep:
  "length (case t of [] \<Rightarrow> [] | c # r \<Rightarrow> if P c then r else t) \<le> length t"
  by (cases t) auto

lemma length_drop_num_prefix: "length (drop_num_prefix s) \<le> length s"
proof -
  note length_skip_sep [where P = "\<lambda>c. c = CHR ''.'' \<or> c = CHR ''-''"]
  then show ?thesis
    by (simp add: drop_num_prefix_def Let_def)
       (meson length_dropWhile_le order_trans)
qed

lemma length_drop_num_prefix_less:
  assumes "s \<noteq> []" "py_isdigit (hd s)"
  shows "length (drop_num_prefix s) < length s"
proof -
  let ?s1 = "dropWhile py_isspace (dropWhile py_isdigit s)"
  have "length (dropWhile py_isdigit s) < length s" by (rule length_dropWhile_hd [of s py_isdigit, OF assms])
  then have s1: "length ?s1 < length s" by (meson length_dropWhile_le le_less_trans)
  note length_skip_sep [where P = "\<lambda>c. c = CHR ''.'' \<or> c = CHR ''-''" and t = ?s1]
  with s1 show ?thesis using assms
    by (simp add: drop_num_prefix_def Let_def) (meson length_dropWhile_le le_less_trans order_trans)
qed

subsection \<open>Idempotence\<close>

text \<open>
  C13.  \<open>_normalize_token\<close> is idempotent on a name exactly when its normal form neither
  starts with a decimal digit nor starts or ends with white space.  The specification
  (section 8) states \<open>normalize(normalize(x)) == normalize(x)\<close> for every name, but
  the regular expression removes only the first ordinal: \<open>"01. 2024"\<close> normalises to
  \<open>"2024"\<close>, whose own normal form is the empty string.
\<close>

theorem normalize_token_idem_iff:
  "normalize_token (normalize_token x) = normalize_token x \<longleftrightarrow>
     trimmed (normalize_token x) \<and> (normalize_token x = [] \<or> \<not> py_isdigit (hd (normalize_token x)))"
proof -
  let ?y = "normalize_token x"
  have again: "normalize_token ?y = remove_seps (drop_num_prefix (py_strip ?y))"
    using normalize_token_fixed_parts [of x] by (simp add: normalize_token_def [of ?y])
  show ?thesis
  proof
    assume eq: "normalize_token ?y = ?y"
    have le: "length ?y \<le> length (drop_num_prefix (py_strip ?y))"
      using again eq length_remove_seps by metis
    have tr: "trimmed ?y"
      using le length_drop_num_prefix [of "py_strip ?y"] length_py_strip_less [of ?y] by fastforce
    then have "py_strip ?y = ?y" by (rule py_strip_trimmed_id)
    then have "?y = [] \<or> \<not> py_isdigit (hd ?y)"
      using le length_drop_num_prefix_less [of ?y] by fastforce
    with tr show "trimmed ?y \<and> (?y = [] \<or> \<not> py_isdigit (hd ?y))" ..
  next
    assume a: "trimmed ?y \<and> (?y = [] \<or> \<not> py_isdigit (hd ?y))"
    then have "py_strip ?y = ?y" by (simp add: py_strip_trimmed_id)
    moreover have "drop_num_prefix ?y = ?y" using a by (simp add: drop_num_prefix_id)
    ultimately show "normalize_token ?y = ?y"
      using again normalize_token_fixed_parts(3) [of x] by simp
  qed
qed

theorem normalize_token_idem_iff_witness:
  "normalize_token (normalize_token ''02. FEVEREIRO'') = normalize_token ''02. FEVEREIRO''
   \<and> normalize_token (normalize_token ''01. 2024'') \<noteq> normalize_token ''01. 2024''
   \<and> normalize_token ''01. 2024'' = ''2024''"
proof -
  have n: "normalize_token ''02. FEVEREIRO'' = ''fevereiro''" "normalize_token ''01. 2024'' = ''2024''"
    by (simp_all add: pystr_simps)
  have "trimmed ''fevereiro''" "\<not> py_isdigit (hd ''fevereiro'')" "py_isdigit (hd ''2024'')"
    by (simp_all add: trimmed_def pystr_simps)
  then show ?thesis
    using normalize_token_idem_iff [of "''02. FEVEREIRO''"] normalize_token_idem_iff [of "''01. 2024''"] n
    by simp
qed

text \<open>
  The examples of the specification: \<open>"02. FEVEREIRO"\<close>, \<open>"2.FEVEREIRO"\<close> and
  \<open>"fevereiro"\<close> have the same normal form, and \<open>"03. MARCO"\<close> written with the
  Latin-1 letter U+00C7 normalises like \<open>"MARCO"\<close>.
\<close>

theorem normalize_token_examples:
  "normalize_token ''02. FEVEREIRO'' = ''fevereiro''
   \<and> normalize_token ''2.FEVEREIRO'' = ''fevereiro''
   \<and> normalize_token ''fevereiro'' = ''fevereiro''
   \<and> normalize_token (''03. MAR'' @ [char_of (199::nat)] @ ''O'') = normalize_token ''MARCO''
   \<and> normalize_token ''MARCO'' = ''marco''"
  by (simp add: pystr_simps)

theorem normalize_token_ordinal_prefix_witness:
  "normalize_token (''02'' @ [] @ ''.'' @ '' '' @ ''FEVEREIRO'') = normalize_token ''FEVEREIRO''"
proof (rule normalize_token_ordinal_prefix)
  show "is_ascii_letter (hd ''FEVEREIRO'')" by (simp add: is_ascii_letter_def)
qed (simp_all add: pystr_simps)

end
