(* ===== verification/FileSystem.thy ===== *)
theory FileSystem
  imports PyLib
begin

text \<open>
  The file system as the sources see it through \<open>pathlib\<close> and \<open>shutil\<close>, written
  from the library's documented behaviour (not code of the repository).  A state holds
  the entries below the root in directory-listing order (the order \<open>iterdir\<close>
  yields, which the platform decides; new entries are listed last), the directories in
  which creating or writing an entry is refused with \<open>PermissionError\<close>, and the
  working directory that relative path strings start from.  The root always exists and
  is a directory.  Operations that may raise return the exception as a value, together
  with the state reached so far: \<open>mkdir(parents=True)\<close> keeps the parents it created
  before failing, as on a real disk.
\<close>

record file_data =
  content :: string
  mtime :: nat

datatype node = Dir | File file_data

record fs =
  entries :: "(path \<times> node) list"
  readonly :: "path list"
  cwd :: path

datatype fs_error = FileNotFound | FileExists | NotADirectory | IsADirectory
  | PermissionDenied | SameFile

definition fs_lookup :: "fs \<Rightarrow> path \<Rightarrow> node option" where
  "fs_lookup fs p = (if p = [] then Some Dir else map_of (entries fs) p)"

definition exists :: "fs \<Rightarrow> path \<Rightarrow> bool" where
  "exists fs p \<longleftrightarrow> fs_lookup fs p \<noteq> None"

definition is_dir :: "fs \<Rightarrow> path \<Rightarrow> bool" where
  "is_dir fs p \<longleftrightarrow> fs_lookup fs p = Some Dir"

definition is_file :: "fs \<Rightarrow> path \<Rightarrow> bool" where
  "is_file fs p \<longleftrightarrow> (case fs_lookup fs p of Some (File _) \<Rightarrow> True | _ \<Rightarrow> False)"

definition writable :: "fs \<Rightarrow> path \<Rightarrow> bool" where
  "writable fs d \<longleftrightarrow> d \<notin> set (readonly fs)"

text \<open>\<open>Path.name\<close> of a non-root path, and the immediate children of a directory.\<close>

definition path_name :: "path \<Rightarrow> name" where
  "path_name p = (if p = [] then [] else last p)"

definition children :: "fs \<Rightarrow> path \<Rightarrow> path list" where
  "children fs p = map fst (filter (\<lambda>(q, _). q \<noteq> [] \<and> butlast q = p) (entries fs))"

text \<open>\<open>Path.iterdir()\<close>: the children in listing order, or the \<open>OSError\<close> it raises.\<close>

definition iterdir :: "fs \<Rightarrow> path \<Rightarrow> fs_error + path list" where
  "iterdir fs p = (case fs_lookup fs p of
     None \<Rightarrow> Inl FileNotFound
   | Some (File _) \<Rightarrow> Inl NotADirectory
   | Some Dir \<Rightarrow> Inr (children fs p))"

text \<open>Writing an entry: in place when the path is listed already, last otherwise.\<close>

definition put :: "fs \<Rightarrow> path \<Rightarrow> node \<Rightarrow> fs" where
  "put fs p n =
     (if p \<in> set (map fst (entries fs))
      then fs\<lparr>entries := map (\<lambda>(q, m). if q = p then (q, n) else (q, m)) (entries fs)\<rparr>
      else fs\<lparr>entries := entries fs @ [(p, n)]\<rparr>)"

text \<open>
  \<open>Path(p).mkdir(parents=True, exist_ok=True)\<close>: walk the prefixes of the path from
  the root; an existing directory is passed, a missing one is created when its parent
  is writable, a file on the way raises (\<open>FileExistsError\<close> for the path itself,
  \<open>NotADirectoryError\<close> above it).
\<close>

fun mkdir_walk :: "fs \<Rightarrow> path \<Rightarrow> name list \<Rightarrow> fs \<times> fs_error option" where
  "mkdir_walk fs cur [] = (fs, None)"
| "mkdir_walk fs cur (n # ns) =
     (let p = cur @ [n] in
      case fs_lookup fs p of
        Some Dir \<Rightarrow> mkdir_walk fs p ns
      | Some (File _) \<Rightarrow> (fs, Some (if ns = [] then FileExists else NotADirectory))
      | None \<Rightarrow> if writable fs cur then mkdir_walk (put fs p Dir) p ns
                else (fs, Some PermissionDenied))"

definition mkdir_p :: "fs \<Rightarrow> path \<Rightarrow> fs \<times> fs_error option" where
  "mkdir_p fs p = mkdir_walk fs [] p"

text \<open>
  \<open>shutil.copy2(src, dst)\<close>: a directory \<open>dst\<close> means \<open>dst / src.name\<close>; the
  source must be a file; the target must not be a directory, its parent must be a
  writable directory.  Contents and modification time are copied (\<open>copystat\<close>).
  The result is the path written.
\<close>

definition copy2 :: "fs \<Rightarrow> path \<Rightarrow> path \<Rightarrow> fs \<times> (fs_error + path)" where
  "copy2 fs src dst =
     (let d = (if is_dir fs dst then dst @ [path_name src] else dst) in
      case fs_lookup fs src of
        None \<Rightarrow> (fs, Inl FileNotFound)
      | Some Dir \<Rightarrow> (fs, Inl IsADirectory)
      | Some (File f) \<Rightarrow>
          if d = src then (fs, Inl SameFile)
          else (case fs_lookup fs d of
                  Some Dir \<Rightarrow> (fs, Inl IsADirectory)
                | _ \<Rightarrow> (case fs_lookup fs (butlast d) of
                         None \<Rightarrow> (fs, Inl FileNotFound)
                       | Some (File _) \<Rightarrow> (fs, Inl NotADirectory)
                       | Some Dir \<Rightarrow> if writable fs (butlast d) then (put fs d (File f), Inr d)
                                    else (fs, Inl PermissionDenied))))"

text \<open>
  \<open>base / s\<close> for a path string \<open>s\<close>: an absolute \<open>s\<close> replaces the base.
  \<open>Path(s)\<close> alone is relative to the working directory; note that \<open>Path("")\<close> is
  \<open>Path(".")\<close>, the working directory itself.
\<close>

definition path_join :: "path \<Rightarrow> string \<Rightarrow> path" where
  "path_join base s = (if s \<noteq> [] \<and> hd s = CHR ''/'' then [] else base) @ path_parts s"

definition str_path :: "fs \<Rightarrow> string \<Rightarrow> path" where
  "str_path fs s = path_join (cwd fs) s"

text \<open>
  \<open>str(path)\<close> of an absolute path, and \<open>str(e)\<close> of the \<open>OSError\<close> a failed operation
  raises (its \<open>strerror\<close>; the file name Python appends is left out).
\<close>

definition path_str :: "path \<Rightarrow> string" where
  "path_str p = (if p = [] then ''/'' else concat (map (\<lambda>c. ''/'' @ c) p))"

fun fs_error_str :: "fs_error \<Rightarrow> string" where
  "fs_error_str FileNotFound = ''[Errno 2] No such file or directory''"
| "fs_error_str FileExists = ''[Errno 17] File exists''"
| "fs_error_str NotADirectory = ''[Errno 20] Not a directory''"
| "fs_error_str IsADirectory = ''[Errno 21] Is a directory''"
| "fs_error_str PermissionDenied = ''[Errno 13] Permission denied''"
| "fs_error_str SameFile = ''are the same file''"

text \<open>
  Well-formed states: every path is listed once, the root is not listed, and the
  parent of every entry is a directory.
\<close>

definition wf_fs :: "fs \<Rightarrow> bool" where
  "wf_fs fs \<longleftrightarrow> distinct (map fst (entries fs)) \<and> [] \<notin> set (map fst (entries fs))
     \<and> (\<forall>(p, n) \<in> set (entries fs). is_dir fs (butlast p))"

lemmas fs_defs [fs_simps] = fs_lookup_def exists_def is_dir_def is_file_def writable_def
  path_name_def children_def iterdir_def put_def mkdir_p_def copy2_def path_join_def str_path_def

subsection \<open>Looking up after a write\<close>

lemma fs_lookup_root [simp]: "fs_lookup fs [] = Some Dir"
  by (simp add: fs_lookup_def)

lemma put_frame [simp]: "readonly (put fs p n) = readonly fs" "cwd (put fs p n) = cwd fs"
  by (simp_all add: put_def)

lemma map_of_map_update:
  "map_of (map (\<lambda>(q, m). if q = p then (q, n) else (q, m)) xs) k =
     (if k = p \<and> p \<in> set (map fst xs) then Some n else map_of xs k)"
proof (induction xs)
  case Nil
  then show ?case by simp
next
  case (Cons a xs)
  obtain q m where a: "a = (q, m)" by fastforce
  show ?case using Cons.IH by (cases "q = p") (force simp: a)+
qed

lemma fs_lookup_put:
  "p \<noteq> [] \<Longrightarrow> fs_lookup (put fs p n) q = (if q = p then Some n else fs_lookup fs q)"
proof (cases "p \<in> set (map fst (entries fs))")
  case True
  assume "p \<noteq> []"
  with True show ?thesis by (simp add: put_def fs_lookup_def map_of_map_update)
next
  case False
  assume "p \<noteq> []"
  from False have "map_of (entries fs) p = None" by (simp add: map_of_eq_None_iff)
  with False \<open>p \<noteq> []\<close> show ?thesis
    by (auto simp: put_def fs_lookup_def map_add_def split: option.splits)
qed

lemma put_new_entries:
  "p \<noteq> [] \<Longrightarrow> fs_lookup fs p = None \<Longrightarrow> entries (put fs p n) = entries fs @ [(p, n)]"
  by (auto simp: put_def fs_lookup_def map_of_eq_None_iff)

lemma exists_iff_lookup: "exists fs p \<longleftrightarrow> (\<exists>n. fs_lookup fs p = Some n)"
  by (auto simp: exists_def)

subsection \<open>Well-formed states\<close>

lemma wf_fs_parent_dir:
  assumes "wf_fs fs" "fs_lookup fs p = Some n" "p \<noteq> []"
  shows "is_dir fs (butlast p)"
  using assms by (auto simp: wf_fs_def fs_lookup_def dest!: map_of_SomeD)

lemma wf_fs_prefix_dir:
  assumes "wf_fs fs" "is_dir fs (xs @ ys)"
  shows "is_dir fs xs"
  using assms(2)
proof (induction ys rule: rev_induct)
  case Nil
  then show ?case by simp
next
  case (snoc y ys)
  have "fs_lookup fs (xs @ ys @ [y]) = Some Dir" using snoc.prems by (simp add: is_dir_def)
  then have "is_dir fs (xs @ ys)"
    using wf_fs_parent_dir [OF assms(1)] by (metis append_assoc butlast_snoc snoc_eq_iff_butlast)
  then show ?case by (rule snoc.IH)
qed

lemma butlast_neq_self: "p \<noteq> [] \<Longrightarrow> butlast p \<noteq> p"
  by (cases p rule: rev_cases) auto

lemma wf_fs_put_new:
  assumes "wf_fs fs" "p \<noteq> []" "fs_lookup fs p = None" "is_dir fs (butlast p)"
  shows "wf_fs (put fs p n)"
proof -
  have e: "entries (put fs p n) = entries fs @ [(p, n)]" using assms(2,3) by (rule put_new_entries)
  have notin: "p \<notin> set (map fst (entries fs))"
    using assms(2,3) by (auto simp: fs_lookup_def map_of_eq_None_iff)
  have keep: "is_dir (put fs p n) d" if "is_dir fs d" for d
  proof -
    have "d \<noteq> p" using that assms(3) by (auto simp: is_dir_def)
    with that assms(2) show ?thesis by (simp add: is_dir_def fs_lookup_put)
  qed
  have "is_dir (put fs p n) (butlast q)" if "(q, m) \<in> set (entries (put fs p n))" for q m
  proof -
    from that e have "(q, m) \<in> set (entries fs) \<or> q = p" by auto
    then show ?thesis
    proof
      assume "(q, m) \<in> set (entries fs)"
      then have "is_dir fs (butlast q)" using assms(1) by (auto simp: wf_fs_def)
      then show ?thesis by (rule keep)
    next
      assume "q = p"
      then show ?thesis using assms(4) by (simp add: keep)
    qed
  qed
  then show ?thesis using assms(1,2) e notin by (auto simp: wf_fs_def)
qed

subsection \<open>mkdir with parents\<close>

text \<open>The walk only appends new directories: nothing listed before changes.\<close>

lemma mkdir_walk_entries:
  "mkdir_walk fs cur ns = (fs', e) \<Longrightarrow>
     \<exists>new. entries fs' = entries fs @ new \<and> (\<forall>(q, m)\<in>set new. m = Dir)
       \<and> readonly fs' = readonly fs \<and> cwd fs' = cwd fs"
proof (induction fs cur ns arbitrary: fs' e rule: mkdir_walk.induct)
  case (1 fs cur)
  then show ?case by simp
next
  case (2 fs cur n ns)
  let ?p = "cur @ [n]"
  show ?case
  proof (cases "fs_lookup fs ?p")
    case None
    show ?thesis
    proof (cases "writable fs cur")
      case True
      with None "2.prems" have r: "mkdir_walk (put fs ?p Dir) ?p ns = (fs', e)" by (simp add: Let_def)
      from "2.IH"(1) [OF refl None True r] obtain new where
        "entries fs' = entries (put fs ?p Dir) @ new" "\<forall>(q, m)\<in>set new. m = Dir"
        "readonly fs' = readonly fs" "cwd fs' = cwd fs"
        by auto
      moreover have "entries (put fs ?p Dir) = entries fs @ [(?p, Dir)]"
        using None by (simp add: put_new_entries)
      ultimately show ?thesis by (intro exI [of _ "(?p, Dir) # new"]) auto
    next
      case False
      with None "2.prems" show ?thesis by simp
    qed
  next
    case (Some m)
    show ?thesis
    proof (cases m)
      case Dir
      with Some "2.prems" have "mkdir_walk fs ?p ns = (fs', e)" by simp
      from "2.IH"(2) [OF refl Some Dir this] show ?thesis by blast
    next
      case (File f)
      with Some "2.prems" show ?thesis by auto
    qed
  qed
qed

lemma mkdir_walk_mono:
  assumes "mkdir_walk fs cur ns = (fs', e)" "fs_lookup fs q = Some m"
  shows "fs_lookup fs' q = Some m"
proof -
  obtain new where "entries fs' = entries fs @ new"
    using mkdir_walk_entries [OF assms(1)] by blast
  with assms(2) show ?thesis by (auto simp: fs_lookup_def split: if_splits)
qed

text \<open>When the walk succeeds, the whole path is a directory.\<close>

lemma mkdir_walk_ok:
  "mkdir_walk fs cur ns = (fs', None) \<Longrightarrow> is_dir fs cur \<Longrightarrow> is_dir fs' (cur @ ns)"
proof (induction fs cur ns arbitrary: fs' rule: mkdir_walk.induct)
  case (1 fs cur)
  then show ?case by simp
next
  case (2 fs cur n ns)
  let ?p = "cur @ [n]"
  show ?case
  proof (cases "fs_lookup fs ?p")
    case None
    with "2.prems" have w: "writable fs cur" and r: "mkdir_walk (put fs ?p Dir) ?p ns = (fs', None)"
      by (auto simp: Let_def split: if_splits)
    have "is_dir (put fs ?p Dir) ?p" by (simp add: is_dir_def fs_lookup_put)
    with "2.IH"(1) [OF refl None w r] show ?thesis by simp
  next
    case (Some m)
    with "2.prems" have "m = Dir" by (cases m) (auto split: if_splits)
    with Some "2.prems" have r: "mkdir_walk fs ?p ns = (fs', None)" by simp
    have "is_dir fs ?p" using Some \<open>m = Dir\<close> by (simp add: is_dir_def)
    with "2.IH"(2) [OF refl Some \<open>m = Dir\<close> r] show ?thesis by simp
  qed
qed

text \<open>Running the walk again on its own result repeats its outcome and changes nothing.\<close>

lemma mkdir_walk_idem:
  "mkdir_walk fs cur ns = (fs', e) \<Longrightarrow> mkdir_walk fs' cur ns = (fs', e)"
proof (induction fs cur ns arbitrary: fs' e rule: mkdir_walk.induct)
  case (1 fs cur)
  then show ?case by simp
next
  case (2 fs cur n ns)
  let ?p = "cur @ [n]"
  show ?case
  proof (cases "fs_lookup fs ?p")
    case None
    show ?thesis
    proof (cases "writable fs cur")
      case True
      with None "2.prems" have r: "mkdir_walk (put fs ?p Dir) ?p ns = (fs', e)" by (simp add: Let_def)
      then have "fs_lookup fs' ?p = Some Dir"
        by (rule mkdir_walk_mono) (simp add: fs_lookup_put)
      with "2.IH"(1) [OF refl None True r] show ?thesis by simp
    next
      case False
      with None "2.prems" show ?thesis by auto
    qed
  next
    case (Some m)
    show ?thesis
    proof (cases m)
      case Dir
      with Some "2.prems" have r: "mkdir_walk fs ?p ns = (fs', e)" by simp
      moreover have "fs_lookup fs ?p = Some Dir" using Some Dir by simp
      ultimately have "fs_lookup fs' ?p = Some Dir" by (rule mkdir_walk_mono)
      with "2.IH"(2) [OF refl Some Dir r] show ?thesis by simp
    next
      case (File f)
      with Some "2.prems" show ?thesis by auto
    qed
  qed
qed

text \<open>On a path that is a directory already, the walk does nothing.\<close>

lemma mkdir_walk_existing:
  "wf_fs fs \<Longrightarrow> is_dir fs (cur @ ns) \<Longrightarrow> mkdir_walk fs cur ns = (fs, None)"
proof (induction ns arbitrary: cur)
  case Nil
  then show ?case by simp
next
  case (Cons n ns)
  have "is_dir fs ((cur @ [n]) @ ns)" using Cons.prems(2) by simp
  then have "is_dir fs (cur @ [n])" by (rule wf_fs_prefix_dir [OF Cons.prems(1)])
  moreover have "mkdir_walk fs (cur @ [n]) ns = (fs, None)"
    using Cons.IH Cons.prems by simp
  ultimately show ?case by (simp add: is_dir_def)
qed

lemma mkdir_walk_wf:
  "mkdir_walk fs cur ns = (fs', e) \<Longrightarrow> wf_fs fs \<Longrightarrow> is_dir fs cur \<Longrightarrow> wf_fs fs'"
proof (induction fs cur ns arbitrary: fs' e rule: mkdir_walk.induct)
  case (1 fs cur)
  then show ?case by simp
next
  case (2 fs cur n ns)
  let ?p = "cur @ [n]"
  show ?case
  proof (cases "fs_lookup fs ?p")
    case None
    show ?thesis
    proof (cases "writable fs cur")
      case True
      with None "2.prems" have r: "mkdir_walk (put fs ?p Dir) ?p ns = (fs', e)" by (simp add: Let_def)
      have "wf_fs (put fs ?p Dir)"
        using "2.prems"(2,3) None by (intro wf_fs_put_new) auto
      moreover have "is_dir (put fs ?p Dir) ?p" by (simp add: is_dir_def fs_lookup_put)
      ultimately show ?thesis using "2.IH"(1) [OF refl None True r] by simp
    next
      case False
      with None "2.prems" show ?thesis by auto
    qed
  next
    case (Some m)
    show ?thesis
    proof (cases m)
      case Dir
      with Some "2.prems"(1) have r: "mkdir_walk fs ?p ns = (fs', e)" by simp
      have "is_dir fs ?p" using Some Dir by (simp add: is_dir_def)
      with "2.IH"(2) [OF refl Some Dir r] "2.prems"(2) show ?thesis by blast
    next
      case (File f)
      with Some "2.prems" show ?thesis by auto
    qed
  qed
qed

lemmas mkdir_p_entries = mkdir_walk_entries [of _ "[]", folded mkdir_p_def]
lemmas mkdir_p_mono = mkdir_walk_mono [of _ "[]", folded mkdir_p_def]
lemmas mkdir_p_idem = mkdir_walk_idem [of _ "[]", folded mkdir_p_def]

lemma mkdir_p_ok: "mkdir_p fs p = (fs', None) \<Longrightarrow> is_dir fs' p"
  using mkdir_walk_ok [of fs "[]" p fs'] by (simp add: mkdir_p_def is_dir_def)

lemma mkdir_p_existing: "wf_fs fs \<Longrightarrow> is_dir fs p \<Longrightarrow> mkdir_p fs p = (fs, None)"
  using mkdir_walk_existing [of fs "[]" p] by (simp add: mkdir_p_def)

lemma mkdir_p_wf: "mkdir_p fs p = (fs', e) \<Longrightarrow> wf_fs fs \<Longrightarrow> wf_fs fs'"
  using mkdir_walk_wf [of fs "[]" p fs' e] by (simp add: mkdir_p_def is_dir_def)

subsection \<open>copy2\<close>

text \<open>Writing a file where no directory is: the state stays well formed.\<close>

lemma wf_fs_put_file:
  assumes "wf_fs fs" "p \<noteq> []" "fs_lookup fs p \<noteq> Some Dir" "is_dir fs (butlast p)"
  shows "wf_fs (put fs p (File f))"
proof (cases "fs_lookup fs p")
  case None
  with assms show ?thesis by (simp add: wf_fs_put_new)
next
  case (Some m)
  then have inp: "p \<in> set (map fst (entries fs))"
    using assms(2) by (auto simp: fs_lookup_def dest!: map_of_SomeD intro: rev_image_eqI)
  let ?g = "\<lambda>(q, m). if q = p then (q, File f) else (q, m)"
  have e: "entries (put fs p (File f)) = map ?g (entries fs)" using inp by (simp add: put_def)
  have keys: "map fst (map ?g (entries fs)) = map fst (entries fs)"
    by (induction "entries fs") (auto split: prod.splits)
  have keep: "is_dir (put fs p (File f)) d" if "is_dir fs d" for d
  proof -
    have "d \<noteq> p" using that assms(3) by (auto simp: is_dir_def)
    with that assms(2) show ?thesis by (simp add: is_dir_def fs_lookup_put)
  qed
  have dirs: "is_dir (put fs p (File f)) (butlast q)" if "(q, m) \<in> set (entries (put fs p (File f)))" for q m
  proof -
    from that e obtain x where x: "x \<in> set (entries fs)" "?g x = (q, m)" by auto
    then have "(q, snd x) \<in> set (entries fs)" by (auto split: prod.splits if_splits)
    then have "is_dir fs (butlast q)" using assms(1) by (auto simp: wf_fs_def)
    then show ?thesis by (rule keep)
  qed
  have "distinct (map fst (entries (put fs p (File f))))"
    "[] \<notin> set (map fst (entries (put fs p (File f))))"
    using assms(1) by (simp_all add: e keys wf_fs_def del: map_map)
  with dirs show ?thesis unfolding wf_fs_def by blast
qed

lemma copy2_Inl: "copy2 fs src dst = (fs', Inl e) \<Longrightarrow> fs' = fs"
  by (auto simp: copy2_def Let_def split: option.splits node.splits if_splits)

text \<open>A successful copy writes the source's data at one target, a non-directory below a
  writable directory: \<open>dst\<close> itself, or \<open>dst / src.name\<close> when \<open>dst\<close> is a directory.\<close>

lemma copy2_Inr:
  assumes "copy2 fs src dst = (fs', Inr d)"
  shows "\<exists>f. fs_lookup fs src = Some (File f) \<and> fs' = put fs d (File f)
           \<and> d = (if is_dir fs dst then dst @ [path_name src] else dst)
           \<and> d \<noteq> [] \<and> fs_lookup fs d \<noteq> Some Dir \<and> is_dir fs (butlast d) \<and> writable fs (butlast d)"
  using assms
  by (auto simp: copy2_def Let_def is_dir_def split: option.splits node.splits if_splits)

lemma copy2_frame:
  assumes "copy2 fs src dst = (fs', r)" "fs_lookup fs q = Some m" "\<not> exists fs dst"
  shows "fs_lookup fs' q = Some m"
proof (cases r)
  case (Inl e)
  then show ?thesis using copy2_Inl [of fs src dst fs' e] assms(1,2) by simp
next
  case (Inr d)
  then obtain f where d: "fs' = put fs d (File f)" "d = dst" "d \<noteq> []"
    using copy2_Inr assms(1,3) by (fastforce simp: is_dir_def exists_def)
  have "q \<noteq> d" using assms(2,3) d(2) by (auto simp: exists_def)
  then show ?thesis using d assms(2) by (simp add: fs_lookup_put)
qed

lemma copy2_wf: "copy2 fs src dst = (fs', r) \<Longrightarrow> wf_fs fs \<Longrightarrow> wf_fs fs'"
  by (cases r) (auto dest: copy2_Inl copy2_Inr intro: wf_fs_put_file)

end
