(* ===== verification/PathResolver.thy ===== *)
theory PathResolver
  imports Normalize FileSystem
begin

text \<open>
  PathResolver (src/LicitagovLicitacaoMesApp.py lines 60--101 and 110--129; the
  same functions are repeated in docket.py and LicitagovLicitacaoMesApp_UI.py).
  Four lookups over the file system, each a function of the state: the MODELOS
  folder next to the application folder, the TEMPLATE folder inside it, the month
  folder (found by name or created), and the tolerant resolution of a relative
  sub-path inside the template.  A listing that raises (\<open>iterdir\<close> on a missing
  path or on a file) is the \<open>Inl\<close> branch: the functions do not catch it.
\<close>

text \<open>\<open>_listar_subdirs\<close>: the sub-directories of a folder, sorted by name.\<close>

definition listar_subdirs :: "fs \<Rightarrow> path \<Rightarrow> fs_error + path list" where
  "listar_subdirs fs p = (case iterdir fs p of
     Inl e \<Rightarrow> Inl e
   | Inr cs \<Rightarrow> Inr (sort_key path_name (filter (is_dir fs) cs)))"

text \<open>The tolerant comparison of \<open>_resolver_subpasta_flex\<close>: \<open>alvo in n or n in alvo\<close>.\<close>

definition fuzzy_match :: "string \<Rightarrow> string \<Rightarrow> bool" where
  "fuzzy_match alvo n \<longleftrightarrow> py_in alvo n \<or> py_in n alvo"

text \<open>
  \<open>_resolver_subpasta_flex\<close>: one level per component of the relative path; at each
  level the first sub-directory (by name) whose normal form equals the target's, else
  the first one that contains it or is contained in it; no match at some level ends
  the search with \<open>None\<close>.
\<close>

fun flex_walk :: "fs \<Rightarrow> path \<Rightarrow> name list \<Rightarrow> fs_error + path option" where
  "flex_walk fs cur [] = Inr (Some cur)"
| "flex_walk fs cur (part # parts) =
     (let alvo = normalize_token part in
      case listar_subdirs fs cur of
        Inl e \<Rightarrow> Inl e
      | Inr cands \<Rightarrow>
          (case find (\<lambda>c. normalize_token (path_name c) = alvo) cands of
             Some c \<Rightarrow> flex_walk fs c parts
           | None \<Rightarrow>
               (case find (\<lambda>c. fuzzy_match alvo (normalize_token (path_name c))) cands of
                  Some c \<Rightarrow> flex_walk fs c parts
                | None \<Rightarrow> Inr None)))"

declare flex_walk.simps(2) [simp del]

definition resolver_subpasta_flex :: "fs \<Rightarrow> path \<Rightarrow> string \<Rightarrow> fs_error + path option" where
  "resolver_subpasta_flex fs model_root rel_path = flex_walk fs model_root (path_parts rel_path)"

text \<open>
  \<open>detectar_pasta_modelos\<close>: inside the parent of the application folder, the
  sub-directory with the least name among those whose normal form contains
  \<open>"modelo"\<close>.
\<close>

definition detectar_pasta_modelos :: "fs \<Rightarrow> path \<Rightarrow> fs_error + path option" where
  "detectar_pasta_modelos fs app_dir =
     (let lic = butlast app_dir in
      if \<not> exists fs lic then Inr None
      else case iterdir fs lic of
        Inl e \<Rightarrow> Inl e
      | Inr cs \<Rightarrow> Inr (first_of (sort_key path_name
           (filter (\<lambda>c. is_dir fs c \<and> py_in ''modelo'' (normalize_token (path_name c))) cs))))"

text \<open>
  \<open>detectar_pasta_template\<close>: the sub-directories whose normal form contains
  \<open>"idlct"\<close>, or both \<open>"id"\<close> and \<open>"lct"\<close>; when there is none, the first
  sub-directory in listing order; the least name of the candidates.
\<close>

definition template_name_ok :: "string \<Rightarrow> bool" where
  "template_name_ok n \<longleftrightarrow> py_in ''idlct'' n \<or> (py_in ''id'' n \<and> py_in ''lct'' n)"

definition detectar_pasta_template :: "fs \<Rightarrow> path \<Rightarrow> fs_error + path option" where
  "detectar_pasta_template fs modelos_dir =
     (if \<not> exists fs modelos_dir then Inr None
      else case iterdir fs modelos_dir of
        Inl e \<Rightarrow> Inl e
      | Inr cs \<Rightarrow>
          (let cand = filter (\<lambda>c. is_dir fs c \<and> template_name_ok (normalize_token (path_name c))) cs;
               cand' = (if cand = [] then take 1 (filter (is_dir fs) cs) else cand)
           in Inr (first_of (sort_key path_name cand'))))"

text \<open>
  \<open>resolver_pasta_mes\<close>: the text between the first and the second dot of the month
  label (the whole label when it has no dot), normalised; the first sub-directory in
  listing order whose normal form contains it; otherwise the folder named by the
  label is created (with parents) and returned.
\<close>

definition month_text :: "string \<Rightarrow> string" where
  "month_text mes = (case split_on CHR ''.'' mes of _ # x # _ \<Rightarrow> py_strip x | _ \<Rightarrow> mes)"

definition resolver_pasta_mes :: "fs \<Rightarrow> path \<Rightarrow> string \<Rightarrow> fs \<times> (fs_error + path)" where
  "resolver_pasta_mes fs base mes =
     (let token = normalize_token (month_text mes) in
      case iterdir fs base of
        Inl e \<Rightarrow> (fs, Inl e)
      | Inr cs \<Rightarrow>
          (case find (\<lambda>c. is_dir fs c \<and> py_in token (normalize_token (path_name c))) cs of
             Some c \<Rightarrow> (fs, Inr c)
           | None \<Rightarrow>
               (let pasta = path_join base mes in
                case mkdir_p fs pasta of
                  (fs', None) \<Rightarrow> (fs', Inr pasta)
                | (fs', Some e) \<Rightarrow> (fs', Inl e))))"

text \<open>The month labels offered by the programs (\<open>MESES\<close>).\<close>

definition MESES :: "string list" where
  "MESES = [''01. JANEIRO'', ''02. FEVEREIRO'', ''03. MARCO'', ''04. ABRIL'',
            ''05. MAIO'', ''06. JUNHO'', ''07. JULHO'', ''08. AGOSTO'',
            ''09. SETEMBRO'', ''10. OUTUBRO'', ''11. NOVEMBRO'', ''12. DEZEMBRO'']"

text \<open>
  Example states for the concrete theorems: a template folder \<open>T\<close> holding
  \<open>3 EDITAVEIS/1 DECLARACOES\<close>; a template folder holding \<open>3. EDITAVEIS\<close> and a
  folder \<open>2024\<close>; and a tree \<open>L\<close> with the application folder \<open>L/P\<close> (two
  month folders) beside two MODELOS candidates, one holding a template.
\<close>

definition fs_decl :: fs where
  "fs_decl = \<lparr>entries = [([''T''], Dir), ([''T'', ''3 EDITAVEIS''], Dir),
      ([''T'', ''3 EDITAVEIS'', ''1 DECLARACOES''], Dir)], readonly = [], cwd = []\<rparr>"

definition fs_year :: fs where
  "fs_year = \<lparr>entries = [([''T''], Dir), ([''T'', ''3. EDITAVEIS''], Dir), ([''T'', ''2024''], Dir)],
      readonly = [], cwd = []\<rparr>"

definition fs_months :: fs where
  "fs_months = \<lparr>entries = [([''L''], Dir), ([''L'', ''P''], Dir),
      ([''L'', ''P'', ''1.JANEIRO''], Dir), ([''L'', ''P'', ''2.FEVEREIRO''], Dir),
      ([''L'', ''5. Modelos_Padrao''], Dir), ([''L'', ''5. Modelos_Padrao'', ''Antigos''], Dir),
      ([''L'', ''5. Modelos_Padrao'', ''00_ID-LCT_TEMPLATE''], Dir), ([''L'', ''4.Modelos''], Dir)],
      readonly = [], cwd = []\<rparr>"

lemmas resolver_defs = listar_subdirs_def resolver_subpasta_flex_def detectar_pasta_modelos_def
  detectar_pasta_template_def template_name_ok_def month_text_def resolver_pasta_mes_def
  fuzzy_match_def

subsection \<open>Listing sub-directories\<close>

lemma children_shape: "c \<in> set (children fs p) \<Longrightarrow> c = p @ [path_name c]"
  by (auto simp: children_def path_name_def append_butlast_last_id)

lemma listar_subdirs_Inr:
  assumes "listar_subdirs fs cur = Inr cands"
  shows "\<forall>c\<in>set cands. is_dir fs c \<and> c = cur @ [path_name c]"
    and "sorted (map path_name cands)"
  using assms children_shape
  by (auto simp: listar_subdirs_def iterdir_def split: option.splits node.splits)

lemma sorted_find_least:
  assumes "sorted (map f xs)" "find P xs = Some c" "d \<in> set xs" "P d"
  shows "f c \<le> f d"
proof -
  obtain us vs where xs: "xs = us @ c # vs" and us: "\<forall>u\<in>set us. \<not> P u"
    using find_Some_first [OF assms(2)] by blast
  with assms(3,4) have "d \<in> set (c # vs)" by auto
  moreover have "sorted (map f (c # vs))" using assms(1) xs by (simp add: sorted_append)
  ultimately show ?thesis by auto
qed

subsection \<open>Tolerant resolution\<close>

lemma fuzzy_match_refl [simp]: "fuzzy_match a a"
  by (simp add: fuzzy_match_def)

lemma flex_walk_Cons_step:
  assumes "listar_subdirs fs cur = Inr cands"
  shows "flex_walk fs cur (part # parts) =
           (case find (\<lambda>c. normalize_token (path_name c) = normalize_token part) cands of
              Some c \<Rightarrow> flex_walk fs c parts
            | None \<Rightarrow> (case find (\<lambda>c. fuzzy_match (normalize_token part) (normalize_token (path_name c))) cands of
                         Some c \<Rightarrow> flex_walk fs c parts
                       | None \<Rightarrow> Inr None))"
  using assms by (simp add: Let_def flex_walk.simps(2))

text \<open>Each step goes one level down to a listed sub-directory whose normal form matches.\<close>

lemma flex_walk_step_choice:
  assumes "listar_subdirs fs cur = Inr cands"
    and "flex_walk fs cur (part # parts) = Inr (Some p)"
  shows "\<exists>c\<in>set cands. fuzzy_match (normalize_token part) (normalize_token (path_name c))
           \<and> flex_walk fs c parts = Inr (Some p)"
proof -
  from assms(2) have "(case find (\<lambda>c. normalize_token (path_name c) = normalize_token part) cands of
              Some c \<Rightarrow> flex_walk fs c parts
            | None \<Rightarrow> (case find (\<lambda>c. fuzzy_match (normalize_token part) (normalize_token (path_name c))) cands of
                         Some c \<Rightarrow> flex_walk fs c parts
                       | None \<Rightarrow> Inr None)) = Inr (Some p)"
    by (simp only: flex_walk_Cons_step [OF assms(1)])
  then show ?thesis
    by (auto split: option.splits dest!: find_Some_D intro: bexI [where x = x2 for x2] simp del: fuzzy_match_refl)
      (metis fuzzy_match_refl)
qed

text \<open>No backtracking: a walk over a longer path continues from where the shorter stopped.\<close>

lemma flex_walk_append:
  "flex_walk fs cur (ps @ qs) =
     (case flex_walk fs cur ps of Inr (Some c) \<Rightarrow> flex_walk fs c qs | r \<Rightarrow> r)"
proof (induction fs cur ps rule: flex_walk.induct)
  case (1 fs cur)
  then show ?case by simp
next
  case (2 fs cur part parts)
  then show ?case
    by (auto simp: Let_def flex_walk.simps(2) split: sum.splits option.splits)
qed

lemma fuzzy_of_eq: "normalize_token n = normalize_token part \<Longrightarrow>
    fuzzy_match (normalize_token part) (normalize_token n)"
  by simp

text \<open>A successful walk goes down one matching sub-directory per component.\<close>

lemma flex_walk_sound:
  "flex_walk fs cur parts = Inr (Some p) \<Longrightarrow>
     \<exists>cs. p = cur @ cs
       \<and> list_all2 (\<lambda>c part. fuzzy_match (normalize_token part) (normalize_token c)) cs parts
       \<and> (parts \<noteq> [] \<longrightarrow> is_dir fs p)"
proof (induction parts arbitrary: cur)
  case Nil
  then show ?case by simp
next
  case (Cons part parts)
  obtain cands where l: "listar_subdirs fs cur = Inr cands"
    using Cons.prems by (cases "listar_subdirs fs cur") (auto simp: Let_def flex_walk.simps(2))
  from flex_walk_step_choice [OF l Cons.prems] obtain c where
    c: "c \<in> set cands" "fuzzy_match (normalize_token part) (normalize_token (path_name c))"
      "flex_walk fs c parts = Inr (Some p)"
    by blast
  have shape: "is_dir fs c" "c = cur @ [path_name c]" using listar_subdirs_Inr(1) [OF l] c(1) by auto
  from Cons.IH [OF c(3)] obtain cs where
    cs: "p = c @ cs" "list_all2 (\<lambda>c part. fuzzy_match (normalize_token part) (normalize_token c)) cs parts"
      "parts \<noteq> [] \<longrightarrow> is_dir fs p"
    by blast
  have "is_dir fs p"
  proof (cases "parts = []")
    case True
    with cs(2) have "cs = []" by simp
    with cs(1) shape(1) show ?thesis by simp
  next
    case False
    with cs(3) show ?thesis by simp
  qed
  with cs c(2) shape(2) show ?case
    by (intro exI [of _ "path_name c # cs"]) (metis append_Cons append_assoc append_self_conv2 list.rel_intros(2))
qed

text \<open>No match at some level: exact equality implies the tolerant match, so both searches fail.\<close>

lemma flex_walk_stuck:
  assumes "listar_subdirs fs cur = Inr cands"
    and "\<forall>d\<in>set cands. \<not> fuzzy_match (normalize_token part) (normalize_token (path_name d))"
  shows "flex_walk fs cur (part # parts) = Inr None"
proof -
  have "find (\<lambda>c. normalize_token (path_name c) = normalize_token part) cands = None"
    using assms(2) by (auto simp: find_None_iff dest: fuzzy_of_eq)
  moreover have "find (\<lambda>c. fuzzy_match (normalize_token part) (normalize_token (path_name c))) cands = None"
    using assms(2) by (simp add: find_None_iff)
  ultimately show ?thesis by (simp add: flex_walk_Cons_step [OF assms(1)])
qed

subsection \<open>Properties of the PathResolver\<close>

text \<open>
  C15.  \<open>_resolver_subpasta_flex\<close> is sound: a result it returns lies below the root,
  one level per component of the relative path, each level's folder name matching the
  component (after normalisation, equal or contained one in the other), and it is a
  directory.
\<close>

theorem resolver_flex_sound:
  assumes "resolver_subpasta_flex fs root rel = Inr (Some p)"
  shows "\<exists>cs. p = root @ cs
     \<and> list_all2 (\<lambda>c part. fuzzy_match (normalize_token part) (normalize_token c)) cs (path_parts rel)
     \<and> (path_parts rel \<noteq> [] \<longrightarrow> is_dir fs p)"
  using assms unfolding resolver_subpasta_flex_def by (rule flex_walk_sound)

text \<open>
  C16.  \<open>_resolver_subpasta_flex\<close> does not backtrack: when the walk over the first
  components reaches a folder in which no sub-directory matches the next component,
  the whole resolution fails, whatever the later components are.
\<close>

theorem resolver_flex_no_backtracking:
  assumes "path_parts rel = ps @ part # qs"
    and "flex_walk fs root ps = Inr (Some c)"
    and "listar_subdirs fs c = Inr cands"
    and "\<forall>d\<in>set cands. \<not> fuzzy_match (normalize_token part) (normalize_token (path_name d))"
  shows "resolver_subpasta_flex fs root rel = Inr None"
  using assms by (simp add: resolver_subpasta_flex_def flex_walk_append flex_walk_stuck)

text \<open>
  C17.  Exact matches come first: when some sub-directory's normal form equals the
  component's, the walk continues in such a sub-directory, the one with the least name.
\<close>

theorem resolver_flex_prefers_exact:
  assumes "listar_subdirs fs cur = Inr cands" "d \<in> set cands"
    and "normalize_token (path_name d) = normalize_token part"
  shows "\<exists>c\<in>set cands. normalize_token (path_name c) = normalize_token part
           \<and> path_name c \<le> path_name d \<and> flex_walk fs cur (part # parts) = flex_walk fs c parts"
proof -
  let ?P = "\<lambda>c. normalize_token (path_name c) = normalize_token part"
  obtain c where c: "find ?P cands = Some c"
    using assms(2,3) by (cases "find ?P cands") (auto simp: find_None_iff)
  have "path_name c \<le> path_name d"
    using sorted_find_least [OF listar_subdirs_Inr(2) [OF assms(1)] c assms(2,3)] .
  with c show ?thesis by (auto simp: flex_walk_Cons_step [OF assms(1)])
qed

text \<open>
  \<open>resolver_pasta_mes\<close> returns a directory whenever it returns: either the
  existing folder it found or the folder it has just created.  The check
  \<open>if not pasta_mes.exists()\<close> that \<open>App._criar\<close> makes on its result can
  therefore never hold.
\<close>

theorem resolver_pasta_mes_dir:
  assumes "resolver_pasta_mes fs base mes = (fs', Inr p)"
  shows "is_dir fs' p"
proof -
  obtain cs where cs: "iterdir fs base = Inr cs"
    using assms by (cases "iterdir fs base") (auto simp: resolver_pasta_mes_def Let_def)
  let ?P = "\<lambda>c. is_dir fs c \<and> py_in (normalize_token (month_text mes)) (normalize_token (path_name c))"
  show ?thesis
  proof (cases "find ?P cs")
    case (Some c)
    with assms cs have "fs' = fs" "p = c" by (auto simp: resolver_pasta_mes_def Let_def)
    with Some show ?thesis by auto
  next
    case None
    with assms cs have "mkdir_p fs (path_join base mes) = (fs', None)" "p = path_join base mes"
      by (auto simp: resolver_pasta_mes_def Let_def split: prod.splits option.splits)
    then show ?thesis by (simp add: mkdir_p_ok)
  qed
qed

text \<open>
  C18.  \<open>resolver_pasta_mes\<close> reuses an existing month folder: when some listed
  sub-directory's normal form contains the month's normalised text, nothing is created
  and the first such sub-directory in listing order is returned.
\<close>

theorem resolver_pasta_mes_reuses:
  assumes "iterdir fs base = Inr cs" "c \<in> set cs" "is_dir fs c"
    and "py_in (normalize_token (month_text mes)) (normalize_token (path_name c))"
  shows "\<exists>us c' vs. cs = us @ c' # vs \<and> resolver_pasta_mes fs base mes = (fs, Inr c')
           \<and> is_dir fs c' \<and> py_in (normalize_token (month_text mes)) (normalize_token (path_name c'))
           \<and> (\<forall>u\<in>set us. \<not> (is_dir fs u \<and> py_in (normalize_token (month_text mes)) (normalize_token (path_name u))))"
proof -
  let ?P = "\<lambda>c. is_dir fs c \<and> py_in (normalize_token (month_text mes)) (normalize_token (path_name c))"
  obtain c' where f: "find ?P cs = Some c'"
    using assms(2-4) by (cases "find ?P cs") (auto simp: find_None_iff)
  obtain us vs where "cs = us @ c' # vs" "\<forall>u\<in>set us. \<not> ?P u"
    using find_Some_first [OF f] by blast
  moreover have "resolver_pasta_mes fs base mes = (fs, Inr c')"
    using assms(1) f by (simp add: resolver_pasta_mes_def Let_def)
  moreover have "?P c'" using f by auto
  ultimately show ?thesis by blast
qed

lemma sort_key_Nil_iff [simp]: "sort_key f xs = [] \<longleftrightarrow> xs = []"
  by (metis length_0_conv length_sort)

text \<open>
  C19.  \<open>detectar_pasta_modelos\<close> finds MODELOS exactly when there is one: it returns
  None only when the parent of the application folder does not exist or has no
  sub-directory whose normal form contains \<open>"modelo"\<close>; otherwise it returns such a
  sub-directory with the least name.
\<close>

theorem detectar_pasta_modelos_least:
  assumes "detectar_pasta_modelos fs app = Inr r"
  shows "(r = None \<longleftrightarrow> \<not> exists fs (butlast app)
            \<or> (\<forall>c\<in>set (children fs (butlast app)). \<not> (is_dir fs c \<and> py_in ''modelo'' (normalize_token (path_name c)))))
         \<and> (\<forall>m. r = Some m \<longrightarrow> m \<in> set (children fs (butlast app)) \<and> is_dir fs m
              \<and> py_in ''modelo'' (normalize_token (path_name m))
              \<and> (\<forall>c\<in>set (children fs (butlast app)).
                    is_dir fs c \<and> py_in ''modelo'' (normalize_token (path_name c)) \<longrightarrow> path_name m \<le> path_name c))"
proof (cases "exists fs (butlast app)")
  case False
  then show ?thesis using assms by (simp add: detectar_pasta_modelos_def Let_def)
next
  case True
  let ?P = "\<lambda>c. is_dir fs c \<and> py_in ''modelo'' (normalize_token (path_name c))"
  have r: "r = first_of (sort_key path_name (filter ?P (children fs (butlast app))))"
    using assms True by (auto simp: detectar_pasta_modelos_def exists_def iterdir_def Let_def
                             split: option.splits node.splits)
  have none: "r = None \<longleftrightarrow> (\<forall>c\<in>set (children fs (butlast app)). \<not> ?P c)"
    using r by (simp add: filter_empty_conv)
  have some: "m \<in> set (children fs (butlast app)) \<and> ?P m
              \<and> (\<forall>c\<in>set (children fs (butlast app)). ?P c \<longrightarrow> path_name m \<le> path_name c)"
    if "r = Some m" for m
    using first_of_sort_key_in [of path_name _ m] first_of_sort_key_least [of path_name _ m] r that
    by fastforce
  show ?thesis using True none some by blast
qed

lemma template_name_ok_iff: "template_name_ok n \<longleftrightarrow> py_in ''id'' n \<and> py_in ''lct'' n"
proof -
  have "py_in ''idlct'' n \<Longrightarrow> py_in ''id'' n \<and> py_in ''lct'' n"
    by (metis append.left_neutral append_Cons sublist_append_leftI sublist_append_rightI
        sublist_order.order_trans)
  then show ?thesis by (auto simp: template_name_ok_def)
qed

text \<open>
  \<open>detectar_pasta_template\<close> prefers a sub-directory whose normal form contains
  \<open>"id"\<close> and \<open>"lct"\<close> (\<open>"idlct"\<close> adds nothing: it contains both) and then
  returns one with the least name; when there is none it returns the first
  sub-directory in listing order, a choice the platform's listing order decides.
\<close>

theorem detectar_pasta_template_choice:
  assumes "detectar_pasta_template fs d = Inr (Some t)" and "iterdir fs d = Inr cs"
  shows "((\<exists>c\<in>set cs. is_dir fs c \<and> template_name_ok (normalize_token (path_name c))) \<longrightarrow>
           t \<in> set cs \<and> is_dir fs t \<and> template_name_ok (normalize_token (path_name t))
           \<and> (\<forall>c\<in>set cs. is_dir fs c \<and> template_name_ok (normalize_token (path_name c)) \<longrightarrow>
                path_name t \<le> path_name c))
         \<and> (\<not> (\<exists>c\<in>set cs. is_dir fs c \<and> template_name_ok (normalize_token (path_name c))) \<longrightarrow>
           t = hd (filter (is_dir fs) cs))"
proof -
  let ?P = "\<lambda>c. is_dir fs c \<and> template_name_ok (normalize_token (path_name c))"
  have e: "exists fs d" using assms(2) by (auto simp: iterdir_def exists_def split: option.splits)
  have a: "(\<exists>c\<in>set cs. ?P c) \<longrightarrow> t \<in> set cs \<and> is_dir fs t \<and> template_name_ok (normalize_token (path_name t))
           \<and> (\<forall>c\<in>set cs. ?P c \<longrightarrow> path_name t \<le> path_name c)"
  proof
    assume "\<exists>c\<in>set cs. ?P c"
    then have ne: "filter ?P cs \<noteq> []" by (auto simp: filter_empty_conv)
    with assms e have r: "first_of (sort_key path_name (filter ?P cs)) = Some t"
      by (simp add: detectar_pasta_template_def Let_def)
    have "t \<in> set (filter ?P cs)" using r by (rule first_of_sort_key_in)
    moreover have "path_name t \<le> path_name c" if "c \<in> set cs" "?P c" for c
      using first_of_sort_key_least [OF r] that by simp
    ultimately show "t \<in> set cs \<and> is_dir fs t \<and> template_name_ok (normalize_token (path_name t))
           \<and> (\<forall>c\<in>set cs. ?P c \<longrightarrow> path_name t \<le> path_name c)" by auto
  qed
  have b: "\<not> (\<exists>c\<in>set cs. ?P c) \<longrightarrow> t = hd (filter (is_dir fs) cs)"
  proof
    assume "\<not> (\<exists>c\<in>set cs. ?P c)"
    then have "filter ?P cs = []" by (auto simp: filter_empty_conv)
    with assms e have "first_of (sort_key path_name (take 1 (filter (is_dir fs) cs))) = Some t"
      by (simp add: detectar_pasta_template_def Let_def)
    then show "t = hd (filter (is_dir fs) cs)"
      by (cases "filter (is_dir fs) cs") auto
  qed
  show ?thesis using a b by blast
qed

subsection \<open>The resolvers on concrete folder trees\<close>

text \<open>Listings and normal forms of the fixture trees, computed once.\<close>

lemma decl_root: "listar_subdirs fs_decl [''T''] = Inr [[''T'', ''3 EDITAVEIS'']]"
  by (simp add: fs_decl_def listar_subdirs_def fs_simps)

lemma decl_edit: "listar_subdirs fs_decl [''T'', ''3 EDITAVEIS''] = Inr [[''T'', ''3 EDITAVEIS'', ''1 DECLARACOES'']]"
  by (simp add: fs_decl_def listar_subdirs_def fs_simps)

lemma decl_leaf: "listar_subdirs fs_decl [''T'', ''3 EDITAVEIS'', ''1 DECLARACOES''] = Inr []"
  by (simp add: fs_decl_def listar_subdirs_def fs_simps)

lemma norm_edit: "normalize_token ''3 EDITAVEIS'' = ''editaveis''"
    "normalize_token ''3. EDITAVEIS'' = ''editaveis''"
    "normalize_token ''1 DECLARACOES'' = ''declaracoes''"
    "normalize_token ''1. DECLARACAO'' = ''declaracao''"
    "normalize_token ''1. DECLARACOES'' = ''declaracoes''"
    "normalize_token ''9. NADA'' = ''nada''"
  by (simp_all add: pystr_simps)

lemma months_P: "iterdir fs_months [''L'', ''P''] = Inr [[''L'', ''P'', ''1.JANEIRO''], [''L'', ''P'', ''2.FEVEREIRO'']]"
  by (simp add: fs_months_def fs_simps)

lemma month_norms: "normalize_token ''1.JANEIRO'' = ''janeiro''" "normalize_token ''2.FEVEREIRO'' = ''fevereiro''"
  "normalize_token (month_text ''02. FEVEREIRO'') = ''fevereiro''"
  "normalize_token (month_text ''03. MARCO'') = ''marco''"
  by (simp_all add: month_text_def pystr_simps)

lemma month_tokens:
  "normalize_token (month_text ''01. JANEIRO'') = ''janeiro''"
  "normalize_token (month_text ''02. FEVEREIRO'') = ''fevereiro''"
  "normalize_token (month_text ''03. MARCO'') = ''marco''"
  "normalize_token (month_text ''04. ABRIL'') = ''abril''"
  "normalize_token (month_text ''05. MAIO'') = ''maio''"
  "normalize_token (month_text ''06. JUNHO'') = ''junho''"
  "normalize_token (month_text ''07. JULHO'') = ''julho''"
  "normalize_token (month_text ''08. AGOSTO'') = ''agosto''"
  "normalize_token (month_text ''09. SETEMBRO'') = ''setembro''"
  "normalize_token (month_text ''10. OUTUBRO'') = ''outubro''"
  "normalize_token (month_text ''11. NOVEMBRO'') = ''novembro''"
  "normalize_token (month_text ''12. DEZEMBRO'') = ''dezembro''"
  by (simp_all add: month_text_def pystr_simps)

lemma month_names:
  "normalize_token ''01. JANEIRO'' = ''janeiro''"
  "normalize_token ''02. FEVEREIRO'' = ''fevereiro''"
  "normalize_token ''03. MARCO'' = ''marco''"
  "normalize_token ''04. ABRIL'' = ''abril''"
  "normalize_token ''05. MAIO'' = ''maio''"
  "normalize_token ''06. JUNHO'' = ''junho''"
  "normalize_token ''07. JULHO'' = ''julho''"
  "normalize_token ''08. AGOSTO'' = ''agosto''"
  "normalize_token ''09. SETEMBRO'' = ''setembro''"
  "normalize_token ''10. OUTUBRO'' = ''outubro''"
  "normalize_token ''11. NOVEMBRO'' = ''novembro''"
  "normalize_token ''12. DEZEMBRO'' = ''dezembro''"
  by (simp_all add: pystr_simps)

text \<open>Each general property above, applied where its hypotheses hold.\<close>

theorem resolver_flex_sound_witness:
  "resolver_subpasta_flex fs_decl [''T''] ''3. EDITAVEIS'' = Inr (Some [''T'', ''3 EDITAVEIS''])
   \<and> list_all2 (\<lambda>c part. fuzzy_match (normalize_token part) (normalize_token c))
        [''3 EDITAVEIS''] (path_parts ''3. EDITAVEIS'')
   \<and> is_dir fs_decl [''T'', ''3 EDITAVEIS'']"
proof -
  have pp: "path_parts ''3. EDITAVEIS'' = [''3. EDITAVEIS'']" by (simp add: pystr_simps)
  have r: "resolver_subpasta_flex fs_decl [''T''] ''3. EDITAVEIS'' = Inr (Some [''T'', ''3 EDITAVEIS''])"
    by (simp add: resolver_subpasta_flex_def pp flex_walk_Cons_step [OF decl_root] norm_edit path_name_def)
  show ?thesis using r resolver_flex_sound [OF r] pp by auto
qed

theorem resolver_flex_no_backtracking_witness:
  "path_parts ''9. NADA/1. X'' = [] @ ''9. NADA'' # [''1. X'']
   \<and> flex_walk fs_decl [''T''] [] = Inr (Some [''T''])
   \<and> listar_subdirs fs_decl [''T''] = Inr [[''T'', ''3 EDITAVEIS'']]
   \<and> \<not> fuzzy_match (normalize_token ''9. NADA'') (normalize_token (path_name [''T'', ''3 EDITAVEIS'']))
   \<and> resolver_subpasta_flex fs_decl [''T''] ''9. NADA/1. X'' = Inr None"
proof -
  have pp: "path_parts ''9. NADA/1. X'' = [] @ ''9. NADA'' # [''1. X'']" by (simp add: pystr_simps)
  have w: "flex_walk fs_decl [''T''] [] = Inr (Some [''T''])" by simp
  have nm: "\<forall>d\<in>set [[''T'', ''3 EDITAVEIS'']]. \<not> fuzzy_match (normalize_token ''9. NADA'') (normalize_token (path_name d))"
    by (simp add: norm_edit path_name_def fuzzy_match_def sublist_code)
  show ?thesis using resolver_flex_no_backtracking [OF pp w decl_root nm] pp decl_root nm by simp
qed

theorem resolver_flex_prefers_exact_witness:
  "listar_subdirs fs_decl [''T'', ''3 EDITAVEIS''] = Inr [[''T'', ''3 EDITAVEIS'', ''1 DECLARACOES'']]
   \<and> normalize_token (path_name [''T'', ''3 EDITAVEIS'', ''1 DECLARACOES'']) = normalize_token ''1. DECLARACOES''
   \<and> flex_walk fs_decl [''T'', ''3 EDITAVEIS''] [''1. DECLARACOES'']
       = Inr (Some [''T'', ''3 EDITAVEIS'', ''1 DECLARACOES''])"
proof -
  have e: "normalize_token (path_name [''T'', ''3 EDITAVEIS'', ''1 DECLARACOES'']) = normalize_token ''1. DECLARACOES''"
    by (simp add: norm_edit path_name_def)
  show ?thesis using resolver_flex_prefers_exact [OF decl_edit _ e] decl_edit e by simp
qed

theorem resolver_pasta_mes_dir_witness:
  "resolver_pasta_mes fs_months [''L'', ''P''] ''03. MARCO''
     = (put fs_months [''L'', ''P'', ''03. MARCO''] Dir, Inr [''L'', ''P'', ''03. MARCO''])
   \<and> is_dir (put fs_months [''L'', ''P'', ''03. MARCO''] Dir) [''L'', ''P'', ''03. MARCO'']"
proof -
  have j: "path_join [''L'', ''P''] ''03. MARCO'' = [''L'', ''P'', ''03. MARCO'']"
    by (simp add: path_join_def pystr_simps)
  have m: "mkdir_p fs_months [''L'', ''P'', ''03. MARCO''] = (put fs_months [''L'', ''P'', ''03. MARCO''] Dir, None)"
    by (simp add: mkdir_p_def Let_def fs_lookup_def fs_months_def writable_def)
  have r: "resolver_pasta_mes fs_months [''L'', ''P''] ''03. MARCO''
     = (put fs_months [''L'', ''P'', ''03. MARCO''] Dir, Inr [''L'', ''P'', ''03. MARCO''])"
    by (simp add: resolver_pasta_mes_def months_P month_norms path_name_def sublist_code j m Let_def)
  show ?thesis using r resolver_pasta_mes_dir [OF r] by simp
qed

theorem resolver_pasta_mes_reuses_witness:
  "resolver_pasta_mes fs_months [''L'', ''P''] ''02. FEVEREIRO'' = (fs_months, Inr [''L'', ''P'', ''2.FEVEREIRO''])
   \<and> \<not> (is_dir fs_months [''L'', ''P'', ''1.JANEIRO'']
          \<and> py_in (normalize_token (month_text ''02. FEVEREIRO'')) (normalize_token ''1.JANEIRO''))"
proof -
  have d: "is_dir fs_months [''L'', ''P'', ''2.FEVEREIRO'']" by (simp add: fs_months_def fs_simps)
  have t: "py_in (normalize_token (month_text ''02. FEVEREIRO'')) (normalize_token (path_name [''L'', ''P'', ''2.FEVEREIRO'']))"
    by (simp add: month_norms path_name_def)
  obtain us c' vs where
    cs: "[[''L'', ''P'', ''1.JANEIRO''], [''L'', ''P'', ''2.FEVEREIRO'']] = us @ c' # vs"
    and r: "resolver_pasta_mes fs_months [''L'', ''P''] ''02. FEVEREIRO'' = (fs_months, Inr c')"
    and c': "is_dir fs_months c' \<and> py_in (normalize_token (month_text ''02. FEVEREIRO'')) (normalize_token (path_name c'))"
    and us: "\<forall>u\<in>set us. \<not> (is_dir fs_months u \<and> py_in (normalize_token (month_text ''02. FEVEREIRO'')) (normalize_token (path_name u)))"
    using resolver_pasta_mes_reuses [OF months_P _ d t] by auto
  have "c' \<noteq> [''L'', ''P'', ''1.JANEIRO'']"
    using c' by (auto simp: month_norms path_name_def sublist_code)
  then have "c' = [''L'', ''P'', ''2.FEVEREIRO''] \<and> us = [[''L'', ''P'', ''1.JANEIRO'']]"
    using cs by (auto simp: Cons_eq_append_conv)
  then show ?thesis using r us by (simp add: path_name_def)
qed

theorem detectar_pasta_modelos_least_witness:
  "detectar_pasta_modelos fs_months [''L'', ''P''] = Inr (Some [''L'', ''4.Modelos''])
   \<and> [''L'', ''4.Modelos''] \<in> set (children fs_months (butlast [''L'', ''P'']))
   \<and> is_dir fs_months [''L'', ''4.Modelos'']
   \<and> py_in ''modelo'' (normalize_token (path_name [''L'', ''4.Modelos'']))
   \<and> path_name [''L'', ''4.Modelos''] \<le> path_name [''L'', ''5. Modelos_Padrao'']"
proof -
  have ch: "children fs_months [''L''] = [[''L'', ''P''], [''L'', ''5. Modelos_Padrao''], [''L'', ''4.Modelos'']]"
    by (simp add: fs_months_def children_def)
  have n: "normalize_token ''P'' = ''p''" "normalize_token ''5. Modelos_Padrao'' = ''modelospadrao''"
    "normalize_token ''4.Modelos'' = ''modelos''"
    by (simp_all add: pystr_simps)
  have e: "exists fs_months [''L'']" by (simp add: fs_months_def fs_simps)
  have it: "iterdir fs_months [''L''] = Inr (children fs_months [''L''])"
    by (simp add: fs_months_def fs_simps)
  have d: "is_dir fs_months [''L'', ''P'']" "is_dir fs_months [''L'', ''5. Modelos_Padrao'']"
    "is_dir fs_months [''L'', ''4.Modelos'']"
    by (simp_all add: fs_months_def fs_simps)
  have r: "detectar_pasta_modelos fs_months [''L'', ''P''] = Inr (Some [''L'', ''4.Modelos''])"
    by (simp add: detectar_pasta_modelos_def e it ch d n path_name_def sublist_code char_order_simps)
  show ?thesis using detectar_pasta_modelos_least [OF r] r d by (simp add: ch n path_name_def sublist_code)
qed

theorem detectar_pasta_template_choice_witness:
  "detectar_pasta_template fs_months [''L'', ''5. Modelos_Padrao''] = Inr (Some [''L'', ''5. Modelos_Padrao'', ''00_ID-LCT_TEMPLATE''])
   \<and> iterdir fs_months [''L'', ''5. Modelos_Padrao''] = Inr [[''L'', ''5. Modelos_Padrao'', ''Antigos''], [''L'', ''5. Modelos_Padrao'', ''00_ID-LCT_TEMPLATE'']]
   \<and> template_name_ok (normalize_token ''00_ID-LCT_TEMPLATE'')"
proof -
  have it: "iterdir fs_months [''L'', ''5. Modelos_Padrao''] = Inr [[''L'', ''5. Modelos_Padrao'', ''Antigos''], [''L'', ''5. Modelos_Padrao'', ''00_ID-LCT_TEMPLATE'']]"
    by (simp add: fs_months_def fs_simps)
  have n: "normalize_token ''Antigos'' = ''antigos''" "normalize_token ''00_ID-LCT_TEMPLATE'' = ''idlcttemplate''"
    by (simp_all add: pystr_simps)
  have ok: "template_name_ok ''idlcttemplate''" "\<not> template_name_ok ''antigos''"
    by (simp_all add: template_name_ok_def sublist_code)
  have r: "detectar_pasta_template fs_months [''L'', ''5. Modelos_Padrao''] = Inr (Some [''L'', ''5. Modelos_Padrao'', ''00_ID-LCT_TEMPLATE''])"
    by (simp add: detectar_pasta_template_def it n ok path_name_def) (simp add: fs_months_def fs_simps)
  show ?thesis using r it n ok detectar_pasta_template_choice [OF r it] by simp
qed

text \<open>
  The Docket program's DECLARACOES button requests \<open>3. EDITAVEIS/1. DECLARACAO\<close>
  (singular).  Against a tree whose folder is \<open>1 DECLARACOES\<close> (plural) the
  request is not resolved: the walk reaches \<open>3 EDITAVEIS\<close>, and there neither
  "declaracao" nor "declaracoes" is a substring of the other (they differ in the
  ninth letter), so the tolerant match fails and the result is None.
\<close>

theorem resolver_flex_declaracoes:
  "resolver_subpasta_flex fs_decl [''T''] ''3. EDITAVEIS/1. DECLARACAO'' = Inr None"
proof -
  have pp: "path_parts ''3. EDITAVEIS/1. DECLARACAO'' = [''3. EDITAVEIS'', ''1. DECLARACAO'']"
    by (simp add: pystr_simps)
  have step: "flex_walk fs_decl [''T''] [''3. EDITAVEIS'', ''1. DECLARACAO''] =
      flex_walk fs_decl [''T'', ''3 EDITAVEIS''] [''1. DECLARACAO'']"
    by (simp add: flex_walk_Cons_step [OF decl_root] norm_edit path_name_def)
  have "\<forall>d\<in>set [[''T'', ''3 EDITAVEIS'', ''1 DECLARACOES'']].
          \<not> fuzzy_match (normalize_token ''1. DECLARACAO'') (normalize_token (path_name d))"
    by (simp add: norm_edit path_name_def fuzzy_match_def sublist_code)
  then have "flex_walk fs_decl [''T'', ''3 EDITAVEIS''] [''1. DECLARACAO''] = Inr None"
    by (rule flex_walk_stuck [OF decl_edit])
  then show ?thesis by (simp add: resolver_subpasta_flex_def pp step)
qed

text \<open>
  C20.  A folder whose name is only an ordinal (\<open>2024\<close> normalises to the empty
  string) matches every requested name, since the empty string is a substring of every
  string: when no sub-directory matches a component exactly, the walk goes on in that
  folder or in one listed before it, however unrelated the component is, and never stops
  at this level.
\<close>

theorem resolver_flex_empty_name:
  assumes "listar_subdirs fs cur = Inr cands" "d \<in> set cands" "normalize_token (path_name d) = []"
    and "\<forall>c\<in>set cands. normalize_token (path_name c) \<noteq> normalize_token part"
  shows "\<exists>c\<in>set cands. path_name c \<le> path_name d \<and> flex_walk fs cur (part # parts) = flex_walk fs c parts"
proof -
  let ?F = "\<lambda>c. fuzzy_match (normalize_token part) (normalize_token (path_name c))"
  have Fd: "?F d" using assms(3) by (simp add: fuzzy_match_def)
  then obtain c where c: "find ?F cands = Some c"
    using assms(2) by (cases "find ?F cands") (auto simp: find_None_iff)
  have le: "path_name c \<le> path_name d"
    by (rule sorted_find_least [OF listar_subdirs_Inr(2) [OF assms(1)] c assms(2) Fd])
  have "find (\<lambda>c. normalize_token (path_name c) = normalize_token part) cands = None"
    using assms(4) by (simp add: find_None_iff)
  then have "flex_walk fs cur (part # parts) = flex_walk fs c parts"
    using c by (simp add: flex_walk_Cons_step [OF assms(1)])
  moreover have "c \<in> set cands" using c by (auto dest: find_Some_D)
  ultimately show ?thesis using le by blast
qed

theorem resolver_flex_empty_name_witness:
  "resolver_subpasta_flex fs_year [''T''] ''1. HABILITACAO'' = Inr (Some [''T'', ''2024''])"
proof -
  have l: "listar_subdirs fs_year [''T''] = Inr [[''T'', ''2024''], [''T'', ''3. EDITAVEIS'']]"
    by (simp add: fs_year_def listar_subdirs_def fs_simps pystr_simps)
  have n: "normalize_token ''2024'' = []" "normalize_token ''3. EDITAVEIS'' = ''editaveis''"
    "normalize_token ''1. HABILITACAO'' = ''habilitacao''"
    by (simp_all add: pystr_simps)
  have pp: "path_parts ''1. HABILITACAO'' = [''1. HABILITACAO'']" by (simp add: pystr_simps)
  have "\<exists>c\<in>set [[''T'', ''2024''], [''T'', ''3. EDITAVEIS'']]. path_name c \<le> path_name [''T'', ''2024'']
          \<and> flex_walk fs_year [''T''] [''1. HABILITACAO''] = flex_walk fs_year c []"
    by (rule resolver_flex_empty_name [OF l]) (simp_all add: n path_name_def)
  then have "flex_walk fs_year [''T''] [''1. HABILITACAO''] = flex_walk fs_year [''T'', ''2024''] []"
    by (auto simp: path_name_def char_order_simps)
  then show ?thesis by (simp add: resolver_subpasta_flex_def pp)
qed

text \<open>
  No two month labels of \<open>MESES\<close> are confused by \<open>resolver_pasta_mes\<close>:
  the month token of one label is a substring of the normal form of another label only
  when the two labels are equal.
\<close>

theorem meses_tokens_separate:
  "\<forall>m1\<in>set MESES. \<forall>m2\<in>set MESES. py_in (normalize_token (month_text m1)) (normalize_token m2) \<longleftrightarrow> m1 = m2"
  unfolding MESES_def by (simp add: month_tokens month_names sublist_code)

theorem meses_tokens_separate_witness:
  "py_in (normalize_token (month_text ''02. FEVEREIRO'')) (normalize_token ''02. FEVEREIRO'')
   \<and> \<not> py_in (normalize_token (month_text ''02. FEVEREIRO'')) (normalize_token ''03. MARCO'')"
  using meses_tokens_separate by (simp add: MESES_def)

end
