(* ===== verification/Copier.thy ===== *)
theory Copier
  imports PathResolver
begin

text \<open>
  The ResilientCopier of LicitagovLicitacaoMesApp.py: \<open>_proximo_nome_livre\<close>
  (the first free name \<open>stem_i.suf\<close>), the per-file conflict policy shared by
  \<open>copiar_padrao_resiliente\<close> and \<open>anexar_arquivos\<close> (\<open>"pular"\<close> skips,
  \<open>"substituir"\<close> overwrites, any other string duplicates), and the two loops, each
  file's copy isolated by its own \<open>try\<close>.  A call of \<open>log(level, msg)\<close> is an event
  \<open>(level, msg)\<close> appended to the returned list; an exception that leaves a function is
  the \<open>Inl\<close> of its result.
\<close>

subsection \<open>\<open>_proximo_nome_livre\<close>\<close>

text \<open>The \<open>i\<close>-th duplicate name, \<open>f"{stem}_{i}{suf}"\<close>.\<close>

definition dup_name :: "name \<Rightarrow> nat \<Rightarrow> name" where
  "dup_name nome i = path_stem nome @ ''_'' @ nat_str i @ path_suffix nome"

text \<open>
  The \<open>while cand.exists()\<close> loop from the counter \<open>i\<close> on.  It ends because each
  round leaves one taken duplicate name behind and only finitely many are taken.
\<close>

function proximo_from :: "fs \<Rightarrow> path \<Rightarrow> name \<Rightarrow> nat \<Rightarrow> path" where
  "proximo_from fs pasta nome i =
     (if exists fs (pasta @ [dup_name nome i]) then proximo_from fs pasta nome (Suc i)
      else pasta @ [dup_name nome i])"
  by pat_completeness auto
termination
proof (relation "measure (\<lambda>(fs, pasta, nome, i). card {j. i \<le> j \<and> exists fs (pasta @ [dup_name nome j])})")
  fix fs pasta nome i
  assume e: "exists fs (pasta @ [dup_name nome i])"
  let ?S = "\<lambda>i. {j. i \<le> j \<and> exists fs (pasta @ [dup_name nome j])}"
  have "i \<in> ?S i" "i \<notin> ?S (Suc i)" using e by auto
  moreover have "?S (Suc i) \<subseteq> ?S i" by auto
  ultimately have "?S (Suc i) \<subset> ?S i" by blast
  have inj: "inj (\<lambda>j. pasta @ [dup_name nome j])"
    using inj_nat_str by (auto simp: inj_def dup_name_def)
  have "?S i \<subseteq> (\<lambda>j. pasta @ [dup_name nome j]) -` set (map fst (entries fs))"
    by (auto simp: exists_def fs_lookup_def) (metis map_of_eq_None_iff option.distinct(1))
  moreover have "finite ((\<lambda>j. pasta @ [dup_name nome j]) -` set (map fst (entries fs)))"
    using inj by (intro finite_vimageI) auto
  ultimately have "finite (?S i)" by (rule finite_subset)
  with \<open>?S (Suc i) \<subset> ?S i\<close> show "((fs, pasta, nome, Suc i), fs, pasta, nome, i)
      \<in> measure (\<lambda>(fs, pasta, nome, i). card {j. i \<le> j \<and> exists fs (pasta @ [dup_name nome j])})"
    by (simp add: psubset_card_mono)
qed simp

declare proximo_from.simps [simp del]

definition proximo_nome_livre :: "fs \<Rightarrow> path \<Rightarrow> name \<Rightarrow> path" where
  "proximo_nome_livre fs pasta nome =
     (if exists fs (pasta @ [nome]) then proximo_from fs pasta nome 1 else pasta @ [nome])"

text \<open>
  The same loop as a step relation on the counter: a round is possible while the
  candidate name is taken.
\<close>

inductive passo_livre :: "fs \<Rightarrow> path \<Rightarrow> name \<Rightarrow> nat \<Rightarrow> nat \<Rightarrow> bool" for fs pasta nome where
  ocupado: "exists fs (pasta @ [dup_name nome i]) \<Longrightarrow> passo_livre fs pasta nome i (Suc i)"

subsection \<open>The per-file conflict policy\<close>

text \<open>A call \<open>log(level, msg)\<close>.\<close>

type_synonym event = "string \<times> string"

definition quoted :: "string \<Rightarrow> string" where
  "quoted s = [CHR 0x27] @ s @ [CHR 0x27]"

text \<open>
  \<open>shutil.copy2(src, destino); log("ok", f"{tag} {destino.name}")\<close> inside the
  \<open>try\<close>, and its \<open>except Exception as e\<close> branch, whose message names the verb
  (\<open>"copiar"\<close> in \<open>copiar_padrao_resiliente\<close>, \<open>"anexar"\<close> in
  \<open>anexar_arquivos\<close>).
\<close>

definition copiar_log :: "string \<Rightarrow> fs \<Rightarrow> path \<Rightarrow> path \<Rightarrow> string \<Rightarrow> fs \<times> event list" where
  "copiar_log verbo fs src destino tag =
     (case copy2 fs src destino of
        (fs', Inr _) \<Rightarrow> (fs', [(''ok'', tag @ '' '' @ path_name destino)])
      | (fs', Inl e) \<Rightarrow> (fs', [(''error'', ''Falha ao '' @ verbo @ '' '' @ quoted (path_name src)
                                   @ '': '' @ fs_error_str e)]))"

text \<open>
  The body of the per-file loop of both functions once the source is known to be a
  file: \<open>destino = dst_dir / item.name\<close> and the three policies.
\<close>

definition transferir :: "string \<Rightarrow> fs \<Rightarrow> path \<Rightarrow> path \<Rightarrow> string \<Rightarrow> fs \<times> event list" where
  "transferir verbo fs src dst_dir politica =
     (let destino = dst_dir @ [path_name src] in
      if exists fs destino then
        (if politica = ''pular'' then
           (fs, [(''info'', ''[pular] '' @ path_name destino @ '' j'' @ [CHR 0xE1] @ '' existe.'')])
         else if politica = ''substituir'' then copiar_log verbo fs src destino ''[substituir]''
         else copiar_log verbo fs src (proximo_nome_livre fs dst_dir (path_name src)) ''[duplicar]'')
      else copiar_log verbo fs src destino ''[copiar]'')"

subsection \<open>\<open>copiar_padrao_resiliente\<close>\<close>

text \<open>\<open>for item in src_dir.iterdir(): if not item.is_file(): continue ...\<close>\<close>

fun copiar_itens :: "fs \<Rightarrow> path \<Rightarrow> string \<Rightarrow> path list \<Rightarrow> fs \<times> event list" where
  "copiar_itens fs dst_dir politica [] = (fs, [])"
| "copiar_itens fs dst_dir politica (item # items) =
     (if \<not> is_file fs item then copiar_itens fs dst_dir politica items
      else (let (fs1, ev1) = transferir ''copiar'' fs item dst_dir politica;
                (fs2, ev2) = copiar_itens fs1 dst_dir politica items
            in (fs2, ev1 @ ev2)))"

text \<open>
  Where the files of \<open>rel\<close> come from: \<open>raiz / rel\<close> when it exists, else the
  tolerant resolution when it returns an existing folder; \<open>Inr None\<close> is the
  \<open>continue\<close> after the warning, \<open>Inl\<close> an exception of the resolver.
\<close>

definition origem :: "fs \<Rightarrow> path \<Rightarrow> string \<Rightarrow> fs_error + path option" where
  "origem fs raiz rel =
     (let src_dir = path_join raiz rel in
      if exists fs src_dir then Inr (Some src_dir)
      else (case resolver_subpasta_flex fs raiz rel of
              Inl e \<Rightarrow> Inl e
            | Inr (Some alt) \<Rightarrow> if exists fs alt then Inr (Some alt) else Inr None
            | Inr None \<Rightarrow> Inr None))"

text \<open>
  The loop over the selected sub-folders.  An exception raised outside the per-file
  \<open>try\<close> (by the resolver, \<open>mkdir\<close> or \<open>iterdir\<close>) leaves the function: the
  remaining sub-folders are not visited and the error is returned beside the events
  logged so far.
\<close>

fun copiar_padrao_resiliente ::
  "fs \<Rightarrow> path \<Rightarrow> path \<Rightarrow> string \<Rightarrow> string list \<Rightarrow> fs \<times> event list \<times> fs_error option" where
  "copiar_padrao_resiliente fs raiz destino politica [] = (fs, [], None)"
| "copiar_padrao_resiliente fs raiz destino politica (rel # rels) =
     (case origem fs raiz rel of
        Inl e \<Rightarrow> (fs, [], Some e)
      | Inr None \<Rightarrow>
          (let (fs', evs, err) = copiar_padrao_resiliente fs raiz destino politica rels
           in (fs', (''warn'', ''Pasta modelo n'' @ [CHR 0xE3] @ ''o encontrada: ''
                                @ path_str (path_join raiz rel)) # evs, err))
      | Inr (Some src_dir) \<Rightarrow>
          (let dst_dir = path_join destino rel in
           case mkdir_p fs dst_dir of
             (fs1, Some e) \<Rightarrow> (fs1, [], Some e)
           | (fs1, None) \<Rightarrow>
               (case iterdir fs1 src_dir of
                  Inl e \<Rightarrow> (fs1, [], Some e)
                | Inr items \<Rightarrow>
                    (let (fs2, ev1) = copiar_itens fs1 dst_dir politica items;
                         (fs3, ev2, err) = copiar_padrao_resiliente fs2 raiz destino politica rels
                     in (fs3, ev1 @ ev2, err)))))"

subsection \<open>\<open>anexar_arquivos\<close>\<close>

fun anexar_itens :: "fs \<Rightarrow> path \<Rightarrow> string \<Rightarrow> path list \<Rightarrow> fs \<times> event list" where
  "anexar_itens fs dst_dir politica [] = (fs, [])"
| "anexar_itens fs dst_dir politica (src # srcs) =
     (if \<not> exists fs src \<or> \<not> is_file fs src then
        (let (fs', evs) = anexar_itens fs dst_dir politica srcs
         in (fs', (''warn'', ''Ignorado (n'' @ [CHR 0xE3] @ ''o '' @ [CHR 0xE9] @ '' arquivo): ''
                              @ path_str src) # evs))
      else (let (fs1, ev1) = transferir ''anexar'' fs src dst_dir politica;
                (fs2, ev2) = anexar_itens fs1 dst_dir politica srcs
            in (fs2, ev1 @ ev2)))"

definition anexar_arquivos ::
  "fs \<Rightarrow> path list \<Rightarrow> path \<Rightarrow> string \<Rightarrow> string \<Rightarrow> fs \<times> event list \<times> fs_error option" where
  "anexar_arquivos fs arquivos raiz_destino sub politica =
     (let dst_dir = path_join raiz_destino sub in
      case mkdir_p fs dst_dir of
        (fs1, Some e) \<Rightarrow> (fs1, [], Some e)
      | (fs1, None) \<Rightarrow> (let (fs2, evs) = anexar_itens fs1 dst_dir politica arquivos in (fs2, evs, None)))"

subsection \<open>Folder trees for the examples\<close>

text \<open>
  \<open>fs_dup\<close>: a destination \<open>D\<close> holding \<open>proposta.pdf\<close> and
  \<open>proposta_1.pdf\<close>, and a source folder \<open>S\<close> with another \<open>proposta.pdf\<close>.
  \<open>fs_e2e\<close>: a template \<open>T\<close> with \<open>2. PROPOSTA/modelo.docx\<close> and an empty
  destination \<open>R\<close>.  \<open>fs_abort\<close>: a template with two selected folders \<open>A\<close> and
  \<open>B\<close>, and a destination in which \<open>A\<close> is a file.
\<close>

definition fs_dup :: fs where
  "fs_dup = \<lparr>entries = [([''D''], Dir),
      ([''D'', ''proposta.pdf''], File \<lparr>content = ''v0'', mtime = 1\<rparr>),
      ([''D'', ''proposta_1.pdf''], File \<lparr>content = ''v1'', mtime = 2\<rparr>),
      ([''S''], Dir), ([''S'', ''proposta.pdf''], File \<lparr>content = ''v2'', mtime = 3\<rparr>)],
      readonly = [], cwd = []\<rparr>"

definition fs_e2e :: fs where
  "fs_e2e = \<lparr>entries = [([''T''], Dir), ([''T'', ''2. PROPOSTA''], Dir),
      ([''T'', ''2. PROPOSTA'', ''modelo.docx''], File \<lparr>content = ''m'', mtime = 7\<rparr>),
      ([''R''], Dir)], readonly = [], cwd = []\<rparr>"

definition fs_abort :: fs where
  "fs_abort = \<lparr>entries = [([''T''], Dir), ([''T'', ''A''], Dir),
      ([''T'', ''A'', ''a.txt''], File \<lparr>content = ''a'', mtime = 1\<rparr>),
      ([''T'', ''B''], Dir), ([''T'', ''B'', ''b.txt''], File \<lparr>content = ''b'', mtime = 1\<rparr>),
      ([''R''], Dir), ([''R'', ''A''], File \<lparr>content = ''x'', mtime = 1\<rparr>)],
      readonly = [], cwd = []\<rparr>"

subsection \<open>Facts on the free name\<close>

lemma dup_name_inj: "dup_name nome i = dup_name nome j \<longleftrightarrow> i = j"
  using inj_nat_str by (auto simp: dup_name_def inj_eq)

lemma proximo_from_fresh: "\<not> exists fs (proximo_from fs pasta nome i)"
proof (induction fs pasta nome i rule: proximo_from.induct)
  case (1 fs pasta nome i)
  then show ?case by (subst proximo_from.simps) simp
qed

lemma proximo_from_least:
  "\<exists>k\<ge>i. proximo_from fs pasta nome i = pasta @ [dup_name nome k]
      \<and> (\<forall>j. i \<le> j \<and> j < k \<longrightarrow> exists fs (pasta @ [dup_name nome j]))"
proof (induction fs pasta nome i rule: proximo_from.induct)
  case (1 fs pasta nome i)
  show ?case
  proof (cases "exists fs (pasta @ [dup_name nome i])")
    case True
    then have eq: "proximo_from fs pasta nome i = proximo_from fs pasta nome (Suc i)"
      by (subst proximo_from.simps) simp
    obtain k where k: "Suc i \<le> k" "proximo_from fs pasta nome (Suc i) = pasta @ [dup_name nome k]"
      "\<forall>j. Suc i \<le> j \<and> j < k \<longrightarrow> exists fs (pasta @ [dup_name nome j])"
      using "1" True by blast
    have "exists fs (pasta @ [dup_name nome j])" if "i \<le> j" "j < k" for j
      using that True k(3) by (cases "j = i") auto
    with k(1,2) eq show ?thesis by (intro exI [of _ k]) auto
  next
    case False
    then show ?thesis by (subst proximo_from.simps) auto
  qed
qed

lemma proximo_fresh: "\<not> exists fs (proximo_nome_livre fs pasta nome)"
  by (simp add: proximo_nome_livre_def proximo_from_fresh)

lemma proximo_from_in: "\<exists>n. proximo_from fs pasta nome i = pasta @ [n]"
  using proximo_from_least [where i = i and fs = fs and pasta = pasta and nome = nome] by auto

lemma proximo_in: "\<exists>n. proximo_nome_livre fs pasta nome = pasta @ [n]"
  by (simp add: proximo_nome_livre_def proximo_from_in)

lemma exists_entry: "exists fs (pasta @ [n]) \<Longrightarrow> pasta @ [n] \<in> set (map fst (entries fs))"
  by (auto simp: exists_def fs_lookup_def dest: map_of_SomeD intro: rev_image_eqI)

lemma dup_paths_taken:
  assumes sub: "\<forall>j. i \<le> j \<and> j < k \<longrightarrow> exists fs (pasta @ [dup_name nome j])"
  shows "k - i \<le> length (entries fs)"
proof -
  let ?f = "\<lambda>j. pasta @ [dup_name nome j]"
  have inj: "inj_on ?f {i..<k}" by (simp add: inj_on_def dup_name_inj)
  have "?f ` {i..<k} \<subseteq> set (map fst (entries fs))" using sub exists_entry by auto
  then have "card (?f ` {i..<k}) \<le> card (set (map fst (entries fs)))"
    by (rule card_mono [OF finite_set])
  also have "\<dots> \<le> length (entries fs)" using card_length [of "map fst (entries fs)"] by simp
  finally show ?thesis using card_image [OF inj] by simp
qed

subsection \<open>Facts on one transfer\<close>

lemma copiar_log_state:
  "copiar_log v fs src d tag = (fs', evs) \<Longrightarrow> \<exists>r. copy2 fs src d = (fs', r)"
  by (cases "copy2 fs src d") (auto simp: copiar_log_def split: sum.splits)

lemma copiar_log_one: "length (snd (copiar_log v fs src d tag)) = 1"
  by (cases "copy2 fs src d") (auto simp: copiar_log_def split: sum.splits)

text \<open>
  A transfer changes the state by at most one \<open>copy2\<close>, and only \<open>"substituir"\<close>
  copies onto a path that exists.
\<close>

lemma transferir_copy2:
  "transferir v fs src dst politica = (fs', evs) \<Longrightarrow> fs' = fs \<or> (\<exists>d r. copy2 fs src d = (fs', r))"
  by (auto simp: transferir_def Let_def split: if_splits dest!: copiar_log_state)

lemma transferir_state:
  assumes "transferir v fs src dst politica = (fs', evs)"
  shows "fs' = fs \<or> (\<exists>d r. copy2 fs src d = (fs', r)
           \<and> (\<not> exists fs d \<or> (politica = ''substituir'' \<and> d = dst @ [path_name src])))"
  using assms proximo_fresh
  by (auto simp: transferir_def Let_def split: if_splits dest!: copiar_log_state)

lemma transferir_one: "length (snd (transferir v fs src dst politica)) = 1"
  by (simp add: transferir_def Let_def copiar_log_one)

lemma transferir_keeps:
  assumes "transferir v fs src dst politica = (fs', evs)" "politica \<noteq> ''substituir''"
    and "fs_lookup fs q = Some m"
  shows "fs_lookup fs' q = Some m"
  using transferir_state [OF assms(1)] assms(2,3) by (auto intro: copy2_frame)

lemma transferir_wf:
  "transferir v fs src dst politica = (fs', evs) \<Longrightarrow> wf_fs fs \<Longrightarrow> wf_fs fs'"
  by (auto dest!: transferir_copy2 intro: copy2_wf)

subsection \<open>Invariants of the loops\<close>

text \<open>
  A property of the state that every transfer (and every \<open>mkdir -p\<close>) preserves holds
  after the loops.  Applied below to the entries that exist already (under a policy other
  than \<open>"substituir"\<close>) and to well-formedness.
\<close>

lemma copiar_itens_preserve:
  assumes step: "\<And>fs fs' evs it. transferir ''copiar'' fs it dst politica = (fs', evs) \<Longrightarrow> P fs \<Longrightarrow> P fs'"
  shows "copiar_itens fs dst politica items = (fs', evs) \<Longrightarrow> P fs \<Longrightarrow> P fs'"
proof (induction items arbitrary: fs fs' evs)
  case Nil
  then show ?case by simp
next
  case (Cons it its)
  show ?case
  proof (cases "is_file fs it")
    case False
    then show ?thesis using Cons by simp
  next
    case True
    obtain fs1 ev1 where t: "transferir ''copiar'' fs it dst politica = (fs1, ev1)" by fastforce
    obtain fs2 ev2 where r: "copiar_itens fs1 dst politica its = (fs2, ev2)" by fastforce
    have "P fs1" using step [OF t] Cons.prems(2) .
    then have "P fs2" using Cons.IH [OF r] by blast
    then show ?thesis using Cons.prems(1) True t r by simp
  qed
qed

lemma anexar_itens_preserve:
  assumes step: "\<And>fs fs' evs it. transferir ''anexar'' fs it dst politica = (fs', evs) \<Longrightarrow> P fs \<Longrightarrow> P fs'"
  shows "anexar_itens fs dst politica items = (fs', evs) \<Longrightarrow> P fs \<Longrightarrow> P fs'"
proof (induction items arbitrary: fs fs' evs)
  case Nil
  then show ?case by simp
next
  case (Cons it its)
  show ?case
  proof (cases "\<not> exists fs it \<or> \<not> is_file fs it")
    case True
    then show ?thesis using Cons by (auto split: prod.splits)
  next
    case False
    obtain fs1 ev1 where t: "transferir ''anexar'' fs it dst politica = (fs1, ev1)" by fastforce
    obtain fs2 ev2 where r: "anexar_itens fs1 dst politica its = (fs2, ev2)" by fastforce
    have "P fs1" using step [OF t] Cons.prems(2) .
    then have "P fs2" using Cons.IH [OF r] by blast
    then show ?thesis using Cons.prems(1) False t r by simp
  qed
qed

lemma copiar_padrao_preserve:
  assumes step: "\<And>fs fs' evs it dst. transferir ''copiar'' fs it dst politica = (fs', evs) \<Longrightarrow> P fs \<Longrightarrow> P fs'"
    and mk: "\<And>fs fs' p e. mkdir_p fs p = (fs', e) \<Longrightarrow> P fs \<Longrightarrow> P fs'"
  shows "copiar_padrao_resiliente fs raiz destino politica rels = (fs', evs, err) \<Longrightarrow> P fs \<Longrightarrow> P fs'"
proof (induction rels arbitrary: fs fs' evs err)
  case Nil
  then show ?case by simp
next
  case (Cons rel rels)
  show ?case
  proof (cases "origem fs raiz rel")
    case (Inl e)
    then show ?thesis using Cons.prems by simp
  next
    case (Inr ro)
    show ?thesis
    proof (cases ro)
      case None
      obtain fs2 ev2 err' where r: "copiar_padrao_resiliente fs raiz destino politica rels = (fs2, ev2, err')"
        by (metis prod.exhaust)
      have "P fs2" using Cons.IH [OF r Cons.prems(2)] .
      then show ?thesis using Cons.prems(1) Inr None r by simp
    next
      case (Some src)
      obtain fs1 e where m: "mkdir_p fs (path_join destino rel) = (fs1, e)" by fastforce
      have p1: "P fs1" using mk [OF m] Cons.prems(2) .
      show ?thesis
      proof (cases "e = None \<and> (\<exists>items. iterdir fs1 src = Inr items)")
        case True
        then obtain items where e: "e = None" and it: "iterdir fs1 src = Inr items" by blast
        obtain fs2 ev1 where c: "copiar_itens fs1 (path_join destino rel) politica items = (fs2, ev1)"
          by fastforce
        have p2: "P fs2" by (rule copiar_itens_preserve [where P = P, OF _ c p1]) (erule step, assumption)
        obtain fs3 ev2 err' where r: "copiar_padrao_resiliente fs2 raiz destino politica rels = (fs3, ev2, err')"
          by (metis prod.exhaust)
        have "P fs3"
          using Cons.IH [OF r p2] .
        then show ?thesis using Cons.prems(1) Inr Some m e it c r by (simp add: Let_def)
      next
        case False
        then show ?thesis using Cons.prems(1) Inr Some m p1
          by (auto simp: Let_def split: option.splits sum.splits)
      qed
    qed
  qed
qed

lemma anexar_arquivos_preserve:
  assumes step: "\<And>fs fs' evs it dst. transferir ''anexar'' fs it dst politica = (fs', evs) \<Longrightarrow> P fs \<Longrightarrow> P fs'"
    and mk: "\<And>fs fs' p e. mkdir_p fs p = (fs', e) \<Longrightarrow> P fs \<Longrightarrow> P fs'"
    and r: "anexar_arquivos fs arquivos raiz sub politica = (fs', evs, err)" and p: "P fs"
  shows "P fs'"
proof -
  obtain fs1 e where m: "mkdir_p fs (path_join raiz sub) = (fs1, e)" by fastforce
  have p1: "P fs1" using mk [OF m p] .
  show ?thesis
  proof (cases e)
    case None
    obtain fs2 evs2 where a: "anexar_itens fs1 (path_join raiz sub) politica arquivos = (fs2, evs2)"
      by fastforce
    have "P fs2" by (rule anexar_itens_preserve [where P = P, OF _ a p1]) (erule step, assumption)
    then show ?thesis using r m a None by (simp add: anexar_arquivos_def)
  next
    case (Some x)
    then show ?thesis using r m p1 by (simp add: anexar_arquivos_def)
  qed
qed

lemma path_name_snoc [simp]: "path_name (p @ [x]) = x"
  by (simp add: path_name_def)

lemma copy2_new:
  assumes "fs_lookup fs src = Some (File f)" "is_dir fs dst" "writable fs dst"
    and "fs_lookup fs (dst @ [n]) \<noteq> Some Dir" "dst @ [n] \<noteq> src"
  shows "copy2 fs src (dst @ [n]) = (put fs (dst @ [n]) (File f), Inr (dst @ [n]))"
  using assms by (auto simp: copy2_def is_dir_def Let_def split: option.splits node.splits)

lemma copiar_log_cases:
  assumes "copiar_log v fs src d tag = (fs', evs)"
  shows "(\<exists>msg f d'. evs = [(''ok'', msg)] \<and> fs_lookup fs src = Some (File f) \<and> fs' = put fs d' (File f))
         \<or> (\<exists>msg. evs = [(''error'', msg)] \<and> fs' = fs)"
proof (cases "copy2 fs src d")
  case (Pair fs1 r)
  then show ?thesis
  proof (cases r)
    case (Inl e)
    then show ?thesis using assms Pair copy2_Inl [of fs src d fs1 e] by (auto simp: copiar_log_def)
  next
    case (Inr d')
    then show ?thesis using assms Pair copy2_Inr [of fs src d fs1 d'] by (auto simp: copiar_log_def)
  qed
qed

text \<open>
  C8.  \<open>_proximo_nome_livre\<close> returns a free name, and the least one: the name itself
  when it is free, else \<open>stem_k.suf\<close> for the least \<open>k \<ge> 1\<close> whose name is free (every
  smaller suffix is taken).  The loop always ends: the function is total.
\<close>

theorem proximo_nome_livre_least:
  "\<not> exists fs (proximo_nome_livre fs pasta nome)
   \<and> (\<not> exists fs (pasta @ [nome]) \<longrightarrow> proximo_nome_livre fs pasta nome = pasta @ [nome])
   \<and> (exists fs (pasta @ [nome]) \<longrightarrow>
        (\<exists>k\<ge>1. proximo_nome_livre fs pasta nome = pasta @ [dup_name nome k]
              \<and> (\<forall>j. 1 \<le> j \<and> j < k \<longrightarrow> exists fs (pasta @ [dup_name nome j]))))"
  using proximo_fresh proximo_from_least [where i = 1 and fs = fs and pasta = pasta and nome = nome]
  by (simp add: proximo_nome_livre_def)

text \<open>
  Without a conflict the file is copied, whatever the policy: the destination
  \<open>dst / src.name\<close> gets the source's data (content and time stamp, as \<open>copy2\<close>
  keeps them) and one \<open>ok\<close> event \<open>"[copiar] name"\<close> is logged.
\<close>

theorem transferir_copiar:
  assumes "fs_lookup fs src = Some (File f)" "is_dir fs dst" "writable fs dst"
    and "\<not> exists fs (dst @ [path_name src])"
  shows "transferir v fs src dst politica
           = (put fs (dst @ [path_name src]) (File f), [(''ok'', ''[copiar] '' @ path_name src)])"
proof -
  have "fs_lookup fs (dst @ [path_name src]) = None" "dst @ [path_name src] \<noteq> src"
    using assms(1,4) by (auto simp: exists_def)
  then show ?thesis
    using assms copy2_new [OF assms(1-3)] by (simp add: transferir_def copiar_log_def)
qed

text \<open>
  Under \<open>"pular"\<close>, when every file of the folder has a namesake in the
  destination, the loop changes nothing and logs exactly one \<open>info\<close> event per file.
\<close>

theorem copiar_itens_pular:
  assumes "copiar_itens fs dst ''pular'' items = (fs', evs)"
    and "\<forall>it\<in>set items. is_file fs it \<longrightarrow> exists fs (dst @ [path_name it])"
  shows "fs' = fs \<and> length evs = length (filter (is_file fs) items) \<and> (\<forall>ev\<in>set evs. fst ev = ''info'')"
  using assms
proof (induction items arbitrary: evs)
  case Nil
  then show ?case by simp
next
  case (Cons it its)
  then show ?case by (auto simp: transferir_def split: prod.splits if_splits)
qed

text \<open>
  Under \<open>"substituir"\<close> a file in the way is overwritten with the source's
  data and one \<open>ok\<close> event \<open>"[substituir] name"\<close> is logged.
\<close>

theorem transferir_substituir:
  assumes "fs_lookup fs src = Some (File f)" "is_dir fs dst" "writable fs dst"
    and "fs_lookup fs (dst @ [path_name src]) = Some (File g)" "dst @ [path_name src] \<noteq> src"
  shows "transferir v fs src dst ''substituir''
           = (put fs (dst @ [path_name src]) (File f), [(''ok'', ''[substituir] '' @ path_name src)])"
  using assms copy2_new [OF assms(1-3)]
  by (simp add: transferir_def copiar_log_def exists_def)

text \<open>
  Under any other policy a conflict is resolved by duplication: the source's data
  is written at \<open>_proximo_nome_livre\<close>'s name, and the event names that new name.
\<close>

theorem transferir_duplicar:
  assumes "fs_lookup fs src = Some (File f)" "is_dir fs dst" "writable fs dst"
    and "exists fs (dst @ [path_name src])" "politica \<noteq> ''pular''" "politica \<noteq> ''substituir''"
  shows "transferir v fs src dst politica
           = (put fs (proximo_nome_livre fs dst (path_name src)) (File f),
              [(''ok'', ''[duplicar] '' @ path_name (proximo_nome_livre fs dst (path_name src)))])"
proof -
  obtain n where d: "proximo_nome_livre fs dst (path_name src) = dst @ [n]" using proximo_in by blast
  have "\<not> exists fs (dst @ [n])" using proximo_fresh d by metis
  then have "fs_lookup fs (dst @ [n]) = None" "dst @ [n] \<noteq> src" using assms(1) by (auto simp: exists_def)
  then show ?thesis
    using assms copy2_new [OF assms(1-3)] d by (simp add: transferir_def copiar_log_def)
qed

text \<open>
  C5.  Under any policy other than \<open>"substituir"\<close>, \<open>copiar_padrao_resiliente\<close>
  never changes a path that exists: every entry present before is present after with
  the same data (duplication writes fresh names, skipping writes nothing).
\<close>

theorem copiar_padrao_keeps:
  assumes "copiar_padrao_resiliente fs raiz destino politica rels = (fs', evs, err)"
    and "politica \<noteq> ''substituir''" and "fs_lookup fs q = Some m"
  shows "fs_lookup fs' q = Some m"
proof (rule copiar_padrao_preserve [where P = "\<lambda>fs. fs_lookup fs q = Some m", OF _ _ assms(1,3)])
  show "\<And>fs fs' evs it dst. transferir ''copiar'' fs it dst politica = (fs', evs) \<Longrightarrow>
          fs_lookup fs q = Some m \<Longrightarrow> fs_lookup fs' q = Some m"
    using assms(2) transferir_keeps by blast
  show "\<And>fs fs' p e. mkdir_p fs p = (fs', e) \<Longrightarrow> fs_lookup fs q = Some m \<Longrightarrow> fs_lookup fs' q = Some m"
    by (rule mkdir_p_mono)
qed

text \<open>
  \<open>copiar_padrao_resiliente\<close> keeps the file system well formed (each path
  listed once, every entry below a directory), whatever it copies or fails to copy.
\<close>

theorem copiar_padrao_wf:
  assumes "copiar_padrao_resiliente fs raiz destino politica rels = (fs', evs, err)" "wf_fs fs"
  shows "wf_fs fs'"
  by (rule copiar_padrao_preserve [where P = wf_fs, OF _ _ assms]) (auto intro: transferir_wf mkdir_p_wf)

text \<open>
  C24.  Each file handled logs exactly one event: \<open>info\<close> (skipped) or \<open>error\<close>
  (the copy failed), after which the state is unchanged, or \<open>ok\<close>, after which
  exactly one path holds the source's data.  So a failed copy neither stops the loop nor
  leaves a partial change.
\<close>

theorem transferir_event:
  assumes "transferir v fs src dst politica = (fs', evs)"
  shows "\<exists>lvl msg. evs = [(lvl, msg)] \<and> lvl \<in> {''ok'', ''info'', ''error''}
           \<and> (lvl \<noteq> ''ok'' \<longrightarrow> fs' = fs)
           \<and> (lvl = ''ok'' \<longrightarrow> (\<exists>d f. fs_lookup fs src = Some (File f) \<and> fs' = put fs d (File f)))"
  using assms
  by (auto simp: transferir_def Let_def split: if_splits dest!: copiar_log_cases)

text \<open>
  C30.  The \<open>while\<close> loop of \<open>_proximo_nome_livre\<close> ends after a bounded number of
  rounds: from counter \<open>i\<close> it stops at a counter \<open>k\<close> with \<open>k - i\<close> at most the
  number of entries of the file system, each round having passed a taken name.
\<close>

theorem proximo_from_bound:
  "\<exists>k. proximo_from fs pasta nome i = pasta @ [dup_name nome k] \<and> i \<le> k \<and> k \<le> i + length (entries fs)"
proof -
  obtain k where k: "i \<le> k" "proximo_from fs pasta nome i = pasta @ [dup_name nome k]"
      "\<forall>j. i \<le> j \<and> j < k \<longrightarrow> exists fs (pasta @ [dup_name nome j])"
    using proximo_from_least by blast
  have "k - i \<le> length (entries fs)" using k(3) by (rule dup_paths_taken)
  with k show ?thesis by (intro exI [of _ k]) auto
qed

text \<open>
  The loop is live: from any counter the run of its rounds reaches a counter whose
  candidate name is free, and \<open>proximo_from\<close> returns that name.
\<close>

theorem proximo_from_alcanca:
  "\<exists>k. (passo_livre fs pasta nome)\<^sup>*\<^sup>* i k \<and> \<not> exists fs (pasta @ [dup_name nome k])
       \<and> proximo_from fs pasta nome i = pasta @ [dup_name nome k]"
proof (induction fs pasta nome i rule: proximo_from.induct)
  case (1 fs pasta nome i)
  show ?case
  proof (cases "exists fs (pasta @ [dup_name nome i])")
    case True
    then obtain k where k: "(passo_livre fs pasta nome)\<^sup>*\<^sup>* (Suc i) k" "\<not> exists fs (pasta @ [dup_name nome k])"
        "proximo_from fs pasta nome (Suc i) = pasta @ [dup_name nome k]"
      using "1" by blast
    have "(passo_livre fs pasta nome)\<^sup>*\<^sup>* i k"
      using converse_rtranclp_into_rtranclp [OF ocupado [OF True] k(1)] .
    with k(2,3) True show ?thesis by (subst proximo_from.simps) auto
  next
    case False
    then show ?thesis by (subst proximo_from.simps) auto
  qed
qed

subsection \<open>The copier on concrete folder trees\<close>

lemma proximo_dup: "proximo_nome_livre fs_dup [''D''] ''proposta.pdf'' = [''D'', ''proposta_2.pdf'']"
  by (simp add: proximo_nome_livre_def fs_dup_def fs_simps,
      (subst proximo_from.simps, simp add: dup_name_def pystr_simps nat_str.simps fs_simps)+)

text \<open>Each general property above, applied where its hypotheses hold.\<close>

theorem proximo_nome_livre_least_witness:
  "proximo_nome_livre fs_dup [''D''] ''proposta.pdf'' = [''D'', ''proposta_2.pdf'']
   \<and> \<not> exists fs_dup [''D'', ''proposta_2.pdf'']"
  using proximo_nome_livre_least [of fs_dup "[''D'']" "''proposta.pdf''"] proximo_dup by simp

theorem transferir_copiar_witness:
  "transferir ''copiar'' fs_e2e [''T'', ''2. PROPOSTA'', ''modelo.docx''] [''R''] ''pular''
     = (put fs_e2e [''R'', ''modelo.docx''] (File \<lparr>content = ''m'', mtime = 7\<rparr>), [(''ok'', ''[copiar] modelo.docx'')])"
proof -
  have "transferir ''copiar'' fs_e2e [''T'', ''2. PROPOSTA'', ''modelo.docx''] [''R''] ''pular''
     = (put fs_e2e ([''R''] @ [path_name [''T'', ''2. PROPOSTA'', ''modelo.docx'']]) (File \<lparr>content = ''m'', mtime = 7\<rparr>),
        [(''ok'', ''[copiar] '' @ path_name [''T'', ''2. PROPOSTA'', ''modelo.docx''])])"
    by (rule transferir_copiar) (simp_all add: fs_e2e_def fs_simps)
  then show ?thesis by (simp add: path_name_def)
qed

theorem copiar_itens_pular_witness:
  "fst (copiar_itens fs_dup [''D''] ''pular'' [[''S'', ''proposta.pdf'']]) = fs_dup
   \<and> length (snd (copiar_itens fs_dup [''D''] ''pular'' [[''S'', ''proposta.pdf'']])) = 1
   \<and> fst (hd (snd (copiar_itens fs_dup [''D''] ''pular'' [[''S'', ''proposta.pdf'']]))) = ''info''"
proof -
  obtain fs' evs where r: "copiar_itens fs_dup [''D''] ''pular'' [[''S'', ''proposta.pdf'']] = (fs', evs)"
    by fastforce
  have "fs' = fs_dup \<and> length evs = length (filter (is_file fs_dup) [[''S'', ''proposta.pdf'']])
        \<and> (\<forall>ev\<in>set evs. fst ev = ''info'')"
    by (rule copiar_itens_pular [OF r]) (simp add: fs_dup_def fs_simps)
  moreover have "is_file fs_dup [''S'', ''proposta.pdf'']" by (simp add: fs_dup_def fs_simps)
  ultimately show ?thesis using r by (cases evs) auto
qed

theorem transferir_substituir_witness:
  "transferir ''copiar'' fs_dup [''S'', ''proposta.pdf''] [''D''] ''substituir''
     = (put fs_dup [''D'', ''proposta.pdf''] (File \<lparr>content = ''v2'', mtime = 3\<rparr>), [(''ok'', ''[substituir] proposta.pdf'')])"
proof -
  have "transferir ''copiar'' fs_dup [''S'', ''proposta.pdf''] [''D''] ''substituir''
     = (put fs_dup ([''D''] @ [path_name [''S'', ''proposta.pdf'']]) (File \<lparr>content = ''v2'', mtime = 3\<rparr>),
        [(''ok'', ''[substituir] '' @ path_name [''S'', ''proposta.pdf''])])"
    by (rule transferir_substituir [where g = "\<lparr>content = ''v0'', mtime = 1\<rparr>"])
      (simp_all add: fs_dup_def fs_simps)
  then show ?thesis by (simp add: path_name_def)
qed

theorem transferir_duplicar_witness:
  "transferir ''copiar'' fs_dup [''S'', ''proposta.pdf''] [''D''] ''duplicar''
     = (put fs_dup [''D'', ''proposta_2.pdf''] (File \<lparr>content = ''v2'', mtime = 3\<rparr>), [(''ok'', ''[duplicar] proposta_2.pdf'')])"
proof -
  have "transferir ''copiar'' fs_dup [''S'', ''proposta.pdf''] [''D''] ''duplicar''
     = (put fs_dup (proximo_nome_livre fs_dup [''D''] (path_name [''S'', ''proposta.pdf''])) (File \<lparr>content = ''v2'', mtime = 3\<rparr>),
        [(''ok'', ''[duplicar] '' @ path_name (proximo_nome_livre fs_dup [''D''] (path_name [''S'', ''proposta.pdf''])))])"
    by (rule transferir_duplicar) (simp_all add: fs_dup_def fs_simps)
  then show ?thesis by (simp add: proximo_dup path_name_def)
qed

theorem copiar_padrao_keeps_witness:
  "fs_lookup (fst (copiar_padrao_resiliente fs_e2e [''T''] [''R''] ''pular'' [''2. PROPOSTA'']))
     [''T'', ''2. PROPOSTA'', ''modelo.docx''] = Some (File \<lparr>content = ''m'', mtime = 7\<rparr>)"
proof -
  obtain fs' evs err where r: "copiar_padrao_resiliente fs_e2e [''T''] [''R''] ''pular'' [''2. PROPOSTA''] = (fs', evs, err)"
    by (metis prod.exhaust)
  have "fs_lookup fs' [''T'', ''2. PROPOSTA'', ''modelo.docx''] = Some (File \<lparr>content = ''m'', mtime = 7\<rparr>)"
    by (rule copiar_padrao_keeps [OF r]) (simp_all add: fs_e2e_def fs_simps)
  then show ?thesis using r by simp
qed

theorem copiar_padrao_wf_witness:
  "wf_fs (fst (copiar_padrao_resiliente fs_e2e [''T''] [''R''] ''substituir'' [''2. PROPOSTA'']))"
proof -
  obtain fs' evs err where r: "copiar_padrao_resiliente fs_e2e [''T''] [''R''] ''substituir'' [''2. PROPOSTA''] = (fs', evs, err)"
    by (metis prod.exhaust)
  have "wf_fs fs'" by (rule copiar_padrao_wf [OF r]) (simp add: wf_fs_def fs_e2e_def fs_simps)
  then show ?thesis using r by simp
qed

theorem transferir_event_witness:
  "fst (transferir ''copiar'' fs_dup [''S'', ''proposta.pdf''] [''D''] ''pular'') = fs_dup"
proof -
  obtain fs' evs where r: "transferir ''copiar'' fs_dup [''S'', ''proposta.pdf''] [''D''] ''pular'' = (fs', evs)"
    by fastforce
  have l: "fst (hd evs) = ''info''" using r by (auto simp: transferir_def fs_dup_def fs_simps)
  show ?thesis using transferir_event [OF r] r l by auto
qed


text \<open>The destination of the first selected folder \<open>A\<close> is a file: \<open>mkdir\<close> raises
  \<open>FileExistsError\<close>, nothing is logged and \<open>B\<close> is not copied.\<close>

theorem copiar_padrao_abort_fs:
  "copiar_padrao_resiliente fs_abort [''T''] [''R''] ''pular'' [''A'', ''B''] = (fs_abort, [], Some FileExists)"
proof -
  have o: "origem fs_abort [''T''] ''A'' = Inr (Some [''T'', ''A''])"
    by (simp add: origem_def path_join_def pystr_simps fs_abort_def fs_simps)
  have m: "mkdir_p fs_abort (path_join [''R''] ''A'') = (fs_abort, Some FileExists)"
    by (simp add: mkdir_p_def path_join_def pystr_simps fs_abort_def fs_simps)
  show ?thesis using o m by simp
qed

text \<open>
  The end-to-end example: copying \<open>2. PROPOSTA\<close> from a template holding
  \<open>modelo.docx\<close> into an empty destination under \<open>"substituir"\<close> creates
  \<open>2. PROPOSTA/modelo.docx\<close> with the template's data and logs the single event
  \<open>[copiar] modelo.docx\<close>: the absence of a conflict, not the policy, decides.
\<close>

theorem copiar_padrao_e2e:
  "copiar_padrao_resiliente fs_e2e [''T''] [''R''] ''substituir'' [''2. PROPOSTA'']
     = (put (put fs_e2e [''R'', ''2. PROPOSTA''] Dir) [''R'', ''2. PROPOSTA'', ''modelo.docx'']
          (File \<lparr>content = ''m'', mtime = 7\<rparr>), [(''ok'', ''[copiar] modelo.docx'')], None)"
proof -
  have j: "path_join [''T''] ''2. PROPOSTA'' = [''T'', ''2. PROPOSTA'']"
    "path_join [''R''] ''2. PROPOSTA'' = [''R'', ''2. PROPOSTA'']"
    by (simp_all add: path_join_def pystr_simps)
  have o: "origem fs_e2e [''T''] ''2. PROPOSTA'' = Inr (Some [''T'', ''2. PROPOSTA''])"
    by (simp add: origem_def j fs_e2e_def fs_simps pystr_simps)
  have m: "mkdir_p fs_e2e [''R'', ''2. PROPOSTA''] = (put fs_e2e [''R'', ''2. PROPOSTA''] Dir, None)"
    by (simp add: mkdir_p_def fs_e2e_def fs_simps)
  define fs1 where "fs1 = put fs_e2e [''R'', ''2. PROPOSTA''] Dir"
  have fs1: "fs1 = \<lparr>entries = entries fs_e2e @ [([''R'', ''2. PROPOSTA''], Dir)], readonly = [], cwd = []\<rparr>"
    by (simp add: fs1_def put_def fs_e2e_def)
  have it: "iterdir fs1 [''T'', ''2. PROPOSTA''] = Inr [[''T'', ''2. PROPOSTA'', ''modelo.docx'']]"
    by (simp add: fs1 iterdir_def children_def fs_e2e_def fs_simps)
  have c: "copiar_itens fs1 [''R'', ''2. PROPOSTA''] ''substituir'' [[''T'', ''2. PROPOSTA'', ''modelo.docx'']]
      = (put fs1 [''R'', ''2. PROPOSTA'', ''modelo.docx''] (File \<lparr>content = ''m'', mtime = 7\<rparr>),
         [(''ok'', ''[copiar] modelo.docx'')])"
    by (simp add: fs1 transferir_def copiar_log_def copy2_def Let_def fs_e2e_def fs_simps)
  show ?thesis using o m it c by (simp add: j fs1_def)
qed

end
