(* ===== verification/TreeBuilder.thy ===== *)
theory TreeBuilder
  imports FileSystem
begin

text \<open>
  The TreeBuilder: \<open>criar_arvore\<close> of LicitagovEstruturasApp.py, which creates a
  nested-dictionary schema of folders with one log line per folder and a \<open>try\<close> per
  folder, the schema \<open>ESTRUTURA_PADRAO\<close>, and the fixed-list variant
  \<open>criar_estrutura_licitacao\<close> of LicitagovLicitacaoMesApp.py over
  \<open>SUBPASTAS_DESTINO\<close>, which has no \<open>try\<close>.
\<close>

subsection \<open>Schemas\<close>

text \<open>
  A schema is a dictionary (name to sub-schema, in declaration order) or a list of
  names, each a leaf: the \<open>Union[Mapping, Iterable[str]]\<close> of the signature.
\<close>

datatype modelo = Dict "(name \<times> modelo) list" | Lista "name list"

text \<open>\<open>modelo.items()\<close>, or \<open>[(nome, {}) for nome in modelo]\<close> for a list.\<close>

definition itens :: "modelo \<Rightarrow> (name \<times> modelo) list" where
  "itens m = (case m of Dict xs \<Rightarrow> xs | Lista ns \<Rightarrow> map (\<lambda>n. (n, Dict [])) ns)"

text \<open>A size that decreases from a schema to the items of its sub-schemas.\<close>

fun msize :: "modelo \<Rightarrow> nat" where
  "msize (Dict xs) = Suc (sum_list (map (\<lambda>(n, s). Suc (msize s)) xs))"
| "msize (Lista ns) = Suc (2 * length ns)"

definition isize :: "(name \<times> modelo) list \<Rightarrow> nat" where
  "isize xs = sum_list (map (\<lambda>(n, s). Suc (msize s)) xs)"

subsection \<open>\<open>criar_arvore\<close>\<close>

definition indent :: "nat \<Rightarrow> string" where
  "indent nivel = concat (replicate nivel ''  '')"

text \<open>
  The \<open>try\<close> around \<open>destino.mkdir(parents=True, exist_ok=True)\<close> with its two
  log lines.  A failing \<open>mkdir\<close> may have created some parents already.
\<close>

definition mkdir_log :: "fs \<Rightarrow> path \<Rightarrow> nat \<Rightarrow> fs \<times> string" where
  "mkdir_log fs destino nivel =
     (case mkdir_p fs destino of
        (fs', None) \<Rightarrow> (fs', indent nivel @ ''Criado: '' @ path_str destino)
      | (fs', Some e) \<Rightarrow> (fs', indent nivel @ ''[ERRO] '' @ path_str destino @ '' -> '' @ fs_error_str e))"

text \<open>
  The loop over the items; the recursive call on a non-empty sub-schema happens whether
  or not the folder itself was created.
\<close>

function criar_itens :: "fs \<Rightarrow> path \<Rightarrow> (name \<times> modelo) list \<Rightarrow> nat \<Rightarrow> fs \<times> string list" where
  "criar_itens fs base [] nivel = (fs, [])"
| "criar_itens fs base ((nome, sub) # rest) nivel =
     (let destino = path_join base nome;
          (fs1, msg) = mkdir_log fs destino nivel;
          (fs2, l2) = (if itens sub \<noteq> [] then criar_itens fs1 destino (itens sub) (Suc nivel)
                       else (fs1, []));
          (fs3, l3) = criar_itens fs2 base rest nivel
      in (fs3, msg # l2 @ l3))"
  by pat_completeness auto
termination
proof -
  have sub: "isize (itens s) < Suc (msize s)" for s
    by (cases s) (simp_all add: itens_def isize_def comp_def sum_list_triv)
  have sub2: "isize (itens s) < isize ((n, s) # r)" for n s r
  proof -
    have "isize ((n, s) # r) = Suc (msize s) + isize r" by (simp add: isize_def)
    then show ?thesis using sub [of s] by linarith
  qed
  have sub3: "isize r < isize ((n, s) # r)" for n s r by (simp add: isize_def)
  show ?thesis
    by (relation "measure (\<lambda>(fs, base, xs, nivel). isize xs)") (auto simp: sub2 sub3)
qed

definition criar_arvore :: "fs \<Rightarrow> path \<Rightarrow> modelo \<Rightarrow> nat \<Rightarrow> fs \<times> string list" where
  "criar_arvore fs base modelo nivel = criar_itens fs base (itens modelo) nivel"

text \<open>The schema \<open>ESTRUTURA_PADRAO\<close>, in declaration order.\<close>

definition ESTRUTURA_PADRAO :: modelo where
  "ESTRUTURA_PADRAO = Dict [
    (''00. Editais_ANALISAR'', Dict []),
    (''01. Licitacao'', Dict [
      (''01. Participar'', Dict [
        (''01. JANEIRO'', Dict []),
        (''02. FEVEREIRO'', Dict []),
        (''03. MARCO'', Dict []),
        (''04. ABRIL'', Dict []),
        (''05. MAIO'', Dict []),
        (''06. JUNHO'', Dict []),
        (''07. JULHO'', Dict []),
        (''08. AGOSTO'', Dict []),
        (''09. SETEMBRO'', Dict []),
        (''10. OUTUBRO'', Dict []),
        (''11. NOVEMBRO'', Dict []),
        (''12. DEZEMBRO'', Dict [])]),
      (''02. Vencedora'', Dict []),
      (''03. Declinada'', Dict []),
      (''04. Suspensa'', Dict []),
      (''05. Modelos_Padrao'', Dict [
        (''DECLARACAO'', Dict []), (''PROPOSTA'', Dict []), (''PLANILHA'', Dict [])])]),
    (''02. Empresa'', Dict [
        (''01. CNPJ'', Dict []),
        (''02. Socios'', Dict []),
        (''03. Alvara'', Dict []),
        (''04. Dados_Bancarios'', Dict []),
        (''05. Contrato_Social'', Dict []),
        (''06. Balanco_Patrimonial'', Dict []),
        (''07. Certidoes'', Dict []),
        (''08. Acessos'', Dict []),
        (''09. CAF_Digital_BA'', Dict []),
        (''10. SICAF'', Dict []),
        (''11. Compras_Salvador'', Dict []),
        (''12. Encargos_Tributacao'', Dict []),
        (''13. SMS'', Dict []),
        (''14. Compras_FIEB'', Dict []),
        (''15. Impostos'', Dict []),
        (''16. Juridico'', Dict []),
        (''17. Financeiro'', Dict []),
        (''18. Antecipa_EMBASA'', Dict []),
        (''19. Inscricao_Estadual'', Dict []),
        (''20. Inscricao_Municipal'', Dict [])]),
    (''03. Qualificacao_Tecnica'', Dict [
        (''01. RT'', Dict []),
        (''02. ACT'', Dict []),
        (''03. CAT'', Dict []),
        (''04. CAO'', Dict []),
        (''05. CREA_PJ'', Dict []),
        (''06. CREA_PF'', Dict []),
        (''07. ART_CONTRATOS'', Dict [])]),
    (''04. Orcamentos_Propostas'', Dict []),
    (''05. Planejamento_Gestao'', Dict []),
    (''06. Biblioteca'', Dict [
      (''01. Logo_Marca'', Dict []),
      (''02. Carimbos'', Dict []),
      (''03. Assinatura'', Dict []),
      (''04. Modelos_Administrativos'', Dict [
        (''01. Recurso'', Dict []), (''02. Contrarrazao'', Dict []),
        (''03. Impugnacao'', Dict []), (''04. Esclarecimento'', Dict [])])])]"

subsection \<open>\<open>criar_estrutura_licitacao\<close>\<close>

text \<open>\<open>SUBPASTAS_DESTINO\<close> of LicitagovLicitacaoMesApp.py.\<close>

definition SUBPASTAS_DESTINO :: "string list" where
  "SUBPASTAS_DESTINO = [''0. EDITAL_ANEXOS'',
     ''1. HABILITACAO/1. HAB_JURIDICA'', ''1. HABILITACAO/2. HAB_FISCAL'',
     ''1. HABILITACAO/3. HAB_ECON_FINAN'', ''1. HABILITACAO/4. QUALIFICACAO_TECNICA'',
     ''1. HABILITACAO/5. ACT_CAT'', ''1. HABILITACAO/6. DECLARACOES'', ''2. PROPOSTA'',
     ''3. EDITAVEIS/1. DECLARACAO'', ''3. EDITAVEIS/2. PROPOSTA'', ''3. EDITAVEIS/3. PLANILHA'']"

text \<open>
  \<open>for rel in SUBPASTAS_DESTINO: (destino_raiz / rel).mkdir(parents=True, exist_ok=True)\<close>:
  no \<open>try\<close>, so the first failure leaves the function with its exception.
\<close>

fun criar_fixas :: "fs \<Rightarrow> path \<Rightarrow> string list \<Rightarrow> fs \<times> fs_error option" where
  "criar_fixas fs destino [] = (fs, None)"
| "criar_fixas fs destino (rel # rels) =
     (case mkdir_p fs (path_join destino rel) of
        (fs', None) \<Rightarrow> criar_fixas fs' destino rels
      | (fs', Some e) \<Rightarrow> (fs', Some e))"

definition criar_estrutura_licitacao :: "fs \<Rightarrow> path \<Rightarrow> fs \<times> fs_error option" where
  "criar_estrutura_licitacao fs destino = criar_fixas fs destino SUBPASTAS_DESTINO"

subsection \<open>The folders a schema names\<close>

text \<open>
  The specification's view of a schema: the list of paths it names below a base, in
  the order \<open>criar_arvore\<close> visits them (a folder before its children).
\<close>

function caminhos :: "path \<Rightarrow> (name \<times> modelo) list \<Rightarrow> path list" where
  "caminhos base [] = []"
| "caminhos base ((nome, sub) # rest) =
     path_join base nome # caminhos (path_join base nome) (itens sub) @ caminhos base rest"
  by pat_completeness auto
termination
proof -
  have sub: "isize (itens s) < Suc (msize s)" for s
    by (cases s) (simp_all add: itens_def isize_def comp_def sum_list_triv)
  have sub2: "isize (itens s) < isize ((n, s) # r)" for n s r
  proof -
    have "isize ((n, s) # r) = Suc (msize s) + isize r" by (simp add: isize_def)
    then show ?thesis using sub [of s] by linarith
  qed
  have sub3: "isize r < isize ((n, s) # r)" for n s r by (simp add: isize_def)
  show ?thesis by (relation "measure (\<lambda>(base, xs). isize xs)") (auto simp: sub2 sub3)
qed

subsection \<open>Folder trees for the examples\<close>

text \<open>
  \<open>fs_cliente\<close>: an empty client folder \<open>C\<close>.  \<open>fs_blocked\<close>: a client folder
  holding a file \<open>A\<close> where the schema \<open>modelo_ab\<close> (\<open>A\<close> with a child
  \<open>B\<close>) wants a folder.  \<open>fs_anexos\<close>: a file where the first fixed sub-folder
  goes.
\<close>

definition fs_cliente :: fs where
  "fs_cliente = \<lparr>entries = [([''C''], Dir)], readonly = [], cwd = []\<rparr>"

definition fs_blocked :: fs where
  "fs_blocked = \<lparr>entries = [([''C''], Dir), ([''C'', ''A''], File \<lparr>content = [], mtime = 0\<rparr>)],
      readonly = [], cwd = []\<rparr>"

definition modelo_ab :: modelo where
  "modelo_ab = Dict [(''A'', Dict [(''B'', Dict [])])]"

definition fs_anexos :: fs where
  "fs_anexos = \<lparr>entries = [([''C''], Dir), ([''C'', ''0. EDITAL_ANEXOS''], File \<lparr>content = [], mtime = 0\<rparr>)],
      readonly = [], cwd = []\<rparr>"

subsection \<open>One log line per folder\<close>

lemma mkdir_log_state: "mkdir_log fs d n = (fs', msg) \<Longrightarrow> \<exists>e. mkdir_p fs d = (fs', e)"
  by (cases "mkdir_p fs d") (auto simp: mkdir_log_def split: option.splits)

text \<open>A line without the marker \<open>[ERRO]\<close> reports a successful \<open>mkdir\<close>.\<close>

lemma mkdir_log_ok:
  assumes "mkdir_log fs d n = (fs', msg)" "\<not> py_in ''[ERRO]'' msg"
  shows "mkdir_p fs d = (fs', None) \<and> msg = indent n @ ''Criado: '' @ path_str d"
proof (cases "mkdir_p fs d")
  case (Pair fs1 e)
  show ?thesis
  proof (cases e)
    case None
    then show ?thesis using assms Pair by (simp add: mkdir_log_def)
  next
    case (Some x)
    have "py_in ''[ERRO]'' (indent n @ ''[ERRO]'' @ ('' '' @ path_str d @ '' -> '' @ fs_error_str x))"
      by (rule sublist_appendI)
    moreover have "msg = indent n @ ''[ERRO]'' @ ('' '' @ path_str d @ '' -> '' @ fs_error_str x)"
      using assms(1) Pair Some by (simp add: mkdir_log_def)
    ultimately show ?thesis using assms(2) by blast
  qed
qed

lemma criar_itens_log_count:
  "length (snd (criar_itens fs base xs n)) = length (caminhos base xs)"
proof (induction fs base xs n rule: criar_itens.induct)
  case (1 fs base nivel)
  then show ?case by simp
next
  case (2 fs base nome sub rest nivel)
  obtain fs1 msg where m: "mkdir_log fs (path_join base nome) nivel = (fs1, msg)" by fastforce
  obtain fs2 l2 where r2: "(if itens sub \<noteq> [] then criar_itens fs1 (path_join base nome) (itens sub) (Suc nivel)
                            else (fs1, [])) = (fs2, l2)" by fastforce
  have "length l2 = length (caminhos (path_join base nome) (itens sub))"
    using "2.IH"(1) [OF refl refl m [symmetric]] r2 by (cases "itens sub = []") auto
  moreover obtain fs3 l3 where r3: "criar_itens fs2 base rest nivel = (fs3, l3)" by fastforce
  moreover have "length l3 = length (caminhos base rest)"
    using "2.IH"(2) [OF refl refl m [symmetric] refl r2 [symmetric]] r3 by simp
  ultimately show ?case using m r2 by simp
qed

text \<open>A property of the state that \<open>mkdir -p\<close> preserves holds after the walk.\<close>

lemma criar_itens_preserve:
  assumes mk: "\<And>fs fs' p e. mkdir_p fs p = (fs', e) \<Longrightarrow> P fs \<Longrightarrow> P fs'"
  shows "P fs \<Longrightarrow> P (fst (criar_itens fs base xs n))"
proof (induction fs base xs n rule: criar_itens.induct)
  case (1 fs base nivel)
  then show ?case by simp
next
  case (2 fs base nome sub rest nivel)
  obtain fs1 msg where m: "mkdir_log fs (path_join base nome) nivel = (fs1, msg)" by fastforce
  have p1: "P fs1" using mkdir_log_state [OF m] mk "2.prems" by blast
  obtain fs2 l2 where r2: "(if itens sub \<noteq> [] then criar_itens fs1 (path_join base nome) (itens sub) (Suc nivel)
                            else (fs1, [])) = (fs2, l2)" by fastforce
  have p2: "P fs2"
    using "2.IH"(1) [OF refl refl m [symmetric]] r2 p1 by (cases "itens sub = []") (auto simp: prod_eq_iff)
  obtain fs3 l3 where r3: "criar_itens fs2 base rest nivel = (fs3, l3)" by fastforce
  have "P fs3" using "2.IH"(2) [OF refl refl m [symmetric] refl r2 [symmetric] p2] r3 by simp
  then show ?case using m r2 r3 by simp
qed


lemma criar_itens_keeps:
  "fs_lookup fs q = Some m \<Longrightarrow> fs_lookup (fst (criar_itens fs base xs n)) q = Some m"
  by (rule criar_itens_preserve [where P = "\<lambda>fs. fs_lookup fs q = Some m"]) (auto intro: mkdir_p_mono)

lemma criar_itens_creates:
  "criar_itens fs base xs n = (fs', logs) \<Longrightarrow> \<forall>l\<in>set logs. \<not> py_in ''[ERRO]'' l \<Longrightarrow>
     \<forall>p\<in>set (caminhos base xs). is_dir fs' p"
proof (induction fs base xs n arbitrary: fs' logs rule: criar_itens.induct)
  case (1 fs base nivel)
  then show ?case by simp
next
  case (2 fs base nome sub rest nivel)
  let ?d = "path_join base nome"
  obtain fs1 msg where m: "mkdir_log fs ?d nivel = (fs1, msg)" by fastforce
  obtain fs2 l2 where r2: "(if itens sub \<noteq> [] then criar_itens fs1 ?d (itens sub) (Suc nivel)
                            else (fs1, [])) = (fs2, l2)" by fastforce
  obtain fs3 l3 where r3: "criar_itens fs2 base rest nivel = (fs3, l3)" by fastforce
  have out: "fs' = fs3" "logs = msg # l2 @ l3" using "2.prems"(1) m r2 r3 by simp_all
  have "mkdir_p fs ?d = (fs1, None)" using mkdir_log_ok [OF m] "2.prems"(2) out(2) by simp
  then have d1: "is_dir fs1 ?d" by (rule mkdir_p_ok)
  have "is_dir fs2 ?d"
  proof (cases "itens sub = []")
    case True
    then show ?thesis using r2 d1 by simp
  next
    case False
    then show ?thesis
      using r2 d1 criar_itens_keeps [of fs1 ?d Dir ?d "itens sub" "Suc nivel"] by (simp add: is_dir_def)
  qed
  then have d: "is_dir fs3 ?d" using r3 criar_itens_keeps [of fs2 ?d Dir base rest nivel] by (simp add: is_dir_def)
  have s: "is_dir fs3 p" if "p \<in> set (caminhos ?d (itens sub))" for p
  proof -
    have ne: "itens sub \<noteq> []" using that by (cases "itens sub") auto
    then have "is_dir fs2 p"
      using "2.IH"(1) [OF refl refl m [symmetric] ne] r2 "2.prems"(2) out(2) that by auto
    then show ?thesis using r3 criar_itens_keeps [of fs2 p Dir base rest nivel] by (simp add: is_dir_def)
  qed
  have "\<forall>p\<in>set (caminhos base rest). is_dir fs3 p"
    using "2.IH"(2) [OF refl refl m [symmetric] refl r2 [symmetric] r3] "2.prems"(2) out(2) by auto
  then show ?case using d s out(1) by auto
qed

text \<open>Re-running on a state in which every named folder is a directory changes nothing
  and repeats the log of a run that had no error.\<close>

lemma criar_itens_rerun:
  "criar_itens fs base xs n = (fs', logs) \<Longrightarrow> \<forall>l\<in>set logs. \<not> py_in ''[ERRO]'' l \<Longrightarrow>
     wf_fs F \<Longrightarrow> \<forall>p\<in>set (caminhos base xs). is_dir F p \<Longrightarrow> criar_itens F base xs n = (F, logs)"
proof (induction fs base xs n arbitrary: fs' logs rule: criar_itens.induct)
  case (1 fs base nivel)
  then show ?case by simp
next
  case (2 fs base nome sub rest nivel)
  let ?d = "path_join base nome"
  obtain fs1 msg where m: "mkdir_log fs ?d nivel = (fs1, msg)" by fastforce
  obtain fs2 l2 where r2: "(if itens sub \<noteq> [] then criar_itens fs1 ?d (itens sub) (Suc nivel)
                            else (fs1, [])) = (fs2, l2)" by fastforce
  obtain fs3 l3 where r3: "criar_itens fs2 base rest nivel = (fs3, l3)" by fastforce
  have out: "logs = msg # l2 @ l3" using "2.prems"(1) m r2 r3 by simp
  have msg: "msg = indent nivel @ ''Criado: '' @ path_str ?d"
    using mkdir_log_ok [OF m] "2.prems"(2) out by simp
  have mF: "mkdir_log F ?d nivel = (F, msg)"
    using mkdir_p_existing [OF "2.prems"(3)] "2.prems"(4) msg by (simp add: mkdir_log_def)
  have sF: "(if itens sub \<noteq> [] then criar_itens F ?d (itens sub) (Suc nivel) else (F, [])) = (F, l2)"
  proof (cases "itens sub = []")
    case True
    then show ?thesis using r2 by simp
  next
    case False
    then show ?thesis
      using "2.IH"(1) [OF refl refl m [symmetric] False] r2 "2.prems"(2-4) out by auto
  qed
  have rF: "criar_itens F base rest nivel = (F, l3)"
    using "2.IH"(2) [OF refl refl m [symmetric] refl r2 [symmetric] r3] "2.prems"(2-4) out by auto
  show ?case using mF sF rF out by simp
qed

text \<open>A run of the fixed list without exception leaves every listed folder a directory.\<close>

lemma criar_fixas_mono:
  "criar_fixas fs d rels = (fs', e) \<Longrightarrow> fs_lookup fs q = Some n \<Longrightarrow> fs_lookup fs' q = Some n"
proof (induction rels arbitrary: fs)
  case Nil
  then show ?case by simp
next
  case (Cons r' rs)
  then show ?case by (auto split: prod.splits option.splits dest: mkdir_p_mono)
qed

lemma criar_fixas_dirs:
  "criar_fixas fs d rels = (fs', None) \<Longrightarrow> \<forall>rel\<in>set rels. is_dir fs' (path_join d rel)"
proof (induction rels arbitrary: fs)
  case Nil
  then show ?case by simp
next
  case (Cons rel rels)
  obtain fs1 e where m: "mkdir_p fs (path_join d rel) = (fs1, e)" by fastforce
  with Cons.prems have e: "e = None" and r: "criar_fixas fs1 d rels = (fs', None)"
    by (auto split: option.splits)
  have "is_dir fs1 (path_join d rel)" using m e mkdir_p_ok by simp
  then have "is_dir fs' (path_join d rel)" using criar_fixas_mono [OF r] by (simp add: is_dir_def)
  then show ?case using Cons.IH [OF r] by simp
qed

subsection \<open>Properties of the builders\<close>

text \<open>
  Every run of \<open>criar_arvore\<close> on the standard schema logs exactly 62 lines, one
  per folder the schema names, whatever fails: a failing folder is logged and its
  siblings and children are still attempted.
\<close>

theorem criar_arvore_log_count:
  "length (snd (criar_arvore fs base ESTRUTURA_PADRAO nivel)) = 62"
proof -
  have "length (caminhos base (itens ESTRUTURA_PADRAO)) = 62"
    by (simp add: ESTRUTURA_PADRAO_def itens_def)
  then show ?thesis by (simp add: criar_arvore_def criar_itens_log_count)
qed

text \<open>
  C7.  When no log line reports \<open>[ERRO]\<close>, every folder the schema names is a
  directory after \<open>criar_arvore\<close>.
\<close>

theorem criar_arvore_creates:
  assumes "criar_arvore fs base m n = (fs', logs)" "\<forall>l\<in>set logs. \<not> py_in ''[ERRO]'' l"
  shows "\<forall>p\<in>set (caminhos base (itens m)). is_dir fs' p"
  using assms unfolding criar_arvore_def by (rule criar_itens_creates)

text \<open>
  C25.  \<open>criar_arvore\<close> is idempotent after a run without errors: running it again
  changes nothing and logs the same lines, none of them an error.
\<close>

theorem criar_arvore_idem:
  assumes "wf_fs fs" "criar_arvore fs base m n = (fs', logs)" "\<forall>l\<in>set logs. \<not> py_in ''[ERRO]'' l"
  shows "criar_arvore fs' base m n = (fs', logs)"
proof -
  have "wf_fs fs'"
    using criar_itens_preserve [where P = wf_fs, OF _ assms(1)] assms(2) mkdir_p_wf
    by (metis criar_arvore_def fst_conv)
  moreover have "\<forall>p\<in>set (caminhos base (itens m)). is_dir fs' p"
    using assms(2,3) unfolding criar_arvore_def by (rule criar_itens_creates)
  ultimately show ?thesis
    using assms(2,3) criar_itens_rerun unfolding criar_arvore_def by blast
qed

text \<open>
  C22.  Idempotence needs the error-free first run.  When a file stands where the schema
  wants a folder, \<open>criar_arvore\<close> logs an \<open>[ERRO]\<close> line, and since it never
  removes the file, so does every later run on the state it leaves: the specification's
  "the second run emits no error events" fails for such states.
\<close>

theorem criar_arvore_error_repeats:
  assumes "p \<in> set (caminhos base (itens m))" "fs_lookup fs p = Some (File f)"
  shows "(\<exists>l\<in>set (snd (criar_arvore fs base m n)). py_in ''[ERRO]'' l)
         \<and> (\<exists>l\<in>set (snd (criar_arvore (fst (criar_arvore fs base m n)) base m n)). py_in ''[ERRO]'' l)"
proof -
  have erro: "\<exists>l\<in>set (snd (criar_arvore F base m n)). py_in ''[ERRO]'' l" if "fs_lookup F p = Some (File f)" for F
  proof (rule ccontr)
    assume "\<not> ?thesis"
    then have "is_dir (fst (criar_arvore F base m n)) p"
      using criar_itens_creates [of F base "itens m" n] assms(1) unfolding criar_arvore_def
      by (metis prod.collapse)
    moreover have "fs_lookup (fst (criar_arvore F base m n)) p = Some (File f)"
      using criar_itens_keeps [OF that] by (simp add: criar_arvore_def)
    ultimately show False by (simp add: is_dir_def)
  qed
  have "fs_lookup (fst (criar_arvore fs base m n)) p = Some (File f)"
    using criar_itens_keeps [OF assms(2)] by (simp add: criar_arvore_def)
  then show ?thesis using erro assms(2) by blast
qed

theorem criar_arvore_error_repeats_witness:
  "snd (criar_arvore fs_blocked [''C''] modelo_ab 0)
     = [''[ERRO] /C/A -> [Errno 17] File exists'', ''  [ERRO] /C/A/B -> [Errno 20] Not a directory'']
   \<and> (\<exists>l\<in>set (snd (criar_arvore (fst (criar_arvore fs_blocked [''C''] modelo_ab 0)) [''C''] modelo_ab 0)).
        py_in ''[ERRO]'' l)"
proof -
  have p: "[''C'', ''A''] \<in> set (caminhos [''C''] (itens modelo_ab))"
    by (simp add: modelo_ab_def itens_def path_join_def pystr_simps)
  have f: "fs_lookup fs_blocked [''C'', ''A''] = Some (File \<lparr>content = [], mtime = 0\<rparr>)"
    by (simp add: fs_blocked_def fs_simps)
  have "snd (criar_arvore fs_blocked [''C''] modelo_ab 0)
     = [''[ERRO] /C/A -> [Errno 17] File exists'', ''  [ERRO] /C/A/B -> [Errno 20] Not a directory'']"
    by (simp add: criar_arvore_def modelo_ab_def itens_def mkdir_log_def mkdir_p_def path_join_def
        pystr_simps path_str_def indent_def fs_blocked_def fs_simps)
  then show ?thesis using criar_arvore_error_repeats [OF p f, of 0] by blast
qed


text \<open>A file in the place of the first sub-folder \<open>0. EDITAL_ANEXOS\<close> raises
  \<open>FileExistsError\<close>, and none of the other ten sub-folders is created.\<close>

theorem criar_estrutura_abort_fs:
  "criar_estrutura_licitacao fs_anexos [''C''] = (fs_anexos, Some FileExists)"
  by (simp add: criar_estrutura_licitacao_def SUBPASTAS_DESTINO_def mkdir_p_def path_join_def
      pystr_simps fs_anexos_def fs_simps)

text \<open>
  \<open>criar_arvore\<close> keeps the file system well formed and never changes or
  removes an existing entry.
\<close>

theorem criar_arvore_wf_keeps:
  assumes "wf_fs fs"
  shows "wf_fs (fst (criar_arvore fs base m n))
         \<and> (\<forall>q x. fs_lookup fs q = Some x \<longrightarrow> fs_lookup (fst (criar_arvore fs base m n)) q = Some x)"
  using criar_itens_preserve [where P = wf_fs, OF _ assms] mkdir_p_wf criar_itens_keeps
  by (auto simp: criar_arvore_def)

subsection \<open>The builders on concrete folder trees\<close>

lemma run_ab:
  "criar_arvore fs_cliente [''C''] modelo_ab 0
     = (put (put fs_cliente [''C'', ''A''] Dir) [''C'', ''A'', ''B''] Dir,
        [''Criado: /C/A'', ''  Criado: /C/A/B''])"
  by (simp add: criar_arvore_def modelo_ab_def itens_def mkdir_log_def mkdir_p_def path_join_def
      pystr_simps path_str_def indent_def fs_cliente_def fs_simps put_def)

theorem criar_arvore_creates_witness:
  "is_dir (put (put fs_cliente [''C'', ''A''] Dir) [''C'', ''A'', ''B''] Dir) [''C'', ''A'', ''B'']"
proof -
  have "\<forall>p\<in>set (caminhos [''C''] (itens modelo_ab)). is_dir (put (put fs_cliente [''C'', ''A''] Dir) [''C'', ''A'', ''B''] Dir) p"
    by (rule criar_arvore_creates [OF run_ab]) (simp add: sublist_code)
  moreover have "[''C'', ''A'', ''B''] \<in> set (caminhos [''C''] (itens modelo_ab))"
    by (simp add: modelo_ab_def itens_def path_join_def pystr_simps)
  ultimately show ?thesis by blast
qed

theorem criar_arvore_idem_witness:
  "criar_arvore (put (put fs_cliente [''C'', ''A''] Dir) [''C'', ''A'', ''B''] Dir) [''C''] modelo_ab 0
     = (put (put fs_cliente [''C'', ''A''] Dir) [''C'', ''A'', ''B''] Dir, [''Criado: /C/A'', ''  Criado: /C/A/B''])"
  by (rule criar_arvore_idem [OF _ run_ab]) (simp_all add: wf_fs_def fs_cliente_def fs_simps sublist_code)

theorem criar_arvore_wf_keeps_witness:
  "wf_fs (fst (criar_arvore fs_cliente [''C''] ESTRUTURA_PADRAO 0))
   \<and> fs_lookup (fst (criar_arvore fs_cliente [''C''] ESTRUTURA_PADRAO 0)) [''C''] = Some Dir"
proof -
  have w: "wf_fs fs_cliente" by (simp add: wf_fs_def fs_cliente_def fs_simps)
  have l: "fs_lookup fs_cliente [''C''] = Some Dir" by (simp add: fs_cliente_def fs_simps)
  show ?thesis using criar_arvore_wf_keeps [OF w] l by blast
qed

end
