(* ===== verification/Console.thy ===== *)
theory Console
  imports PyLib
begin

text \<open>
  The console of the three window classes: the log text, the warning and error counters,
  the last status and the two status labels they render (\<open>App._log\<close> and
  \<open>App._log_clear\<close> of LicitagovLicitacaoMesApp.py, the same pair of docket.py with one
  more branch, and \<open>StyledApp._set_status\<close>, \<open>_log_line\<close>, \<open>_log\<close>,
  \<open>_log_clear\<close> and \<open>_apply_log_filter\<close> of LicitagovLicitacaoMesApp_UI.py).  A Tk
  text widget is its text; the \<open>"hidden"\<close> tag of the styled window is the list of
  ranges (line, column) from which it hides the rest of the line.
\<close>

subsection \<open>State\<close>

text \<open>The three texts of \<open>status_badge\<close> (each led by a coloured circle emoji).\<close>

datatype badge = Badge_OK | Badge_Avisos | Badge_Erros

record console =
  log_txt :: string
  warn_count :: nat
  error_count :: nat
  last_status :: string
  status_badge :: badge
  status_counts :: string
  toast :: string
  log_filter :: string
  hidden :: "(nat \<times> nat) list"
  elide :: bool

definition counts_text :: "nat \<Rightarrow> nat \<Rightarrow> string" where
  "counts_text w e = ''Avisos: '' @ nat_str w @ ''  |  Erros: '' @ nat_str e"

text \<open>The state the constructors set up: counters at zero, status \<open>"ok"\<close>, filter \<open>"all"\<close>.\<close>

definition console_init :: console where
  "console_init = \<lparr>log_txt = [], warn_count = 0, error_count = 0, last_status = ''ok'',
     status_badge = Badge_OK, status_counts = counts_text 0 0, toast = [], log_filter = ''all'',
     hidden = [], elide = False\<rparr>"

text \<open>\<open>f"[{level.upper()}] {msg}\n"\<close>\<close>

definition log_line :: "string \<Rightarrow> string \<Rightarrow> string" where
  "log_line level msg = ''['' @ py_upper level @ ''] '' @ msg @ ''\<newline>''"

subsection \<open>LicitagovLicitacaoMesApp.py and docket.py\<close>

text \<open>\<open>"\<dots> OK" if last_status=="ok" else ("\<dots> Avisos" if last_status=="warn" else "\<dots> Erros")\<close>\<close>

definition badge_of :: "string \<Rightarrow> badge" where
  "badge_of s = (if s = ''ok'' then Badge_OK else if s = ''warn'' then Badge_Avisos else Badge_Erros)"

definition render :: "console \<Rightarrow> console" where
  "render c = c\<lparr>status_badge := badge_of (last_status c),
                 status_counts := counts_text (warn_count c) (error_count c)\<rparr>"

definition log_mes :: "string \<Rightarrow> string \<Rightarrow> console \<Rightarrow> console" where
  "log_mes level msg c =
     (let c1 = c\<lparr>log_txt := log_txt c @ log_line level msg\<rparr>;
          c2 = (if level = ''warn'' then
                  c1\<lparr>warn_count := Suc (warn_count c1),
                     last_status := (if last_status c1 \<noteq> ''error'' then ''warn'' else ''error'')\<rparr>
                else if level = ''error'' then
                  c1\<lparr>error_count := Suc (error_count c1), last_status := ''error''\<rparr>
                else c1)
      in render c2)"

text \<open>docket.py adds a branch for the other levels, which resets the status to \<open>"ok"\<close>
  when both counters are zero.\<close>

definition log_docket :: "string \<Rightarrow> string \<Rightarrow> console \<Rightarrow> console" where
  "log_docket level msg c =
     (let c1 = c\<lparr>log_txt := log_txt c @ log_line level msg\<rparr>;
          c2 = (if level = ''warn'' then
                  c1\<lparr>warn_count := Suc (warn_count c1),
                     last_status := (if last_status c1 \<noteq> ''error'' then ''warn'' else ''error'')\<rparr>
                else if level = ''error'' then
                  c1\<lparr>error_count := Suc (error_count c1), last_status := ''error''\<rparr>
                else c1\<lparr>last_status := (if warn_count c1 = 0 \<and> error_count c1 = 0 then ''ok''
                                        else last_status c1)\<rparr>)
      in render c2)"

definition log_clear_mes :: "console \<Rightarrow> console" where
  "log_clear_mes c = c\<lparr>log_txt := [], warn_count := 0, error_count := 0, last_status := ''ok'',
     status_badge := Badge_OK, status_counts := counts_text 0 0, toast := []\<rparr>"

subsection \<open>LicitagovLicitacaoMesApp_UI.py\<close>

definition set_status_ui :: "string \<Rightarrow> console \<Rightarrow> console" where
  "set_status_ui level c =
     (let c1 = (if level = ''error'' then c\<lparr>last_status := ''error'', error_count := Suc (error_count c)\<rparr>
                else if level = ''warn'' then
                  c\<lparr>last_status := (if last_status c \<noteq> ''error'' then ''warn'' else last_status c),
                    warn_count := Suc (warn_count c)\<rparr>
                else c);
          b = (if last_status c1 = ''warn'' then Badge_Avisos
               else if last_status c1 = ''error'' then Badge_Erros else Badge_OK)
      in c1\<lparr>status_badge := b, status_counts := counts_text (warn_count c1) (error_count c1)\<rparr>)"

text \<open>
  \<open>txt_log.search(r"\[LVL\]", start, regexp=True)\<close> from the start of the text, each
  time resuming at the end of the line of the previous match: the first occurrence of the
  tag in each line, as (line number from 1, column).
\<close>

fun find_sub :: "string \<Rightarrow> string \<Rightarrow> nat option" where
  "find_sub pat [] = (if pat = [] then Some 0 else None)"
| "find_sub pat (x # xs) = (if prefix pat (x # xs) then Some 0 else map_option Suc (find_sub pat xs))"

definition level_tag :: "string \<Rightarrow> string" where
  "level_tag lvl = ''['' @ py_upper lvl @ '']''"

definition marcas :: "string \<Rightarrow> string \<Rightarrow> (nat \<times> nat) list" where
  "marcas lvl t = concat (map (\<lambda>(i, l). case find_sub (level_tag lvl) l of
                                          None \<Rightarrow> [] | Some k \<Rightarrow> [(i, k)])
                          (zip [1..<Suc (length (split_on CHR ''\<newline>'' t))] (split_on CHR ''\<newline>'' t)))"

text \<open>
  The loop of \<open>_apply_log_filter\<close>: every round first removes the tag from the whole
  text (\<open>tag_remove("hidden", "1.0", "end")\<close>) and then marks the lines of its level
  when that level is not the one shown.
\<close>

definition filtro_passo :: "string \<Rightarrow> string \<Rightarrow> (nat \<times> nat) list \<Rightarrow> string \<Rightarrow> (nat \<times> nat) list" where
  "filtro_passo show t h lvl = (let h0 = [] in if lvl \<noteq> show then h0 @ marcas lvl t else h0)"

definition apply_log_filter :: "console \<Rightarrow> console" where
  "apply_log_filter c =
     (let show = log_filter c in
      if show \<noteq> ''all'' then
        c\<lparr>hidden := foldl (filtro_passo show (log_txt c)) [] [''ok'', ''info'', ''warn'', ''error''],
          elide := True\<rparr>
      else c\<lparr>elide := False\<rparr>)"

definition log_line_ui :: "string \<Rightarrow> string \<Rightarrow> console \<Rightarrow> console" where
  "log_line_ui level msg c =
     (let c1 = apply_log_filter (c\<lparr>log_txt := log_txt c @ log_line level msg\<rparr>)
      in if level \<in> {''warn'', ''error''} then set_status_ui level c1 else c1)"

definition log_ui :: "string \<Rightarrow> string \<Rightarrow> console \<Rightarrow> console" where
  "log_ui level msg c = log_line_ui level msg c"

text \<open>Deleting the text removes its tag ranges too.\<close>

definition log_clear_ui :: "console \<Rightarrow> console" where
  "log_clear_ui c = set_status_ui ''ok''
     (c\<lparr>log_txt := [], hidden := [], toast := [], error_count := 0, warn_count := 0, last_status := ''ok''\<rparr>)"

subsection \<open>The specification of the counters\<close>

text \<open>
  What the status labels promise after a sequence of \<open>log(level, msg)\<close> calls since the
  last clear: the number of warnings, the number of errors, and the worst level seen.
\<close>

definition status_of :: "nat \<Rightarrow> nat \<Rightarrow> string" where
  "status_of w e = (if 0 < e then ''error'' else if 0 < w then ''warn'' else ''ok'')"

definition count_level :: "string \<Rightarrow> (string \<times> string) list \<Rightarrow> nat" where
  "count_level l evs = length (filter (\<lambda>(l', _). l' = l) evs)"

definition console_inv :: "console \<Rightarrow> bool" where
  "console_inv c \<longleftrightarrow> last_status c = status_of (warn_count c) (error_count c)
     \<and> status_badge c = badge_of (last_status c)
     \<and> status_counts c = counts_text (warn_count c) (error_count c)"

text \<open>The part of the state the three windows share: text, counters and labels.\<close>

definition vista :: "console \<Rightarrow> string \<times> nat \<times> nat \<times> string \<times> badge \<times> string" where
  "vista c = (log_txt c, warn_count c, error_count c, last_status c, status_badge c, status_counts c)"

subsection \<open>Facts on the console operations\<close>

lemma status_of_simps [simp]:
  "status_of w (Suc e) = ''error''"
  "status_of (Suc w) 0 = ''warn''"
  "status_of 0 0 = ''ok''"
  by (simp_all add: status_of_def)

lemma status_of_cases: "status_of w e \<in> {''ok'', ''warn'', ''error''}"
  by (simp add: status_of_def)

lemma console_inv_init: "console_inv console_init"
  by (simp add: console_inv_def console_init_def status_of_def badge_of_def)

lemma log_mes_inv: "console_inv c \<Longrightarrow> console_inv (log_mes l m c)"
  by (cases "error_count c") (auto simp: console_inv_def log_mes_def render_def Let_def status_of_def)

lemma log_clear_mes_inv: "console_inv (log_clear_mes c)"
  by (simp add: console_inv_def log_clear_mes_def badge_of_def)

lemma log_docket_eq:
  assumes "console_inv c"
  shows "log_docket l m c = log_mes l m c"
proof -
  have u: "c\<lparr>log_txt := x, last_status := s\<rparr> = c\<lparr>log_txt := x\<rparr>" if "last_status c = s" for x s
    using that by (cases c) simp
  have z: "last_status c = ''ok''" if "warn_count c = 0 \<and> error_count c = 0"
    using assms that by (simp add: console_inv_def status_of_def)
  show ?thesis
    by (cases "warn_count c = 0 \<and> error_count c = 0")
      (auto simp: log_docket_def log_mes_def Let_def u z)
qed

lemma apply_log_filter_vista [simp]: "vista (apply_log_filter c) = vista c"
  by (simp add: apply_log_filter_def vista_def Let_def)

lemma set_status_ui_vista:
  "console_inv c \<Longrightarrow> l \<in> {''warn'', ''error''} \<Longrightarrow> vista (set_status_ui l c) = vista (render (
     if l = ''warn'' then c\<lparr>warn_count := Suc (warn_count c),
                       last_status := (if last_status c \<noteq> ''error'' then ''warn'' else ''error'')\<rparr>
     else c\<lparr>error_count := Suc (error_count c), last_status := ''error''\<rparr>))"
  by (auto simp: console_inv_def set_status_ui_def render_def vista_def Let_def status_of_def badge_of_def)

lemma log_line_ui_vista:
  assumes "console_inv c"
  shows "vista (log_line_ui l m c) = vista (log_mes l m c)"
proof -
  let ?c1 = "apply_log_filter (c\<lparr>log_txt := log_txt c @ log_line l m\<rparr>)"
  have i1: "console_inv ?c1" using assms by (simp add: console_inv_def apply_log_filter_def Let_def)
  show ?thesis
  proof (cases "l \<in> {''warn'', ''error''}")
    case True
    then show ?thesis using set_status_ui_vista [OF i1 True] assms
      by (auto simp: log_line_ui_def log_mes_def Let_def vista_def render_def apply_log_filter_def)
  next
    case False
    then show ?thesis using assms
      by (auto simp: log_line_ui_def log_mes_def Let_def vista_def render_def apply_log_filter_def
          console_inv_def)
  qed
qed

lemma log_clear_ui_vista: "vista (log_clear_ui c) = vista (log_clear_mes c)"
  by (simp add: log_clear_ui_def log_clear_mes_def set_status_ui_def vista_def Let_def)

lemma count_level_simps [simp]:
  "count_level l [] = 0"
  "count_level l ((l', m) # evs) = (if l' = l then Suc (count_level l evs) else count_level l evs)"
  by (simp_all add: count_level_def)

lemma log_mes_counts:
  "warn_count (log_mes l m c) = (if l = ''warn'' then Suc (warn_count c) else warn_count c)"
  "error_count (log_mes l m c) = (if l = ''error'' then Suc (error_count c) else error_count c)"
  "log_txt (log_mes l m c) = log_txt c @ log_line l m"
  by (simp_all add: log_mes_def Let_def render_def)

lemma log_mes_fold:
  assumes "console_inv c"
  shows "console_inv (foldl (\<lambda>c (l, m). log_mes l m c) c evs)
     \<and> warn_count (foldl (\<lambda>c (l, m). log_mes l m c) c evs) = warn_count c + count_level ''warn'' evs
     \<and> error_count (foldl (\<lambda>c (l, m). log_mes l m c) c evs) = error_count c + count_level ''error'' evs
     \<and> log_txt (foldl (\<lambda>c (l, m). log_mes l m c) c evs) = log_txt c @ concat (map (\<lambda>(l, m). log_line l m) evs)"
  using assms
proof (induction evs arbitrary: c)
  case Nil
  then show ?case by simp
next
  case (Cons ev evs)
  obtain l m where ev: "ev = (l, m)" by fastforce
  have "console_inv (log_mes l m c)" using Cons.prems by (rule log_mes_inv)
  from Cons.IH [OF this] show ?case by (simp add: ev log_mes_counts)
qed

lemma console_inv_vista: "vista c = vista c' \<Longrightarrow> console_inv c = console_inv c'"
  by (simp add: vista_def console_inv_def)

lemma log_mes_vista: "vista c = vista c' \<Longrightarrow> vista (log_mes l m c) = vista (log_mes l m c')"
  by (simp add: vista_def log_mes_def render_def Let_def)

lemma log_ui_inv:
  assumes "console_inv c"
  shows "console_inv (log_ui l m c)"
proof -
  have v: "vista (log_ui l m c) = vista (log_mes l m c)"
    using log_line_ui_vista [OF assms] by (simp add: log_ui_def)
  show ?thesis by (subst console_inv_vista [OF v]) (rule log_mes_inv [OF assms])
qed

lemma log_clear_ui_inv: "console_inv (log_clear_ui c)"
  by (subst console_inv_vista [OF log_clear_ui_vista]) (rule log_clear_mes_inv)

text \<open>Runs of the two windows from states with the same view keep the same view.\<close>

lemma fold_ui_mes:
  assumes "vista c1 = vista c2" "console_inv c2"
  shows "vista (foldl (\<lambda>c (l, m). log_ui l m c) c1 evs) = vista (foldl (\<lambda>c (l, m). log_mes l m c) c2 evs)"
  using assms
proof (induction evs arbitrary: c1 c2)
  case Nil
  then show ?case by simp
next
  case (Cons ev evs)
  obtain l m where ev: "ev = (l, m)" by fastforce
  have i1: "console_inv c1" using console_inv_vista [OF Cons.prems(1)] Cons.prems(2) by simp
  have "vista (log_ui l m c1) = vista (log_mes l m c2)"
    using log_line_ui_vista [OF i1, of l m] log_mes_vista [OF Cons.prems(1)] by (simp add: log_ui_def)
  moreover have "console_inv (log_mes l m c2)" using Cons.prems(2) by (rule log_mes_inv)
  ultimately show ?case using Cons.IH by (simp add: ev)
qed

subsection \<open>Properties of the console\<close>

text \<open>
  C6.  The console refines its specification: after \<open>_log_clear\<close> and any sequence
  of \<open>_log\<close> calls, the counters are the numbers of \<open>warn\<close> and \<open>error\<close> calls, the
  status is the worst level seen, the labels render exactly these, and the text is the
  calls' lines in order.
\<close>

theorem console_refines:
  "warn_count (foldl (\<lambda>c (l, m). log_mes l m c) (log_clear_mes c) evs) = count_level ''warn'' evs
   \<and> error_count (foldl (\<lambda>c (l, m). log_mes l m c) (log_clear_mes c) evs) = count_level ''error'' evs
   \<and> status_badge (foldl (\<lambda>c (l, m). log_mes l m c) (log_clear_mes c) evs)
       = badge_of (status_of (count_level ''warn'' evs) (count_level ''error'' evs))
   \<and> status_counts (foldl (\<lambda>c (l, m). log_mes l m c) (log_clear_mes c) evs)
       = counts_text (count_level ''warn'' evs) (count_level ''error'' evs)
   \<and> log_txt (foldl (\<lambda>c (l, m). log_mes l m c) (log_clear_mes c) evs)
       = concat (map (\<lambda>(l, m). log_line l m) evs)"
  using log_mes_fold [OF log_clear_mes_inv [of c], of evs]
  by (simp add: console_inv_def log_clear_mes_def)

text \<open>
  C26.  docket.py's \<open>_log\<close>, with its extra branch, behaves exactly as the one of
  LicitagovLicitacaoMesApp.py on every state where the status agrees with the counters:
  the extra branch never changes anything there.
\<close>

theorem log_docket_equiv:
  "console_inv c \<Longrightarrow> log_docket l m c = log_mes l m c"
  by (rule log_docket_eq)

text \<open>
  C27.  The styled window's console (\<open>_log_line\<close> with \<open>_set_status\<close>, and its
  \<open>_log_clear\<close>) shows the same text, counters and labels as LicitagovLicitacaoMesApp.py's
  after any sequence of calls since a clear.
\<close>

theorem log_ui_equiv:
  "vista (foldl (\<lambda>c (l, m). log_ui l m c) (log_clear_ui c) evs)
     = vista (foldl (\<lambda>c (l, m). log_mes l m c) (log_clear_mes c') evs)"
proof -
  have "vista (log_clear_ui c) = vista (log_clear_mes c')"
    using log_clear_ui_vista [of c] by (simp add: vista_def log_clear_mes_def)
  then show ?thesis using fold_ui_mes log_clear_mes_inv by blast
qed

text \<open>
  C9.  The status agrees with the counters and the labels render them in the state the
  constructors set up, and every operation of the three windows keeps it so.
\<close>

theorem console_inv_preserved:
  "console_inv console_init
   \<and> (console_inv c \<longrightarrow> console_inv (log_mes l m c) \<and> console_inv (log_docket l m c)
        \<and> console_inv (log_ui l m c))
   \<and> console_inv (log_clear_mes c) \<and> console_inv (log_clear_ui c)"
  using console_inv_init log_mes_inv log_docket_eq log_ui_inv log_clear_mes_inv log_clear_ui_inv
  by simp

text \<open>
  C28.  \<open>_apply_log_filter\<close> does not filter as its radio buttons say: each round of its
  loop removes the marks of the rounds before, so only the last round counts.  With
  "Erros" selected nothing is hidden; with "Info" or "Avisos" only the \<open>[ERROR]\<close> lines
  are.  A \<open>WARN\<close> line logged under "Erros" stays visible.
\<close>

theorem log_filter_last_round_only:
  "hidden (apply_log_filter (c\<lparr>log_filter := ''error''\<rparr>)) = []
   \<and> hidden (apply_log_filter (c\<lparr>log_filter := ''warn''\<rparr>)) = marcas ''error'' (log_txt c)
   \<and> hidden (apply_log_filter (c\<lparr>log_filter := ''info''\<rparr>)) = marcas ''error'' (log_txt c)
   \<and> hidden (log_ui ''warn'' ''x'' (console_init\<lparr>log_filter := ''error''\<rparr>)) = []
   \<and> marcas ''warn'' (log_txt (log_ui ''warn'' ''x'' (console_init\<lparr>log_filter := ''error''\<rparr>))) = [(1, 0)]"
  by (simp add: apply_log_filter_def filtro_passo_def Let_def log_ui_def log_line_ui_def
      set_status_ui_def console_init_def marcas_def level_tag_def log_line_def pystr_simps)

subsection \<open>Witnesses\<close>

theorem log_docket_equiv_witness:
  "log_docket ''info'' ''x'' console_init = log_mes ''info'' ''x'' console_init"
  using log_docket_equiv console_inv_init by blast

theorem console_inv_preserved_witness:
  "console_inv (log_ui ''warn'' ''x'' (log_mes ''error'' ''y'' console_init))"
  using console_inv_preserved [of console_init] console_inv_preserved [of "log_mes ''error'' ''y'' console_init"]
  by blast

end
