(* ===== verification/App.thy ===== *)
theory App
  imports Copier TreeBuilder Console
begin

text \<open>
  The creation pipeline \<open>_criar\<close> and the form handlers of the three month-based
  windows: \<open>App\<close> of LicitagovLicitacaoMesApp.py, \<open>App\<close> of docket.py and
  \<open>StyledApp\<close> of LicitagovLicitacaoMesApp_UI.py.  The three \<open>_criar\<close> have the same
  text but for the console they log to, the step that creates the sub-folders (docket.py
  creates only the checked ones) and one word of the final toast; they are one
  definition over the window.  A window's state is the file system, its console and the
  values of its form variables and the message boxes shown; an exception that no \<open>try\<close> catches ends the handler
  (its \<open>finally\<close> only resets buttons) and is the \<open>Excecao\<close> outcome.
\<close>

subsection \<open>State\<close>

datatype janela = MesApp | Docket | Styled

record app =
  fsys :: fs
  con :: console
  app_dir :: path
  var_mes :: string
  var_dia :: string
  var_idlct :: string
  var_portal :: string
  var_gp :: bool
  var_cidadeuf :: string
  var_modelos_path :: string
  var_template_path :: string
  var_politica :: string
  anexos_arquivos :: "path list"
  lst_anexos :: "string list"
  var_anexos_destino :: string
  vars_subpastas :: "(string \<times> bool) list"
  destino_criado :: "path option"
  lbl_preview :: string
  caixas :: "(string \<times> string) list"

text \<open>\<open>caixas\<close>: the message boxes shown so far, as (title, text), in order.\<close>

text \<open>The console operations of each window.\<close>

fun log_j :: "janela \<Rightarrow> string \<Rightarrow> string \<Rightarrow> console \<Rightarrow> console" where
  "log_j MesApp = log_mes"
| "log_j Docket = log_docket"
| "log_j Styled = log_ui"

fun clear_j :: "janela \<Rightarrow> console \<Rightarrow> console" where
  "clear_j Styled = log_clear_ui"
| "clear_j _ = log_clear_mes"

definition log_app :: "janela \<Rightarrow> string \<Rightarrow> string \<Rightarrow> app \<Rightarrow> app" where
  "log_app j l m a = a\<lparr>con := log_j j l m (con a)\<rparr>"

text \<open>The calls \<open>log(level, msg)\<close> a copier made, in order.\<close>

definition log_events :: "janela \<Rightarrow> event list \<Rightarrow> app \<Rightarrow> app" where
  "log_events j evs a = foldl (\<lambda>a (l, m). log_app j l m a) a evs"

definition toast_app :: "string \<Rightarrow> app \<Rightarrow> app" where
  "toast_app msg a = a\<lparr>con := (con a)\<lparr>toast := msg\<rparr>\<rparr>"

subsection \<open>Form handlers\<close>

text \<open>\<open>montar_nome_licitacao\<close>: the folder name of a bid.\<close>

definition montar_nome_licitacao :: "string \<Rightarrow> string \<Rightarrow> string \<Rightarrow> bool \<Rightarrow> string \<Rightarrow> string" where
  "montar_nome_licitacao dia id_lct portal gp cidade_uf =
     py_strip dia @ ''_'' @ py_strip id_lct @ ''_'' @ py_strip portal @ (if gp then ''_GP'' else [])
       @ ''_'' @ py_strip cidade_uf"

definition update_preview :: "app \<Rightarrow> app" where
  "update_preview a = a\<lparr>lbl_preview := montar_nome_licitacao (var_dia a) (var_idlct a) (var_portal a)
                                         (var_gp a) (var_cidadeuf a)\<rparr>"

text \<open>\<open>_add_anexos\<close> after the file dialog returned \<open>files\<close>, absolute paths as
  \<open>askopenfilenames\<close> gives them (\<open>str_path\<close> reads a path text; the model's paths
  are absolute, so a relative text would be read against the working directory, which
  \<open>Path(f)\<close> does not do).\<close>

fun add_anexos :: "string list \<Rightarrow> app \<Rightarrow> app" where
  "add_anexos [] a = a"
| "add_anexos (f # fs) a =
     (let p = str_path (fsys a) f in
      add_anexos fs (if p \<notin> set (anexos_arquivos a)
                     then a\<lparr>anexos_arquivos := anexos_arquivos a @ [p], lst_anexos := lst_anexos a @ [path_str p]\<rparr>
                     else a))"

definition limpar_anexos :: "app \<Rightarrow> app" where
  "limpar_anexos a = a\<lparr>anexos_arquivos := [], lst_anexos := []\<rparr>"

text \<open>\<open>_detectar_template\<close>; \<open>str(modelos) if modelos else ""\<close> is always \<open>str(modelos)\<close>,
  a path being true.\<close>

definition detectar_template :: "janela \<Rightarrow> app \<Rightarrow> app \<times> fs_error option" where
  "detectar_template j a =
     (let fs = fsys a; modelos0 = str_path fs (py_strip (var_modelos_path a)) in
      case (if exists fs modelos0 then Inr modelos0
            else (case detectar_pasta_modelos fs (app_dir a) of
                    Inl e \<Rightarrow> Inl e | Inr r \<Rightarrow> Inr (case r of Some m \<Rightarrow> m | None \<Rightarrow> modelos0))) of
        Inl e \<Rightarrow> (a, Some e)
      | Inr modelos \<Rightarrow>
          (let a1 = (if exists fs modelos0 then a else a\<lparr>var_modelos_path := path_str modelos\<rparr>) in
           case detectar_pasta_template fs modelos of
             Inl e \<Rightarrow> (a1, Some e)
           | Inr t \<Rightarrow>
               (let a2 = a1\<lparr>var_template_path := (case t of Some p \<Rightarrow> path_str p | None \<Rightarrow> [])\<rparr>;
                    ok = (case t of Some p \<Rightarrow> exists fs p | None \<Rightarrow> False)
                in (toast_app (if ok then (if j = Styled then ''Template detectado com sucesso.''
                                           else ''Template detectado.'')
                               else ''N'' @ [CHR 0xE3] @ ''o foi poss'' @ [CHR 0xED]
                                    @ ''vel detectar o template.'') a2, None))))"

text \<open>\<open>_escolher_modelos\<close> after \<open>askdirectory\<close> returned \<open>p\<close> (empty when cancelled).\<close>

definition escolher_modelos :: "janela \<Rightarrow> string \<Rightarrow> app \<Rightarrow> app \<times> fs_error option" where
  "escolher_modelos j p a = (if p \<noteq> [] then detectar_template j (a\<lparr>var_modelos_path := p\<rparr>) else (a, None))"

text \<open>
  \<open>_abrir_destino\<close>: an information box when nothing was created yet, else the
  folder handed to the platform's file manager (\<open>os.startfile\<close>, \<open>open\<close> or
  \<open>xdg-open\<close>), whose failure only shows an error box.
\<close>

datatype abertura = Crie_primeiro | Abrir string

definition abrir_destino :: "app \<Rightarrow> abertura" where
  "abrir_destino a = (case destino_criado a of None \<Rightarrow> Crie_primeiro | Some d \<Rightarrow> Abrir (path_str d))"

subsection \<open>The steps of \<open>_criar\<close>\<close>

text \<open>
  Each step returns the window and how the handler goes on: with a value, by the
  \<open>return\<close> after a logged error, or by an uncaught exception.
\<close>

datatype 'a etapa = Continua 'a | Retorna | Excecao fs_error

definition seguir :: "app \<times> 'a etapa \<Rightarrow> ('a \<Rightarrow> app \<Rightarrow> app \<times> 'b etapa) \<Rightarrow> app \<times> 'b etapa" where
  "seguir r f = (case r of (a, Continua x) \<Rightarrow> f x a | (a, Retorna) \<Rightarrow> (a, Retorna)
                         | (a, Excecao e) \<Rightarrow> (a, Excecao e))"

definition erro_msg :: "string \<Rightarrow> fs_error \<Rightarrow> string" where
  "erro_msg s e = ''Falha ao '' @ s @ '': '' @ fs_error_str e"

text \<open>
  An error branch of \<open>_criar\<close>: \<open>self._log("error", f"Falha ao {s}: {e}")\<close>, then
  \<open>messagebox.showerror("Erro", f"{texto}:\n{e}")\<close>, then \<open>return\<close>.
\<close>

definition caixa_erro :: "string \<Rightarrow> fs_error \<Rightarrow> app \<Rightarrow> app" where
  "caixa_erro texto e a = a\<lparr>caixas := caixas a @ [(''Erro'', texto @ '':\<newline>'' @ fs_error_str e)]\<rparr>"

definition falha :: "janela \<Rightarrow> string \<Rightarrow> string \<Rightarrow> fs_error \<Rightarrow> app \<Rightarrow> app" where
  "falha j s texto e a = caixa_erro texto e (log_app j ''error'' (erro_msg s e) a)"

definition nao_foi_possivel :: string where
  "nao_foi_possivel = ''N'' @ [CHR 0xE3] @ ''o foi poss'' @ [CHR 0xED] @ ''vel ''"

text \<open>1) the month folder: \<open>resolver_pasta_mes\<close>, then a \<open>mkdir\<close> if it does not exist.\<close>

definition etapa_mes :: "janela \<Rightarrow> app \<Rightarrow> app \<times> path etapa" where
  "etapa_mes j a =
     (case resolver_pasta_mes (fsys a) (app_dir a) (var_mes a) of
        (fs1, Inl e) \<Rightarrow> (a\<lparr>fsys := fs1\<rparr>, Excecao e)
      | (fs1, Inr pasta) \<Rightarrow>
          (if exists fs1 pasta then (a\<lparr>fsys := fs1\<rparr>, Continua pasta)
           else (case mkdir_p fs1 pasta of
                   (fs2, None) \<Rightarrow> (log_app j ''info'' (''Pasta do m'' @ [CHR 0xEA] @ ''s criada: '' @ path_str pasta)
                                     (a\<lparr>fsys := fs2\<rparr>), Continua pasta)
                 | (fs2, Some e) \<Rightarrow> (falha j (''criar pasta do m'' @ [CHR 0xEA] @ ''s'')
                                        (nao_foi_possivel @ ''criar a pasta do m'' @ [CHR 0xEA] @ ''s'') e
                                        (a\<lparr>fsys := fs2\<rparr>), Retorna))))"

text \<open>2) the bid folder \<open>pasta_mes / nome\<close>, \<open>nome\<close> the preview label's text.\<close>

definition etapa_licitacao :: "janela \<Rightarrow> path \<Rightarrow> app \<Rightarrow> app \<times> path etapa" where
  "etapa_licitacao j pasta a =
     (let destino = path_join pasta (lbl_preview a) in
      case mkdir_p (fsys a) destino of
        (fs1, None) \<Rightarrow> (log_app j ''ok'' (''Licita'' @ [CHR 0xE7, CHR 0xE3] @ ''o: '' @ path_str destino)
                          (a\<lparr>fsys := fs1\<rparr>), Continua destino)
      | (fs1, Some e) \<Rightarrow> (falha j (''criar pasta da licita'' @ [CHR 0xE7, CHR 0xE3] @ ''o'')
                             (if j = Docket then ''Falha ao criar pasta da licita'' @ [CHR 0xE7, CHR 0xE3] @ ''o''
                              else nao_foi_possivel @ ''criar a pasta da licita'' @ [CHR 0xE7, CHR 0xE3] @ ''o'')
                             e (a\<lparr>fsys := fs1\<rparr>), Retorna))"

text \<open>3) the sub-folders: all of \<open>SUBPASTAS_DESTINO\<close>, or in docket.py the checked ones.\<close>

definition marcadas :: "(string \<times> bool) list \<Rightarrow> string list" where
  "marcadas vs = map fst (filter snd vs)"

fun subpastas_j :: "janela \<Rightarrow> app \<Rightarrow> path \<Rightarrow> fs \<times> fs_error option" where
  "subpastas_j Docket a d = criar_fixas (fsys a) d (marcadas (vars_subpastas a))"
| "subpastas_j _ a d = criar_estrutura_licitacao (fsys a) d"

definition etapa_subpastas :: "janela \<Rightarrow> path \<Rightarrow> app \<Rightarrow> app \<times> unit etapa" where
  "etapa_subpastas j destino a =
     (case subpastas_j j a destino of
        (fs1, None) \<Rightarrow> (a\<lparr>fsys := fs1\<rparr>, Continua ())
      | (fs1, Some e) \<Rightarrow> (falha j ''criar subpastas'' ''Falha ao criar subpastas'' e (a\<lparr>fsys := fs1\<rparr>), Retorna))"

text \<open>4) the MODELOS and TEMPLATE folders: the form's paths, detected only when missing.\<close>

definition fontes :: "app \<Rightarrow> app \<times> (path \<times> path) etapa" where
  "fontes a =
     (let fs = fsys a;
          modelos0 = str_path fs (py_strip (var_modelos_path a));
          template0 = str_path fs (py_strip (var_template_path a))
      in case (if exists fs modelos0 then Inr (modelos0, a)
               else (case detectar_pasta_modelos fs (app_dir a) of
                       Inl e \<Rightarrow> Inl e
                     | Inr r \<Rightarrow> (let m = (case r of Some m \<Rightarrow> m | None \<Rightarrow> modelos0)
                                in Inr (m, a\<lparr>var_modelos_path := path_str m\<rparr>)))) of
           Inl e \<Rightarrow> (a, Excecao e)
         | Inr (modelos, a1) \<Rightarrow>
             (if exists fs modelos \<and> \<not> exists fs template0 then
                (case detectar_pasta_template fs modelos of
                   Inl e \<Rightarrow> (a1, Excecao e)
                 | Inr r \<Rightarrow> (let t = (case r of Some t \<Rightarrow> t | None \<Rightarrow> template0)
                            in (a1\<lparr>var_template_path := path_str t\<rparr>, Continua (modelos, t))))
              else (a1, Continua (modelos, template0))))"

text \<open>5) the copy of the checked sub-folders, when both folders exist.\<close>

definition etapa_copia :: "janela \<Rightarrow> path \<Rightarrow> path \<times> path \<Rightarrow> app \<Rightarrow> app \<times> unit etapa" where
  "etapa_copia j destino mt a =
     (let (modelos, template) = mt; fs = fsys a in
      if \<not> exists fs modelos then
        (log_app j ''warn'' (''Pasta MODELOS (raiz) n'' @ [CHR 0xE3] @ ''o encontrada. Selecione manualmente.'') a,
         Continua ())
      else if \<not> exists fs template then
        (log_app j ''warn'' (''Subpasta TEMPLATE n'' @ [CHR 0xE3] @ ''o encontrada dentro da pasta MODELOS.'') a,
         Continua ())
      else (let sel = marcadas (vars_subpastas a) in
            if sel = [] then (a, Continua ())
            else (let a1 = log_app j ''info'' (''Copiando padr'' @ [CHR 0xF5] @ ''es de: '' @ path_str template) a;
                      (fs2, evs, err) = copiar_padrao_resiliente (fsys a1) template destino (var_politica a1) sel;
                      a2 = log_events j evs (a1\<lparr>fsys := fs2\<rparr>)
                  in case err of
                       None \<Rightarrow> (a2, Continua ())
                     | Some e \<Rightarrow> (falha j (''copiar padr'' @ [CHR 0xF5] @ ''es'')
                                   (''Falha ao copiar padr'' @ [CHR 0xF5] @ ''es'') e a2, Retorna))))"

text \<open>6) the user's attachments.\<close>

definition etapa_anexos :: "janela \<Rightarrow> path \<Rightarrow> app \<Rightarrow> app \<times> unit etapa" where
  "etapa_anexos j destino a =
     (if anexos_arquivos a = [] then (a, Continua ())
      else (let (fs1, evs, err) = anexar_arquivos (fsys a) (anexos_arquivos a) destino
                                    (var_anexos_destino a) (var_politica a);
                a1 = log_events j evs (a\<lparr>fsys := fs1\<rparr>)
            in case err of
                 None \<Rightarrow> (a1, Continua ())
               | Some e \<Rightarrow> (falha j ''anexar arquivos'' ''Falha ao anexar arquivos'' e a1, Retorna)))"

text \<open>7) the end: remember the folder and report by the counters.\<close>

definition concluir :: "janela \<Rightarrow> path \<Rightarrow> app \<Rightarrow> app" where
  "concluir j destino a =
     (let a1 = a\<lparr>destino_criado := Some destino\<rparr>;
          onde = (if j = Styled then ''log'' else ''console'')
      in if 0 < error_count (con a1) then toast_app (''Conclu'' @ [CHR 0xED] @ ''do com erros. Verifique o '' @ onde @ ''.'') a1
         else if 0 < warn_count (con a1) then toast_app (''Conclu'' @ [CHR 0xED] @ ''do com avisos. Verifique o '' @ onde @ ''.'') a1
         else toast_app (''Licita'' @ [CHR 0xE7, CHR 0xE3] @ ''o criada com sucesso!'') a1)"

text \<open>
  The handler: \<open>_log_clear()\<close>, \<open>_toast("Iniciando cria\<dots>")\<close>, the steps.  The
  ellipsis lies outside Latin-1 and is written as its UTF-8 bytes.  The button and the
  progress bar it disables and the \<open>finally\<close> enables again are not state of the model.
\<close>

definition iniciando :: string where
  "iniciando = ''Iniciando cria'' @ [CHR 0xE7, CHR 0xE3] @ ''o'' @ [CHR 0xE2, CHR 0x80, CHR 0xA6]"

definition criar :: "janela \<Rightarrow> app \<Rightarrow> app \<times> unit etapa" where
  "criar j a =
     seguir (etapa_mes j (toast_app iniciando (a\<lparr>con := clear_j j (con a)\<rparr>))) (\<lambda>pasta a.
     seguir (etapa_licitacao j pasta a) (\<lambda>destino a.
     seguir (etapa_subpastas j destino a) (\<lambda>_ a.
     seguir (fontes a) (\<lambda>mt a.
     seguir (etapa_copia j destino mt a) (\<lambda>_ a.
     seguir (etapa_anexos j destino a) (\<lambda>_ a.
       (concluir j destino a, Continua ())))))))"

text \<open>Predicates on the window state used by the lemmas below.\<close>

definition mantem_dirs :: "app \<Rightarrow> app \<Rightarrow> bool" where
  "mantem_dirs a a' \<longleftrightarrow> (\<forall>q. fs_lookup (fsys a) q = Some Dir \<longrightarrow> fs_lookup (fsys a') q = Some Dir)"

text \<open>
  What a step leaves of the window's report: the boxes shown and the folder remembered
  unchanged, or, when it returns after an error, one more error box and an error status.
  \<open>sereno\<close>: the console of a run that has logged neither a warning nor an error.
\<close>

definition mesmo_rastro :: "app \<Rightarrow> app \<Rightarrow> bool" where
  "mesmo_rastro a a' \<longleftrightarrow> caixas a' = caixas a \<and> destino_criado a' = destino_criado a"

definition abortou :: "app \<Rightarrow> app \<Rightarrow> bool" where
  "abortou a a' \<longleftrightarrow> 0 < error_count (con a') \<and> last_status (con a') = ''error''
     \<and> destino_criado a' = destino_criado a \<and> (\<exists>m. caixas a' = caixas a @ [(''Erro'', m)])"

definition sereno :: "console \<Rightarrow> bool" where
  "sereno c \<longleftrightarrow> error_count c = 0 \<and> warn_count c = 0 \<and> last_status c = ''ok'' \<and> status_badge c = Badge_OK"

definition rastro :: "app \<Rightarrow> app \<Rightarrow> 'x etapa \<Rightarrow> bool" where
  "rastro a a' r \<longleftrightarrow> (if r = Retorna then abortou a a' else mesmo_rastro a a')"

definition quieto :: "app \<Rightarrow> app \<Rightarrow> bool" where
  "quieto a a' \<longleftrightarrow> caixas a' = caixas a \<and> (sereno (con a) \<longrightarrow> sereno (con a'))"

definition anexos_inv :: "app \<Rightarrow> bool" where
  "anexos_inv a \<longleftrightarrow> distinct (anexos_arquivos a) \<and> lst_anexos a = map path_str (anexos_arquivos a)"

text \<open>A window opened in \<open>/L/P\<close> with the docket form filled in; MODELOS is not there.\<close>

definition fs_app :: fs where
  "fs_app = \<lparr>entries = [([''L''], Dir), ([''L'', ''P''], Dir)], readonly = [], cwd = [''L'', ''P'']\<rparr>"

definition app_ex :: app where
  "app_ex = \<lparr>fsys = fs_app, con = console_init, app_dir = [''L'', ''P''], var_mes = ''01. JANEIRO'',
     var_dia = ''01'', var_idlct = ''CE001'', var_portal = ''BLL'', var_gp = False,
     var_cidadeuf = ''Salvador-BA'', var_modelos_path = ''/L/M'', var_template_path = [],
     var_politica = ''duplicar'', anexos_arquivos = [], lst_anexos = [],
     var_anexos_destino = ''0. EDITAL_ANEXOS'', vars_subpastas = [(''A'', True), (''B'', False)],
     destino_criado = None, lbl_preview = ''X'', caixas = []\<rparr>"

text \<open>
  The same window on a read-only \<open>/L/P\<close>, where the month folder cannot be created, and
  on a tree where a file \<open>X\<close> stands where the bid folder should go.
\<close>

definition app_ro :: app where
  "app_ro = app_ex\<lparr>fsys := fs_app\<lparr>readonly := [[''L'', ''P'']]\<rparr>\<rparr>"

definition app_arq :: app where
  "app_arq = app_ex\<lparr>fsys := fs_app\<lparr>entries := entries fs_app @ [([''L'', ''P'', ''01. JANEIRO''], Dir),
                ([''L'', ''P'', ''01. JANEIRO'', ''X''], File \<lparr>content = [], mtime = 0\<rparr>)]\<rparr>\<rparr>"

subsection \<open>Lemmas on the steps\<close>

lemma split_on_free: "d \<notin> set xs \<Longrightarrow> split_on d xs = [xs]"
  by (induction xs) auto

lemma split_on_append: "d \<notin> set xs \<Longrightarrow> split_on d (xs @ d # ys) = xs # split_on d ys"
  by (induction xs) (auto simp: Let_def)

lemma copy2_keeps_dir:
  assumes "copy2 fs src dst = (fs', r)" "fs_lookup fs q = Some Dir"
  shows "fs_lookup fs' q = Some Dir"
proof (cases r)
  case (Inl e)
  then show ?thesis using copy2_Inl [of fs src dst fs' e] assms by simp
next
  case (Inr d)
  then obtain f where "fs' = put fs d (File f)" "d \<noteq> []" "fs_lookup fs d \<noteq> Some Dir"
    using copy2_Inr [of fs src dst fs' d] assms(1) by blast
  then show ?thesis using assms(2) by (auto simp: fs_lookup_put)
qed

lemma transferir_keeps_dir:
  "transferir v fs src dst p = (fs', evs) \<Longrightarrow> fs_lookup fs q = Some Dir \<Longrightarrow> fs_lookup fs' q = Some Dir"
  by (auto dest!: transferir_copy2 intro: copy2_keeps_dir)

lemma copiar_padrao_keeps_dir:
  assumes "copiar_padrao_resiliente fs raiz destino p rels = (fs', evs, err)" "fs_lookup fs q = Some Dir"
  shows "fs_lookup fs' q = Some Dir"
  by (rule copiar_padrao_preserve [where P = "\<lambda>fs. fs_lookup fs q = Some Dir", OF _ _ assms])
     (auto intro: transferir_keeps_dir mkdir_p_mono)

lemma anexar_keeps_dir:
  assumes "anexar_arquivos fs arqs raiz sub p = (fs', evs, err)" "fs_lookup fs q = Some Dir"
  shows "fs_lookup fs' q = Some Dir"
  by (rule anexar_arquivos_preserve [where P = "\<lambda>fs. fs_lookup fs q = Some Dir", OF _ _ assms])
     (auto intro: transferir_keeps_dir mkdir_p_mono)

lemma app_simps [simp]:
  "fsys (log_app j l m a) = fsys a" "anexos_arquivos (log_app j l m a) = anexos_arquivos a"
  "fsys (toast_app s a) = fsys a" "destino_criado (toast_app s a) = destino_criado a"
  "destino_criado (log_app j l m a) = destino_criado a"
  "caixas (log_app j l m a) = caixas a" "caixas (toast_app s a) = caixas a"
  "vars_subpastas (log_app j l m a) = vars_subpastas a" "vars_subpastas (toast_app s a) = vars_subpastas a"
  by (simp_all add: log_app_def toast_app_def)

lemma falha_simps [simp]:
  "fsys (falha j s t e a) = fsys a" "destino_criado (falha j s t e a) = destino_criado a"
  "vars_subpastas (falha j s t e a) = vars_subpastas a"
  "caixas (falha j s t e a) = caixas a @ [(''Erro'', t @ '':\<newline>'' @ fs_error_str e)]"
  by (simp_all add: falha_def caixa_erro_def)

lemma log_events_simps [simp]:
  "fsys (log_events j evs a) = fsys a" "destino_criado (log_events j evs a) = destino_criado a"
  "caixas (log_events j evs a) = caixas a"
  unfolding log_events_def by (induction evs arbitrary: a) auto


lemma seguir_Continua:
  "seguir r f = (a', Continua x) \<Longrightarrow> \<exists>a1 y. r = (a1, Continua y) \<and> f y a1 = (a', Continua x)"
  by (auto simp: seguir_def split: etapa.splits prod.splits)

lemma etapa_licitacao_ok:
  "etapa_licitacao j p a = (a', Continua d) \<Longrightarrow>
     is_dir (fsys a') d \<and> mantem_dirs a a' \<and> vars_subpastas a' = vars_subpastas a"
  by (auto simp: etapa_licitacao_def Let_def mantem_dirs_def log_app_def split: prod.splits option.splits
      intro: mkdir_p_ok mkdir_p_mono)

lemma etapa_subpastas_ok:
  assumes "etapa_subpastas j d a = (a', Continua u)"
  shows "(\<forall>rel\<in>set (if j = Docket then marcadas (vars_subpastas a) else SUBPASTAS_DESTINO).
            is_dir (fsys a') (path_join d rel)) \<and> mantem_dirs a a'"
proof -
  obtain fs1 where s: "subpastas_j j a d = (fs1, None)" and a': "a' = a\<lparr>fsys := fs1\<rparr>"
    using assms by (auto simp: etapa_subpastas_def split: prod.splits option.splits)
  have c: "criar_fixas (fsys a) d (if j = Docket then marcadas (vars_subpastas a) else SUBPASTAS_DESTINO)
             = (fs1, None)"
    using s by (cases j) (simp_all add: criar_estrutura_licitacao_def)
  show ?thesis using criar_fixas_dirs [OF c] criar_fixas_mono [OF c] a' by (simp add: mantem_dirs_def)
qed

lemma fontes_fsys: "fontes a = (a', r) \<Longrightarrow> fsys a' = fsys a"
  by (auto simp: fontes_def Let_def split: if_splits sum.splits prod.splits option.splits)

lemma etapa_copia_dirs: "etapa_copia j d mt a = (a', r) \<Longrightarrow> mantem_dirs a a'"
  by (auto simp: etapa_copia_def Let_def mantem_dirs_def split: if_splits prod.splits option.splits
      dest: copiar_padrao_keeps_dir)

lemma etapa_anexos_dirs: "etapa_anexos j d a = (a', r) \<Longrightarrow> mantem_dirs a a'"
  by (auto simp: etapa_anexos_def Let_def mantem_dirs_def split: if_splits prod.splits option.splits
      dest: anexar_keeps_dir)

lemma concluir_simps [simp]:
  "fsys (concluir j d a) = fsys a" "destino_criado (concluir j d a) = Some d"
  by (simp_all add: concluir_def Let_def)

lemma etapa_mes_vars: "etapa_mes j a = (a', r) \<Longrightarrow> vars_subpastas a' = vars_subpastas a"
  by (auto simp: etapa_mes_def log_app_def split: prod.splits sum.splits if_splits option.splits)

subsection \<open>Lemmas on the error reports\<close>

lemma log_j_error [simp]:
  "error_count (log_j j ''error'' m c) = Suc (error_count c)" "last_status (log_j j ''error'' m c) = ''error''"
  by (cases j; simp add: log_mes_def log_docket_def log_ui_def log_line_ui_def set_status_ui_def
      apply_log_filter_def render_def Let_def)+

lemma log_j_sereno:
  "sereno c \<Longrightarrow> l \<noteq> ''warn'' \<Longrightarrow> l \<noteq> ''error'' \<Longrightarrow> sereno (log_j j l m c)"
  by (cases j) (simp_all add: sereno_def log_mes_def log_docket_def log_ui_def log_line_ui_def
      apply_log_filter_def render_def badge_of_def Let_def)

lemma clear_j_sereno [simp]: "sereno (clear_j j c)"
  by (cases j rule: clear_j.cases)
     (simp_all add: sereno_def log_clear_mes_def log_clear_ui_def set_status_ui_def Let_def)

lemma falha_abortou: "mesmo_rastro a a0 \<Longrightarrow> abortou a (falha j s t e a0)"
  by (simp add: abortou_def mesmo_rastro_def falha_def caixa_erro_def log_app_def)

lemma mesmo_rastro_trans [trans]: "mesmo_rastro a a1 \<Longrightarrow> mesmo_rastro a1 a2 \<Longrightarrow> mesmo_rastro a a2"
  by (simp add: mesmo_rastro_def)

lemma abortou_trans: "mesmo_rastro a a1 \<Longrightarrow> abortou a1 a2 \<Longrightarrow> abortou a a2"
  by (simp add: mesmo_rastro_def abortou_def)

lemma mesmo_rastro_simps [simp]:
  "mesmo_rastro a a" "mesmo_rastro a (log_app j l m a1) = mesmo_rastro a a1"
  "mesmo_rastro a (log_events j evs a1) = mesmo_rastro a a1"
  "mesmo_rastro a (a1\<lparr>fsys := fs\<rparr>) = mesmo_rastro a a1"
  by (simp_all add: mesmo_rastro_def)

lemma seguir_abortou:
  assumes "seguir r f = (a', Retorna)" "\<And>a1 x. r = (a1, x) \<Longrightarrow> rastro a a1 x"
    and "\<And>a1 y. f y a1 = (a', Retorna) \<Longrightarrow> abortou a1 a'"
  shows "abortou a a'"
proof (cases r)
  case (Pair a1 x)
  with assms show ?thesis
    by (cases x) (auto simp: seguir_def rastro_def intro: abortou_trans)
qed

lemma quieto_trans: "quieto a a1 \<Longrightarrow> quieto a1 a2 \<Longrightarrow> quieto a a2"
  by (simp add: quieto_def)

lemma seguir_quieto:
  assumes "seguir r f = (a', Excecao e)" "\<And>a1 x. r = (a1, x) \<Longrightarrow> x \<noteq> Retorna \<Longrightarrow> quieto a a1"
    and "\<And>a1 y. f y a1 = (a', Excecao e) \<Longrightarrow> quieto a1 a'"
  shows "quieto a a'"
proof (cases r)
  case (Pair a1 x)
  with assms show ?thesis
    by (cases x) (auto simp: seguir_def intro: quieto_trans)
qed

lemma seguir_sem_excecao:
  assumes "seguir r f = (a', Excecao e)" "\<And>a1 x. r = (a1, x) \<Longrightarrow> x \<noteq> Excecao e"
    and "\<And>a1 y. f y a1 = (a', Excecao e) \<Longrightarrow> False"
  shows P
  using assms by (cases r; cases "snd r") (auto simp: seguir_def)

lemma etapa_mes_rastro: "etapa_mes j a = (a', r) \<Longrightarrow> rastro a a' r"
  by (auto simp: etapa_mes_def rastro_def intro!: falha_abortou split: prod.splits sum.splits if_splits option.splits)

lemma etapa_licitacao_rastro: "etapa_licitacao j p a = (a', r) \<Longrightarrow> rastro a a' r"
  by (auto simp: etapa_licitacao_def rastro_def Let_def intro!: falha_abortou split: prod.splits option.splits)

lemma etapa_subpastas_rastro: "etapa_subpastas j d a = (a', r) \<Longrightarrow> rastro a a' r"
  by (auto simp: etapa_subpastas_def rastro_def intro!: falha_abortou split: prod.splits option.splits)

lemma fontes_rastro: "fontes a = (a', r) \<Longrightarrow> rastro a a' r \<and> quieto a a'"
  by (auto simp: fontes_def rastro_def quieto_def mesmo_rastro_def Let_def
      split: if_splits sum.splits prod.splits option.splits)

lemma etapa_copia_rastro: "etapa_copia j d mt a = (a', r) \<Longrightarrow> rastro a a' r \<and> r \<noteq> Excecao e"
  by (auto simp: etapa_copia_def rastro_def Let_def intro!: falha_abortou
      split: if_splits prod.splits option.splits)

lemma etapa_anexos_rastro: "etapa_anexos j d a = (a', r) \<Longrightarrow> rastro a a' r"
  by (auto simp: etapa_anexos_def rastro_def Let_def intro!: falha_abortou split: if_splits prod.splits option.splits)

lemma etapa_anexos_sem_excecao: "etapa_anexos j d a = (a', r) \<Longrightarrow> r \<noteq> Excecao e"
  by (auto simp: etapa_anexos_def Let_def split: if_splits prod.splits option.splits)

lemma etapa_mes_quieto: "etapa_mes j a = (a', r) \<Longrightarrow> r \<noteq> Retorna \<Longrightarrow> quieto a a'"
  by (auto simp: etapa_mes_def quieto_def log_app_def intro: log_j_sereno
      split: prod.splits sum.splits if_splits option.splits)

lemma etapa_licitacao_quieto: "etapa_licitacao j p a = (a', r) \<Longrightarrow> r \<noteq> Retorna \<Longrightarrow> quieto a a'"
  by (auto simp: etapa_licitacao_def quieto_def log_app_def Let_def intro: log_j_sereno
      split: prod.splits option.splits)

lemma etapa_subpastas_quieto: "etapa_subpastas j d a = (a', r) \<Longrightarrow> r \<noteq> Retorna \<Longrightarrow> quieto a a'"
  by (auto simp: etapa_subpastas_def quieto_def split: prod.splits option.splits)

lemma str_path_Nil [simp]: "str_path fs [] = cwd fs"
  by (simp add: str_path_def path_join_def pystr_simps)

subsection \<open>Properties of the pipeline\<close>

text \<open>C1. When \<open>_criar\<close> runs to its end, the bid folder it remembers exists and so does
  every sub-folder it was asked to create: all of \<open>SUBPASTAS_DESTINO\<close>, or in docket.py the
  checked ones.  The copy and the attachments steps that follow never remove a folder.\<close>

theorem criar_completa:
  assumes "criar j a = (a', Continua ())"
  shows "\<exists>d. destino_criado a' = Some d \<and> is_dir (fsys a') d
           \<and> (\<forall>rel\<in>set (if j = Docket then marcadas (vars_subpastas a) else SUBPASTAS_DESTINO).
                is_dir (fsys a') (path_join d rel))"
  using assms unfolding criar_def seguir_def
  by (auto split: prod.splits etapa.splits dest!: etapa_mes_vars etapa_licitacao_ok etapa_subpastas_ok
      fontes_fsys etapa_copia_dirs etapa_anexos_dirs simp: mantem_dirs_def is_dir_def)

theorem criar_completa_witness:
  "is_dir (fsys (fst (criar Docket app_ex))) [''L'', ''P'', ''01. JANEIRO'', ''X'', ''A'']"
proof -
  have r: "snd (criar Docket app_ex) = Continua ()
     \<and> destino_criado (fst (criar Docket app_ex)) = Some [''L'', ''P'', ''01. JANEIRO'', ''X'']"
    by code_simp
  have "marcadas (vars_subpastas app_ex) = [''A'']" by (simp add: app_ex_def marcadas_def)
  with r criar_completa [of Docket app_ex "fst (criar Docket app_ex)"] show ?thesis
    by (simp add: path_join_def pystr_simps) (metis prod.collapse)
qed

text \<open>C2. When \<open>_criar\<close> returns after one of its caught errors, the window reports it: the
  error counter is positive, the status is \<open>"error"\<close>, exactly one more message box was
  shown, titled \<open>Erro\<close>, and the folder remembered for \<open>_abrir_destino\<close> is the one
  remembered before.\<close>

theorem criar_retorna_erro:
  assumes "criar j a = (a', Retorna)"
  shows "0 < error_count (con a') \<and> last_status (con a') = ''error''
           \<and> destino_criado a' = destino_criado a \<and> (\<exists>m. caixas a' = caixas a @ [(''Erro'', m)])"
proof -
  let ?a0 = "toast_app iniciando (a\<lparr>con := clear_j j (con a)\<rparr>)"
  have "abortou ?a0 a'"
    using assms unfolding criar_def
    by (elim seguir_abortou)
       (auto dest: etapa_mes_rastro etapa_licitacao_rastro etapa_subpastas_rastro fontes_rastro
          etapa_copia_rastro etapa_anexos_rastro)
  then show ?thesis by (simp add: abortou_def toast_app_def)
qed

theorem criar_retorna_erro_witness:
  "snd (criar Docket app_arq) = Retorna \<and> 0 < error_count (con (fst (criar Docket app_arq)))
   \<and> caixas (fst (criar Docket app_arq)) = [(''Erro'', ''Falha ao criar pasta da licita'' @ [CHR 0xE7, CHR 0xE3]
        @ ''o:\<newline>[Errno 17] File exists'')]"
proof -
  have r: "snd (criar Docket app_arq) = Retorna" by code_simp
  have c: "caixas (fst (criar Docket app_arq)) = [(''Erro'', ''Falha ao criar pasta da licita'' @ [CHR 0xE7, CHR 0xE3]
                @ ''o:\<newline>[Errno 17] File exists'')]"
    by code_simp
  from r have "criar Docket app_arq = (fst (criar Docket app_arq), Retorna)" by (metis prod.collapse)
  from criar_retorna_erro [OF this] r c show ?thesis by simp
qed

text \<open>C3. An exception that no \<open>try\<close> of \<open>_criar\<close> catches (from \<open>resolver_pasta_mes\<close>,
  \<open>detectar_pasta_modelos\<close> or \<open>detectar_pasta_template\<close>) leaves the window silent: no
  message box, no warning or error counted, and the badge still showing OK.\<close>

theorem criar_excecao_silenciosa:
  assumes "criar j a = (a', Excecao e)"
  shows "caixas a' = caixas a \<and> error_count (con a') = 0 \<and> warn_count (con a') = 0
           \<and> status_badge (con a') = Badge_OK"
proof -
  let ?a0 = "toast_app iniciando (a\<lparr>con := clear_j j (con a)\<rparr>)"
  have "quieto ?a0 a'"
    apply (insert assms [unfolded criar_def])
    apply (erule seguir_quieto, erule (1) etapa_mes_quieto)
    apply (erule seguir_quieto, erule (1) etapa_licitacao_quieto)
    apply (erule seguir_quieto, erule (1) etapa_subpastas_quieto)
    apply (erule seguir_quieto, blast dest: fontes_rastro)
    apply (erule seguir_sem_excecao, blast dest: etapa_copia_rastro)
    apply (erule seguir_sem_excecao, blast dest: etapa_anexos_sem_excecao)
    by simp
  moreover have "sereno (con ?a0)" using clear_j_sereno [of j "con a"]
    by (simp add: toast_app_def sereno_def)
  ultimately show ?thesis by (simp add: quieto_def sereno_def toast_app_def)
qed

theorem criar_excecao_silenciosa_witness:
  "snd (criar Styled app_ro) = Excecao PermissionDenied \<and> caixas (fst (criar Styled app_ro)) = []
   \<and> status_badge (con (fst (criar Styled app_ro))) = Badge_OK"
proof -
  have r: "snd (criar Styled app_ro) = Excecao PermissionDenied" by code_simp
  then have "criar Styled app_ro = (fst (criar Styled app_ro), Excecao PermissionDenied)" by (metis prod.collapse)
  from criar_excecao_silenciosa [OF this] r show ?thesis by (simp add: app_ro_def app_ex_def)
qed

text \<open>C4. Step 1 of \<open>_criar\<close> never takes its \<open>except\<close> branch: \<open>resolver_pasta_mes\<close>
  already created the month folder or raised, so \<open>pasta_mes.exists()\<close> holds whenever it
  returns and the \<open>mkdir\<close> guarded by that branch is never run.\<close>

theorem etapa_mes_sem_retorno:
  "etapa_mes j a = (a', r) \<Longrightarrow> r \<noteq> Retorna"
  by (auto simp: etapa_mes_def is_dir_def exists_def dest!: resolver_pasta_mes_dir
      split: prod.splits sum.splits)

theorem etapa_mes_sem_retorno_witness:
  "snd (etapa_mes MesApp app_ex) \<noteq> Retorna \<and> snd (etapa_mes MesApp app_ro) = Excecao PermissionDenied"
proof -
  have "snd (etapa_mes MesApp app_ro) = Excecao PermissionDenied" by code_simp
  then show ?thesis
    using etapa_mes_sem_retorno [of MesApp app_ex "fst (etapa_mes MesApp app_ex)" "snd (etapa_mes MesApp app_ex)"]
    by simp
qed

text \<open>C10. With the MODELOS and TEMPLATE fields left empty, \<open>Path("")\<close> is the working
  directory, which exists: the detection of both folders is skipped and the templates are
  taken from the working directory.\<close>

theorem fontes_campos_vazios:
  assumes "py_strip (var_modelos_path a) = []" "py_strip (var_template_path a) = []"
    and "exists (fsys a) (cwd (fsys a))"
  shows "fontes a = (a, Continua (cwd (fsys a), cwd (fsys a)))"
  using assms by (simp add: fontes_def Let_def)

theorem fontes_campos_vazios_witness:
  "fontes (app_ex\<lparr>var_modelos_path := '' ''\<rparr>) = (app_ex\<lparr>var_modelos_path := '' ''\<rparr>, Continua ([''L'', ''P''], [''L'', ''P'']))"
  using fontes_campos_vazios [of "app_ex\<lparr>var_modelos_path := '' ''\<rparr>"]
  by (simp add: app_ex_def fs_app_def pystr_simps exists_def fs_lookup_def)

text \<open>C12. The folder name splits back at \<open>_\<close> into the stripped fields of the form, with
  \<open>GP\<close> between the portal and the city when the box is checked, provided no field holds
  an underscore.\<close>

theorem montar_nome_roundtrip:
  assumes "CHR ''_'' \<notin> set (py_strip dia)" "CHR ''_'' \<notin> set (py_strip id_lct)"
    and "CHR ''_'' \<notin> set (py_strip portal)" "CHR ''_'' \<notin> set (py_strip cidade_uf)"
  shows "split_on CHR ''_'' (montar_nome_licitacao dia id_lct portal gp cidade_uf)
           = [py_strip dia, py_strip id_lct, py_strip portal] @ (if gp then [''GP''] else [])
             @ [py_strip cidade_uf]"
  using assms by (simp add: montar_nome_licitacao_def split_on_append split_on_free)

theorem montar_nome_roundtrip_witness:
  "split_on CHR ''_'' (montar_nome_licitacao '' 18'' ''CE004 '' ''BLL'' True ''Salvador-BA'')
     = [''18'', ''CE004'', ''BLL'', ''GP'', ''Salvador-BA'']"
  using montar_nome_roundtrip [of "'' 18''" "''CE004 ''" "''BLL''" "''Salvador-BA''" True]
  by (simp add: pystr_simps)

text \<open>C11. \<open>_add_anexos\<close> keeps the list of attachments free of duplicates and the list box
  showing exactly the paths of that list, in order.\<close>

theorem add_anexos_inv:
  "anexos_inv a \<Longrightarrow> anexos_inv (add_anexos fs a)"
  by (induction fs arbitrary: a) (auto simp: anexos_inv_def Let_def)

theorem add_anexos_inv_witness:
  "lst_anexos (add_anexos [''/L/a.pdf'', ''/L/b.pdf'', ''/L/a.pdf''] app_ex) = [''/L/a.pdf'', ''/L/b.pdf'']
   \<and> anexos_inv (add_anexos [''/L/a.pdf'', ''/L/b.pdf'', ''/L/a.pdf''] app_ex)"
proof -
  have "anexos_inv app_ex" by (simp add: anexos_inv_def app_ex_def)
  from add_anexos_inv [OF this, of "[''/L/a.pdf'', ''/L/b.pdf'', ''/L/a.pdf'']"] show ?thesis
    by (simp add: anexos_inv_def app_ex_def fs_app_def str_path_def path_join_def pystr_simps path_str_def)
qed

end
