(* ===== verification/Janelas.thy ===== *)
theory Janelas
  imports App
begin

text \<open>
  The state the three month-based windows start in (\<open>__init__\<close> of \<open>App\<close> in
  LicitagovLicitacaoMesApp.py and docket.py, and of \<open>StyledApp\<close>): default form
  values, the MODELOS and TEMPLATE folders detected once, and the sub-folder check boxes,
  which LicitagovLicitacaoMesApp.py and the styled window derive from a set of
  preselected names and docket.py reads from a dictionary of presets.  The widgets,
  styles and icons built in between are not state the handlers read.
\<close>

subsection \<open>Presets\<close>

definition SUBPASTAS_PADRAO_PRESELECIONADAS :: "string list" where
  "SUBPASTAS_PADRAO_PRESELECIONADAS = [
     ''1. HABILITACAO/1. HAB_JURIDICA'', ''1. HABILITACAO/3. HAB_ECON_FINAN'',
     ''1. HABILITACAO/4. QUALIFICACAO_TECNICA'', ''3. EDITAVEIS/1. DECLARACAO'',
     ''3. EDITAVEIS/2. PROPOSTA'', ''3. EDITAVEIS/3. PLANILHA'']"

definition SUBPASTA_DEFAULT_ANEXOS :: string where
  "SUBPASTA_DEFAULT_ANEXOS = ''0. EDITAL_ANEXOS''"

text \<open>docket.py: the presets as a dictionary, and its destination list, the keys.\<close>

definition SUBPASTAS_PRESELECIONADAS :: "(string \<times> bool) list" where
  "SUBPASTAS_PRESELECIONADAS = [
     (''0. EDITAL_ANEXOS'', False),
     (''1. HABILITACAO/1. HAB_JURIDICA'', True), (''1. HABILITACAO/2. HAB_FISCAL'', False),
     (''1. HABILITACAO/3. HAB_ECON_FINAN'', True), (''1. HABILITACAO/4. QUALIFICACAO_TECNICA'', True),
     (''1. HABILITACAO/5. ACT_CAT'', False), (''1. HABILITACAO/6. DECLARACOES'', False),
     (''2. PROPOSTA'', False),
     (''3. EDITAVEIS/1. DECLARACAO'', True), (''3. EDITAVEIS/2. PROPOSTA'', True),
     (''3. EDITAVEIS/3. PLANILHA'', True)]"

definition SUBPASTAS_DESTINO_DOCKET :: "string list" where
  "SUBPASTAS_DESTINO_DOCKET = map fst SUBPASTAS_PRESELECIONADAS"

text \<open>The check boxes \<open>vars_subpastas\<close>, in the order the dictionary keeps.\<close>

fun vars_iniciais :: "janela \<Rightarrow> (string \<times> bool) list" where
  "vars_iniciais Docket = SUBPASTAS_PRESELECIONADAS"
| "vars_iniciais _ = map (\<lambda>rel. (rel, rel \<in> set SUBPASTAS_PADRAO_PRESELECIONADAS)) SUBPASTAS_DESTINO"

subsection \<open>Construction\<close>

text \<open>
  \<open>__init__\<close> on a file system whose application folder is \<open>app_dir\<close>: the
  defaults, \<open>modelos_auto\<close> and \<open>template_auto\<close> (an exception of the detection
  aborts the construction), and the final \<open>self._update_preview()\<close>.
\<close>

definition app_init :: "janela \<Rightarrow> fs \<Rightarrow> path \<Rightarrow> fs_error + app" where
  "app_init j fs d =
     (case detectar_pasta_modelos fs d of
        Inl e \<Rightarrow> Inl e
      | Inr m \<Rightarrow>
          (case (case m of Some mp \<Rightarrow> detectar_pasta_template fs mp | None \<Rightarrow> Inr None) of
             Inl e \<Rightarrow> Inl e
           | Inr t \<Rightarrow> Inr (update_preview
               \<lparr>fsys = fs, con = console_init, app_dir = d, var_mes = hd MESES, var_dia = ''01'',
                var_idlct = ''CE001'', var_portal = ''BLL'', var_gp = False, var_cidadeuf = ''Salvador-BA'',
                var_modelos_path = (case m of Some p \<Rightarrow> path_str p | None \<Rightarrow> []),
                var_template_path = (case t of Some p \<Rightarrow> path_str p | None \<Rightarrow> []),
                var_politica = ''duplicar'', anexos_arquivos = [], lst_anexos = [],
                var_anexos_destino = SUBPASTA_DEFAULT_ANEXOS, vars_subpastas = vars_iniciais j,
                destino_criado = None, lbl_preview = [], caixas = []\<rparr>)))"

text \<open>A parent folder \<open>/L\<close> with the application folder \<open>/L/P\<close> and no MODELOS.\<close>

definition fs_sem_modelos :: fs where
  "fs_sem_modelos = \<lparr>entries = [([''L''], Dir), ([''L'', ''P''], Dir)], readonly = [], cwd = [''L'', ''P'']\<rparr>"

subsection \<open>The handlers of docket.py and of the styled window\<close>

text \<open>
  docket.py and LicitagovLicitacaoMesApp_UI.py repeat the text of \<open>_criar\<close>,
  \<open>_detectar_template\<close>, \<open>_escolher_modelos\<close> and the state set up by \<open>__init__\<close>
  of LicitagovLicitacaoMesApp.py but for
  the differences \<open>App.thy\<close> takes as parameters (console, sub-folder step, message
  texts).  These are the handlers as each window binds them to its buttons.
\<close>

definition app_init_docket :: "fs \<Rightarrow> path \<Rightarrow> fs_error + app" where
  "app_init_docket = app_init Docket"

definition criar_docket :: "app \<Rightarrow> app \<times> unit etapa" where
  "criar_docket = criar Docket"

definition criar_styled :: "app \<Rightarrow> app \<times> unit etapa" where
  "criar_styled = criar Styled"

definition detectar_template_docket :: "app \<Rightarrow> app \<times> fs_error option" where
  "detectar_template_docket = detectar_template Docket"

definition detectar_template_styled :: "app \<Rightarrow> app \<times> fs_error option" where
  "detectar_template_styled = detectar_template Styled"

definition escolher_modelos_docket :: "string \<Rightarrow> app \<Rightarrow> app \<times> fs_error option" where
  "escolher_modelos_docket = escolher_modelos Docket"

definition escolher_modelos_styled :: "string \<Rightarrow> app \<Rightarrow> app \<times> fs_error option" where
  "escolher_modelos_styled = escolher_modelos Styled"

subsection \<open>Properties of the initial state\<close>

text \<open>
  The three windows start with the same sub-folder check boxes: docket.py's
  dictionary of presets lists the destinations of LicitagovLicitacaoMesApp.py in the same
  order and checks exactly the six names of its preselection set.
\<close>

theorem vars_iniciais_equiv:
  "vars_iniciais Docket = vars_iniciais MesApp \<and> vars_iniciais Styled = vars_iniciais MesApp
   \<and> SUBPASTAS_DESTINO_DOCKET = SUBPASTAS_DESTINO
   \<and> marcadas (vars_iniciais MesApp) = SUBPASTAS_PADRAO_PRESELECIONADAS"
  by (simp add: SUBPASTAS_PRESELECIONADAS_def SUBPASTAS_PADRAO_PRESELECIONADAS_def SUBPASTAS_DESTINO_def
      SUBPASTAS_DESTINO_DOCKET_def marcadas_def)

text \<open>
  A constructed window satisfies the invariants the handlers keep: no duplicate
  attachment, a console whose labels match its counters, no destination yet, and the
  preview of the default form.
\<close>

theorem app_init_inv:
  assumes "app_init j fs d = Inr a"
  shows "anexos_inv a \<and> console_inv (con a) \<and> destino_criado a = None \<and> fsys a = fs
         \<and> lbl_preview a = ''01_CE001_BLL_Salvador-BA''"
  using assms
  by (auto simp: app_init_def update_preview_def anexos_inv_def console_inv_init
      montar_nome_licitacao_def pystr_simps split: sum.splits option.splits)

text \<open>
  When the constructor finds no MODELOS folder, both path fields stay empty and the
  first \<open>_criar\<close> neither detects the folders again nor warns: it takes the
  working directory as MODELOS and as TEMPLATE.
\<close>

theorem app_init_sem_modelos:
  assumes "app_init j fs d = Inr a" "detectar_pasta_modelos fs d = Inr None" "exists fs (cwd fs)"
  shows "fontes a = (a, Continua (cwd fs, cwd fs))"
  using assms by (auto simp: app_init_def fontes_def update_preview_def Let_def pystr_simps)

theorem app_init_sem_modelos_witness:
  "fontes (projr (app_init Docket fs_sem_modelos [''L'', ''P'']))
     = (projr (app_init Docket fs_sem_modelos [''L'', ''P'']), Continua ([''L'', ''P''], [''L'', ''P'']))"
proof -
  have i: "app_init Docket fs_sem_modelos [''L'', ''P''] = Inr (projr (app_init Docket fs_sem_modelos [''L'', ''P'']))"
    by code_simp
  have m: "detectar_pasta_modelos fs_sem_modelos [''L'', ''P''] = Inr None" by code_simp
  have c: "exists fs_sem_modelos (cwd fs_sem_modelos)" "cwd fs_sem_modelos = [''L'', ''P'']"
    by (simp_all add: fs_sem_modelos_def fs_simps)
  from app_init_sem_modelos [OF i m c(1)] show ?thesis by (simp only: c(2))
qed

theorem app_init_inv_witness:
  "lbl_preview (projr (app_init Docket fs_sem_modelos [''L'', ''P''])) = ''01_CE001_BLL_Salvador-BA''
   \<and> anexos_inv (projr (app_init Docket fs_sem_modelos [''L'', ''P'']))"
proof -
  have "app_init Docket fs_sem_modelos [''L'', ''P''] = Inr (projr (app_init Docket fs_sem_modelos [''L'', ''P'']))"
    by code_simp
  from app_init_inv [OF this] show ?thesis by simp
qed

end
