(* ===== verification/Estruturas.thy ===== *)
theory Estruturas
  imports TreeBuilder
begin

text \<open>
  The window of LicitagovEstruturasApp.py (class \<open>App\<close>, lines 151--278): a path
  field, a log box, and the button \<open>Criar estrutura\<close>, whose handler
  \<open>acao_criar\<close> validates the field, creates the base folder when it is missing and
  runs \<open>criar_arvore\<close> on \<open>ESTRUTURA_PADRAO\<close>.  The message boxes it opens are
  recorded in order; the file dialog of \<open>selecionar_pasta\<close> is its input.
\<close>

subsection \<open>State\<close>

text \<open>\<open>messagebox.showwarning\<close>, \<open>showerror\<close> and \<open>showinfo\<close>, with title and text.\<close>

datatype dialogo = Aviso string string | Erro string string | Informacao string string

record estr_app =
  efs :: fs
  var_path :: string
  caixa_log :: string
  dialogos :: "dialogo list"

text \<open>
  \<open>str(Path(s))\<close> for a path typed in the field: the components joined by \<open>/\<close>,
  led by \<open>/\<close> when absolute, and \<open>"."\<close> when there are none.
\<close>

definition path_text :: "string \<Rightarrow> string" where
  "path_text s = (if s \<noteq> [] \<and> hd s = CHR ''/'' then path_str (path_parts s)
                  else if path_parts s = [] then ''.'' else tl (path_str (path_parts s)))"

subsection \<open>Handlers\<close>

text \<open>\<open>log\<close>: the message and a line break appended to the box.\<close>

definition log_estr :: "string \<Rightarrow> estr_app \<Rightarrow> estr_app" where
  "log_estr msg a = a\<lparr>caixa_log := caixa_log a @ msg @ ''\<newline>''\<rparr>"

definition limpar_log :: "estr_app \<Rightarrow> estr_app" where
  "limpar_log a = a\<lparr>caixa_log := []\<rparr>"

text \<open>\<open>selecionar_pasta\<close>, after \<open>askdirectory\<close> returned \<open>pasta\<close> (empty when cancelled).\<close>

definition selecionar_pasta :: "string \<Rightarrow> estr_app \<Rightarrow> estr_app" where
  "selecionar_pasta pasta a = (if pasta \<noteq> [] then a\<lparr>var_path := pasta\<rparr> else a)"

text \<open>
  The em dash of one message lies outside Latin-1; it is written as its UTF-8 bytes.
\<close>

definition travessao :: string where
  "travessao = [CHR 0xE2, CHR 0x80, CHR 0x94]"

text \<open>
  \<open>acao_criar\<close>.  \<open>criar_arvore\<close> catches every error of its own \<open>mkdir\<close> calls, so
  the \<open>except\<close> around it is never taken and is not a branch of the model.
\<close>

definition acao_criar :: "estr_app \<Rightarrow> estr_app" where
  "acao_criar a =
     (let caminho = py_strip (var_path a) in
      if caminho = [] then
        a\<lparr>dialogos := dialogos a @ [Aviso (''Aten'' @ [CHR 0xE7, CHR 0xE3] @ ''o'')
                                        ''Informe ou selecione a pasta do cliente.'']\<rparr>
      else
        (let fs = efs a; base = str_path fs caminho in
         case (if exists fs base then Inr a
               else (case mkdir_p fs base of
                       (fs1, None) \<Rightarrow> Inr (log_estr (''Pasta base inexistente '' @ travessao @ '' criada: ''
                                                   @ path_text caminho) (a\<lparr>efs := fs1\<rparr>))
                     | (fs1, Some e) \<Rightarrow> Inl (a\<lparr>efs := fs1, dialogos := dialogos a @
                         [Erro ''Erro'' (''N'' @ [CHR 0xE3] @ ''o foi poss'' @ [CHR 0xED]
                                         @ ''vel criar a pasta base:\<newline>'' @ fs_error_str e)]\<rparr>))) of
           Inl a1 \<Rightarrow> a1
         | Inr a1 \<Rightarrow>
             (let a2 = log_estr (''Iniciando cria'' @ [CHR 0xE7, CHR 0xE3] @ ''o em: '' @ path_text caminho) a1;
                  (fs3, linhas) = criar_arvore (efs a2) base ESTRUTURA_PADRAO 0;
                  a3 = foldl (\<lambda>a l. log_estr l a) (a2\<lparr>efs := fs3\<rparr>) linhas;
                  a4 = log_estr (''Conclu'' @ [CHR 0xED] @ ''do.'') a3
              in a4\<lparr>dialogos := dialogos a4 @ [Informacao ''Pronto'' ''Estrutura criada com sucesso!'']\<rparr>)))"

text \<open>A client folder \<open>/C\<close> in which nothing may be created, typed with spaces around.\<close>

definition fs_ro :: fs where
  "fs_ro = \<lparr>entries = [([''C''], Dir)], readonly = [[''C'']], cwd = []\<rparr>"
definition estr_ex :: estr_app where
  "estr_ex = \<lparr>efs = fs_ro, var_path = '' /C '', caixa_log = [], dialogos = []\<rparr>"

subsection \<open>Lemmas\<close>

lemma log_estr_fold:
  "foldl (\<lambda>a l. log_estr l a) a ls
     = a\<lparr>caixa_log := caixa_log a @ concat (map (\<lambda>l. l @ ''\<newline>'') ls)\<rparr>"
  by (induction ls arbitrary: a) (simp_all add: log_estr_def)

lemma criar_itens_first:
  "\<exists>ls. snd (criar_itens fs base ((n, s) # rest) k) = snd (mkdir_log fs (path_join base n) k) # ls"
  by (simp add: Let_def split: prod.splits)

text \<open>With an empty field \<open>acao_criar\<close> only warns.\<close>

theorem acao_criar_vazio:
  assumes "py_strip (var_path a) = []"
  shows "acao_criar a = a\<lparr>dialogos := dialogos a @ [Aviso (''Aten'' @ [CHR 0xE7, CHR 0xE3] @ ''o'')
                                                      ''Informe ou selecione a pasta do cliente.'']\<rparr>"
  using assms by (simp add: acao_criar_def)

subsection \<open>Properties of the window\<close>

text \<open>
  Once the base folder exists, \<open>acao_criar\<close> logs the start line, the lines of
  \<open>criar_arvore\<close> and the closing line, leaves the file system as \<open>criar_arvore\<close>
  does, and always ends with the dialog "Estrutura criada com sucesso!", even when
  folders could not be created and their lines report \<open>[ERRO]\<close>.
\<close>

theorem acao_criar_sempre_sucesso:
  assumes "py_strip (var_path a) \<noteq> []" "exists (efs a) (str_path (efs a) (py_strip (var_path a)))"
  shows "caixa_log (acao_criar a) = caixa_log a @ concat (map (\<lambda>l. l @ ''\<newline>'')
          ((''Iniciando cria'' @ [CHR 0xE7, CHR 0xE3] @ ''o em: '' @ path_text (py_strip (var_path a)))
           # snd (criar_arvore (efs a) (str_path (efs a) (py_strip (var_path a))) ESTRUTURA_PADRAO 0)
           @ [''Conclu'' @ [CHR 0xED] @ ''do.'']))
     \<and> efs (acao_criar a) = fst (criar_arvore (efs a) (str_path (efs a) (py_strip (var_path a))) ESTRUTURA_PADRAO 0)
     \<and> dialogos (acao_criar a) = dialogos a @ [Informacao ''Pronto'' ''Estrutura criada com sucesso!'']"
  using assms
  by (simp add: acao_criar_def Let_def log_estr_fold split: prod.splits, simp add: log_estr_def)

theorem acao_criar_sempre_sucesso_witness:
  "dialogos (acao_criar estr_ex) = [Informacao ''Pronto'' ''Estrutura criada com sucesso!'']
   \<and> efs (acao_criar estr_ex) = fst (criar_arvore fs_ro [''C''] ESTRUTURA_PADRAO 0)
   \<and> mkdir_p fs_ro [''C'', ''00. Editais_ANALISAR''] = (fs_ro, Some PermissionDenied)"
proof -
  have s: "py_strip (var_path estr_ex) = ''/C''" "str_path (efs estr_ex) ''/C'' = [''C'']"
    "exists (efs estr_ex) [''C'']" "efs estr_ex = fs_ro"
    by (simp_all add: estr_ex_def fs_ro_def pystr_simps fs_simps)
  have m: "mkdir_p fs_ro [''C'', ''00. Editais_ANALISAR''] = (fs_ro, Some PermissionDenied)"
    by (simp add: mkdir_p_def fs_ro_def fs_simps Let_def)
  show ?thesis
    using acao_criar_sempre_sucesso [of estr_ex] s m by (simp add: estr_ex_def)
qed

theorem acao_criar_vazio_witness:
  "acao_criar (estr_ex\<lparr>var_path := ''  ''\<rparr>)
     = estr_ex\<lparr>var_path := ''  '', dialogos := [Aviso (''Aten'' @ [CHR 0xE7, CHR 0xE3] @ ''o'')
                                                      ''Informe ou selecione a pasta do cliente.'']\<rparr>"
  using acao_criar_vazio [of "estr_ex\<lparr>var_path := ''  ''\<rparr>"] by (simp add: estr_ex_def pystr_simps)

end
