(* ===== verification/Versao.thy ===== *)
theory Versao
  imports PyLib "HOL-Library.Word"
begin

unbundle bit_operations_syntax

text \<open>
  The PyInstaller version resource of the folder-tree creator
  (4-PROJETOS/ADD_NOVO_CLIENTE/version_info.py): a \<open>VSVersionInfo\<close> value, data only.
  Its comments ask that the version strings stay in step with the numeric versions; the
  string table's name \<open>040904b0\<close> is the language and code page that the
  \<open>Translation\<close> entry lists.  PyInstaller packs each numeric version into two
  32-bit words of 16-bit halves (\<open>FixedFileInfo\<close>), which is not code of the
  repository and is written from its documented layout.
\<close>

subsection \<open>The resource\<close>

type_synonym versao = "nat \<times> nat \<times> nat \<times> nat"

record fixed_file_info =
  filevers :: versao
  prodvers :: versao
  ffi_mask :: nat
  ffi_flags :: nat
  ffi_OS :: nat
  fileType :: nat
  ffi_subtype :: nat
  ffi_date :: "nat \<times> nat"

record vs_version_info =
  ffi :: fixed_file_info
  string_table_id :: string
  string_structs :: "(string \<times> string) list"
  translation :: "nat list"

definition version_info :: vs_version_info where
  "version_info =
     \<lparr>ffi = \<lparr>filevers = (1, 0, 0, 0), prodvers = (1, 0, 0, 0), ffi_mask = 0x3f, ffi_flags = 0x0,
             ffi_OS = 0x4, fileType = 0x1, ffi_subtype = 0x0, ffi_date = (0, 0)\<rparr>,
      string_table_id = ''040904b0'',
      string_structs = [(''CompanyName'', ''LicitaGov''),
                        (''FileDescription'', ''Criador de Estruturas LicitaGov''),
                        (''FileVersion'', ''1.0.0.0''),
                        (''InternalName'', ''LicitagovEstruturas''),
                        (''OriginalFilename'', ''LicitagovEstruturas.exe''),
                        (''ProductName'', ''Licitagov Estruturas''),
                        (''ProductVersion'', ''1.0.0.0'')],
      translation = [1033, 1200]\<rparr>"

subsection \<open>What the comments and the format require\<close>

text \<open>A version as the dotted text of its four numbers.\<close>

definition versao_texto :: "versao \<Rightarrow> string" where
  "versao_texto v = (case v of (a, b, c, d) \<Rightarrow>
     nat_str a @ ''.'' @ nat_str b @ ''.'' @ nat_str c @ ''.'' @ nat_str d)"

definition hex_digit :: "char \<Rightarrow> nat" where
  "hex_digit c = (let n = of_char c :: nat in
     if 48 \<le> n \<and> n \<le> 57 then n - 48 else if 97 \<le> n \<and> n \<le> 102 then n - 87
     else if 65 \<le> n \<and> n \<le> 70 then n - 55 else 0)"

definition hex_val :: "string \<Rightarrow> nat" where
  "hex_val s = foldl (\<lambda>n c. 16 * n + hex_digit c) 0 s"

definition versao_16 :: "versao \<Rightarrow> bool" where
  "versao_16 v = (case v of (a, b, c, d) \<Rightarrow> a < 2 ^ 16 \<and> b < 2 ^ 16 \<and> c < 2 ^ 16 \<and> d < 2 ^ 16)"

definition recurso_consistente :: "vs_version_info \<Rightarrow> bool" where
  "recurso_consistente r \<longleftrightarrow>
     map_of (string_structs r) ''FileVersion'' = Some (versao_texto (filevers (ffi r)))
   \<and> map_of (string_structs r) ''ProductVersion'' = Some (versao_texto (prodvers (ffi r)))
   \<and> translation r = [hex_val (take 4 (string_table_id r)), hex_val (drop 4 (string_table_id r))]
   \<and> versao_16 (filevers (ffi r)) \<and> versao_16 (prodvers (ffi r))"

text \<open>
  \<open>FixedFileInfo\<close>: \<open>(v[0] << 16) | (v[1] & 0xffff)\<close> and \<open>(v[2] << 16) | (v[3] & 0xffff)\<close>,
  stored as unsigned 32-bit words.
\<close>

definition empacotar :: "versao \<Rightarrow> 32 word \<times> 32 word" where
  "empacotar v = (case v of (a, b, c, d) \<Rightarrow>
     (push_bit 16 (word_of_nat a) OR (word_of_nat b AND 0xFFFF),
      push_bit 16 (word_of_nat c) OR (word_of_nat d AND 0xFFFF)))"

definition desempacotar :: "32 word \<times> 32 word \<Rightarrow> versao" where
  "desempacotar w = (case w of (ms, ls) \<Rightarrow>
     (unat (drop_bit 16 ms), unat (ms AND 0xFFFF), unat (drop_bit 16 ls), unat (ls AND 0xFFFF)))"

subsection \<open>Lemmas\<close>

lemma meia_palavra_alta:
  "a < 2 ^ 16 \<Longrightarrow> unat (drop_bit 16 (push_bit 16 (word_of_nat a) :: 32 word)) = a"
  by (simp add: unat_drop_bit_eq unsigned_push_bit_eq take_bit_push_bit drop_bit_push_bit
      unsigned_of_nat take_bit_nat_eq_self_iff)

lemma mascara_16: "(0xFFFF :: 32 word) = mask 16"
  by (simp add: mask_eq_exp_minus_1)

lemma meia_palavra_baixa:
  "b < 2 ^ 16 \<Longrightarrow> unat ((push_bit 16 (word_of_nat a) OR (word_of_nat b AND 0xFFFF)) AND 0xFFFF :: 32 word) = b"
  unfolding mascara_16
  by (simp flip: take_bit_eq_mask add: take_bit_or take_bit_push_bit unsigned_take_bit_eq unsigned_of_nat
      take_bit_nat_eq_self_iff)

lemma char_of_eq_iff': "c = char_of (n::nat) \<longleftrightarrow> n mod 256 = of_char c"
  by (metis char_of_char of_char_of)

lemma empacotar_roundtrip:
  "versao_16 v \<Longrightarrow> desempacotar (empacotar v) = v"
  by (cases v) (simp add: versao_16_def empacotar_def desempacotar_def meia_palavra_alta meia_palavra_baixa)

subsection \<open>Properties of the resource\<close>

text \<open>
  The version resource is consistent: the \<open>FileVersion\<close> and \<open>ProductVersion\<close>
  strings are the dotted numeric versions (the "sincronia" the comments ask for), the
  string table \<open>040904b0\<close> names the language and code page that \<open>Translation\<close>
  lists (1033 and 1200), every version part fits in 16 bits, and the two 32-bit words
  PyInstaller packs each version into give the version back.
\<close>

theorem recurso_consistente_ok:
  "recurso_consistente version_info
   \<and> desempacotar (empacotar (filevers (ffi version_info))) = filevers (ffi version_info)
   \<and> desempacotar (empacotar (prodvers (ffi version_info))) = prodvers (ffi version_info)"
proof -
  have c: "recurso_consistente version_info"
    by (simp add: recurso_consistente_def version_info_def versao_texto_def versao_16_def hex_val_def
        hex_digit_def nat_str.simps char_of_eq_iff')
  then show ?thesis by (simp add: recurso_consistente_def empacotar_roundtrip)
qed

end
