(* ===== verification/VariantesUI.thy ===== *)
theory VariantesUI
  imports Copier
begin

text \<open>
  LicitagovLicitacaoMesApp_UI.py carries its own copy of the path lookups, written with
  explicit loops where LicitagovLicitacaoMesApp.py uses comprehensions and generators:
  \<open>detectar_pasta_modelos\<close> (lines 104--119), \<open>detectar_pasta_template\<close> (121--140),
  \<open>resolver_pasta_mes\<close> (147--162) and \<open>_resolver_subpasta_flex\<close> (185--215), the last
  listing the sub-directories once per level instead of once per stage, and
  \<open>copiar_padrao_resiliente\<close> (227--274), which calls that copy of the resolver.  Each loop is a
  recursive function here; the lemmas show that the styled window finds the same folders.
\<close>

subsection \<open>The loops\<close>

text \<open>\<open>for child in lic.iterdir(): if child.is_dir(): ... if "modelo" in norm: candidatos.append(child)\<close>\<close>

fun candidatos_modelo :: "fs \<Rightarrow> path list \<Rightarrow> path list \<Rightarrow> path list" where
  "candidatos_modelo fs acc [] = acc"
| "candidatos_modelo fs acc (c # cs) =
     candidatos_modelo fs (if is_dir fs c \<and> py_in ''modelo'' (normalize_token (path_name c)) then acc @ [c] else acc) cs"

definition detectar_pasta_modelos_ui :: "fs \<Rightarrow> path \<Rightarrow> fs_error + path option" where
  "detectar_pasta_modelos_ui fs app_dir =
     (let lic = butlast app_dir in
      if \<not> exists fs lic then Inr None
      else case iterdir fs lic of
        Inl e \<Rightarrow> Inl e
      | Inr cs \<Rightarrow> Inr (first_of (sort_key path_name (candidatos_modelo fs [] cs))))"

text \<open>The two loops of \<open>detectar_pasta_template\<close>: the named candidates, and the first directory.\<close>

fun candidatos_template :: "fs \<Rightarrow> path list \<Rightarrow> path list \<Rightarrow> path list" where
  "candidatos_template fs acc [] = acc"
| "candidatos_template fs acc (c # cs) =
     candidatos_template fs (if is_dir fs c \<and> template_name_ok (normalize_token (path_name c)) then acc @ [c] else acc) cs"

fun primeiro_dir :: "fs \<Rightarrow> path list \<Rightarrow> path list" where
  "primeiro_dir fs [] = []"
| "primeiro_dir fs (c # cs) = (if is_dir fs c then [c] else primeiro_dir fs cs)"

definition detectar_pasta_template_ui :: "fs \<Rightarrow> path \<Rightarrow> fs_error + path option" where
  "detectar_pasta_template_ui fs modelos_dir =
     (if \<not> exists fs modelos_dir then Inr None
      else case iterdir fs modelos_dir of
        Inl e \<Rightarrow> Inl e
      | Inr cs \<Rightarrow>
          (let cand = candidatos_template fs [] cs in
           if cand = [] then
             (case iterdir fs modelos_dir of
                Inl e \<Rightarrow> Inl e
              | Inr cs2 \<Rightarrow> Inr (first_of (sort_key path_name (primeiro_dir fs cs2))))
           else Inr (first_of (sort_key path_name cand))))"

text \<open>The loop of \<open>resolver_pasta_mes\<close>, which returns from inside.\<close>

fun procurar_mes :: "fs \<Rightarrow> string \<Rightarrow> path list \<Rightarrow> path option" where
  "procurar_mes fs token [] = None"
| "procurar_mes fs token (c # cs) =
     (if is_dir fs c \<and> py_in token (normalize_token (path_name c)) then Some c
      else procurar_mes fs token cs)"

definition resolver_pasta_mes_ui :: "fs \<Rightarrow> path \<Rightarrow> string \<Rightarrow> fs \<times> (fs_error + path)" where
  "resolver_pasta_mes_ui fs base mes =
     (let token_mes_puro = normalize_token (month_text mes) in
      case iterdir fs base of
        Inl e \<Rightarrow> (fs, Inl e)
      | Inr cs \<Rightarrow>
          (case procurar_mes fs token_mes_puro cs of
             Some c \<Rightarrow> (fs, Inr c)
           | None \<Rightarrow>
               (let pasta = path_join base mes in
                case mkdir_p fs pasta of
                  (fs', None) \<Rightarrow> (fs', Inr pasta)
                | (fs', Some e) \<Rightarrow> (fs', Inl e))))"

text \<open>The two choice loops of \<open>_resolver_subpasta_flex\<close> over the listed candidates.\<close>

fun escolher_exato :: "string \<Rightarrow> path list \<Rightarrow> path option" where
  "escolher_exato alvo [] = None"
| "escolher_exato alvo (c # cs) =
     (if normalize_token (path_name c) = alvo then Some c else escolher_exato alvo cs)"

fun escolher_aprox :: "string \<Rightarrow> path list \<Rightarrow> path option" where
  "escolher_aprox alvo [] = None"
| "escolher_aprox alvo (c # cs) =
     (let n = normalize_token (path_name c) in
      if py_in alvo n \<or> py_in n alvo then Some c else escolher_aprox alvo cs)"

fun flex_walk_ui :: "fs \<Rightarrow> path \<Rightarrow> name list \<Rightarrow> fs_error + path option" where
  "flex_walk_ui fs current [] = Inr (Some current)"
| "flex_walk_ui fs current (part # parts) =
     (let alvo = normalize_token part in
      case listar_subdirs fs current of
        Inl e \<Rightarrow> Inl e
      | Inr candidatos \<Rightarrow>
          (case (case escolher_exato alvo candidatos of
                   Some c \<Rightarrow> Some c
                 | None \<Rightarrow> escolher_aprox alvo candidatos) of
             None \<Rightarrow> Inr None
           | Some escolhido \<Rightarrow> flex_walk_ui fs escolhido parts))"

definition resolver_subpasta_flex_ui :: "fs \<Rightarrow> path \<Rightarrow> string \<Rightarrow> fs_error + path option" where
  "resolver_subpasta_flex_ui fs model_root rel_path = flex_walk_ui fs model_root (path_parts rel_path)"

text \<open>
  The styled window's \<open>copiar_padrao_resiliente\<close>: the source folder of each selected
  sub-folder found through its own resolver, then the same per-file loop.
\<close>

definition origem_ui :: "fs \<Rightarrow> path \<Rightarrow> string \<Rightarrow> fs_error + path option" where
  "origem_ui fs raiz rel =
     (let src_dir = path_join raiz rel in
      if exists fs src_dir then Inr (Some src_dir)
      else (case resolver_subpasta_flex_ui fs raiz rel of
              Inl e \<Rightarrow> Inl e
            | Inr (Some alt) \<Rightarrow> if exists fs alt then Inr (Some alt) else Inr None
            | Inr None \<Rightarrow> Inr None))"

fun copiar_padrao_resiliente_ui ::
  "fs \<Rightarrow> path \<Rightarrow> path \<Rightarrow> string \<Rightarrow> string list \<Rightarrow> fs \<times> event list \<times> fs_error option" where
  "copiar_padrao_resiliente_ui fs raiz destino politica [] = (fs, [], None)"
| "copiar_padrao_resiliente_ui fs raiz destino politica (rel # rels) =
     (case origem_ui fs raiz rel of
        Inl e \<Rightarrow> (fs, [], Some e)
      | Inr None \<Rightarrow>
          (let (fs', evs, err) = copiar_padrao_resiliente_ui fs raiz destino politica rels
           in (fs', (''warn'', ''Pasta modelo n'' @ [CHR 0xE3] @ ''o encontrada: ''
                                @ path_str (path_join raiz rel)) # evs, err))
      | Inr (Some src_dir) \<Rightarrow>
          (let dst_dir = path_join destino rel in
           case mkdir_p fs dst_dir of
             (fs1, Some e) \<Rightarrow> (fs1, [], Some e)
           | (fs1, None) \<Rightarrow>
               (case iterdir fs1 src_dir of
                  Inl e \<Rightarrow> (fs1, [], Some e)
                | Inr items \<Rightarrow>
                    (let (fs2, ev1) = copiar_itens fs1 dst_dir politica items;
                         (fs3, ev2, err) = copiar_padrao_resiliente_ui fs2 raiz destino politica rels
                     in (fs3, ev1 @ ev2, err)))))"

subsection \<open>The loops compute the library functions\<close>

lemma candidatos_modelo_filter:
  "candidatos_modelo fs acc cs = acc @ filter (\<lambda>c. is_dir fs c \<and> py_in ''modelo'' (normalize_token (path_name c))) cs"
  by (induction cs arbitrary: acc) simp_all

lemma candidatos_template_filter:
  "candidatos_template fs acc cs = acc @ filter (\<lambda>c. is_dir fs c \<and> template_name_ok (normalize_token (path_name c))) cs"
  by (induction cs arbitrary: acc) simp_all

lemma primeiro_dir_take: "primeiro_dir fs cs = take 1 (filter (is_dir fs) cs)"
  by (induction cs) simp_all

lemma procurar_mes_find:
  "procurar_mes fs token cs = find (\<lambda>c. is_dir fs c \<and> py_in token (normalize_token (path_name c))) cs"
  by (induction cs) simp_all

lemma escolher_exato_find: "escolher_exato alvo cs = find (\<lambda>c. normalize_token (path_name c) = alvo) cs"
  by (induction cs) simp_all

lemma escolher_aprox_find:
  "escolher_aprox alvo cs = find (\<lambda>c. fuzzy_match alvo (normalize_token (path_name c))) cs"
  by (induction cs) (simp_all add: fuzzy_match_def Let_def)

lemma flex_walk_ui_eq: "flex_walk_ui fs cur parts = flex_walk fs cur parts"
proof (induction parts arbitrary: cur)
  case Nil
  then show ?case by simp
next
  case (Cons part parts)
  then show ?case
    by (simp add: flex_walk.simps(2) Let_def escolher_exato_find escolher_aprox_find
        split: sum.splits option.splits)
qed

subsection \<open>Equivalence\<close>

text \<open>
  C29.  The styled window's loops compute what LicitagovLicitacaoMesApp.py's
  comprehensions compute: the four lookups and the copier are the same functions.
\<close>

lemma resolver_subpasta_flex_ui_eq: "resolver_subpasta_flex_ui f r p = resolver_subpasta_flex f r p"
  by (simp add: resolver_subpasta_flex_ui_def resolver_subpasta_flex_def flex_walk_ui_eq)

lemma copiar_padrao_resiliente_ui_eq:
  "copiar_padrao_resiliente_ui fs raiz destino politica rels = copiar_padrao_resiliente fs raiz destino politica rels"
proof -
  have o: "origem_ui = origem"
    by (intro ext) (simp add: origem_ui_def origem_def resolver_subpasta_flex_ui_eq Let_def)
  show ?thesis
    by (induction rels arbitrary: fs) (simp_all add: o Let_def split: sum.splits option.splits prod.splits)
qed

theorem lookups_ui_equiv:
  "detectar_pasta_modelos_ui = detectar_pasta_modelos
   \<and> detectar_pasta_template_ui = detectar_pasta_template
   \<and> resolver_pasta_mes_ui = resolver_pasta_mes
   \<and> resolver_subpasta_flex_ui = resolver_subpasta_flex
   \<and> copiar_padrao_resiliente_ui = copiar_padrao_resiliente"
  by (intro conjI ext)
     (simp_all add: detectar_pasta_modelos_ui_def detectar_pasta_modelos_def candidatos_modelo_filter
       detectar_pasta_template_ui_def detectar_pasta_template_def candidatos_template_filter primeiro_dir_take
       resolver_pasta_mes_ui_def resolver_pasta_mes_def procurar_mes_find
       resolver_subpasta_flex_ui_eq copiar_padrao_resiliente_ui_eq Let_def
       split: sum.splits)

end
