(* ===== verification/Rolagem.thy ===== *)
theory Rolagem
  imports Prelude "HOL-Library.Signed_Division"
begin

text \<open>
  \<open>PageScroll\<close> of LicitagovLicitacaoMesApp.py (lines 191--235), the frame that makes
  the whole window scroll: the handlers that turn a wheel event into a number of units
  for \<open>yview_scroll\<close>, and \<open>_bind_mousewheel\<close>, which installs those handlers
  globally while the pointer is over the canvas or the content frame.  Tk's binding
  tables are modelled from its documented behaviour: \<open>widget.bind(seq, f)\<close> without
  \<open>add="+"\<close> replaces the widget's binding for \<open>seq\<close>; \<open>bind_all\<close> and
  \<open>unbind_all\<close> set and clear the application-wide binding of an event.
\<close>

subsection \<open>Scrolling amounts\<close>

datatype plataforma = Darwin | Outra

text \<open>
  \<open>_on_mousewheel\<close>: \<open>int(-1 * delta)\<close> on macOS, \<open>int(-1 * (delta/120))\<close>
  elsewhere; \<open>int\<close> of a float rounds towards zero, which is \<open>sdiv\<close> on integers.
  (\<open>delta/120\<close> is a float; for the event deltas Tk delivers, far below \<open>2^53\<close>, the
  quotient is exact before rounding.)
\<close>

definition rolagem_roda :: "plataforma \<Rightarrow> int \<Rightarrow> int" where
  "rolagem_roda p delta = (if p = Darwin then - delta else - (delta sdiv 120))"

text \<open>\<open>_on_mousewheel_linux\<close>: button 4 scrolls up one unit, any other down one.\<close>

definition rolagem_linux :: "nat \<Rightarrow> int" where
  "rolagem_linux num = (if num = 4 then -1 else 1)"

subsection \<open>Binding tables\<close>

datatype manipulador = Roda | Roda_linux

text \<open>What an \<open><Enter>\<close> or \<open><Leave>\<close> callback of \<open>_bind_mousewheel\<close> does.\<close>

datatype acao = Bind_all string manipulador | Unbind_all string

record vinculos =
  locais :: "string \<times> string \<Rightarrow> acao option"
  globais :: "string \<Rightarrow> manipulador option"

definition vinculos_vazios :: vinculos where
  "vinculos_vazios = \<lparr>locais = (\<lambda>_. None), globais = (\<lambda>_. None)\<rparr>"

definition bind :: "string \<Rightarrow> string \<Rightarrow> acao \<Rightarrow> vinculos \<Rightarrow> vinculos" where
  "bind w seq a v = v\<lparr>locais := (locais v)((w, seq) \<mapsto> a)\<rparr>"

text \<open>The six \<open>bind\<close> calls of \<open>_bind_mousewheel\<close>, in order.\<close>

definition bind_mousewheel :: "string \<Rightarrow> vinculos \<Rightarrow> vinculos" where
  "bind_mousewheel w v =
     bind w ''<Leave>'' (Unbind_all ''<Button-5>'')
      (bind w ''<Leave>'' (Unbind_all ''<Button-4>'')
       (bind w ''<Enter>'' (Bind_all ''<Button-5>'' Roda_linux)
        (bind w ''<Enter>'' (Bind_all ''<Button-4>'' Roda_linux)
         (bind w ''<Leave>'' (Unbind_all ''<MouseWheel>'')
          (bind w ''<Enter>'' (Bind_all ''<MouseWheel>'' Roda) v)))))"

text \<open>\<open>PageScroll.__init__\<close> binds the canvas, then the content frame.\<close>

definition page_scroll_vinculos :: vinculos where
  "page_scroll_vinculos = bind_mousewheel ''content'' (bind_mousewheel ''canvas'' vinculos_vazios)"

text \<open>The pointer entering or leaving a widget runs its binding for that event.\<close>

definition evento :: "string \<times> string \<Rightarrow> vinculos \<Rightarrow> vinculos" where
  "evento ws v = (case locais v ws of
      None \<Rightarrow> v
    | Some (Bind_all s h) \<Rightarrow> v\<lparr>globais := (globais v)(s \<mapsto> h)\<rparr>
    | Some (Unbind_all s) \<Rightarrow> v\<lparr>globais := (globais v)(s := None)\<rparr>)"

definition eventos :: "(string \<times> string) list \<Rightarrow> vinculos \<Rightarrow> vinculos" where
  "eventos es v = fold evento es v"

text \<open>The only global binding is the Linux scroll-down handler.\<close>

definition so_button5 :: "vinculos \<Rightarrow> bool" where
  "so_button5 v \<longleftrightarrow> (\<forall>s. globais v s \<noteq> None \<longrightarrow> s = ''<Button-5>'' \<and> globais v s = Some Roda_linux)"

subsection \<open>Lemmas\<close>

lemma locais_page_scroll:
  "locais page_scroll_vinculos ws \<in> {None, Some (Bind_all ''<Button-5>'' Roda_linux), Some (Unbind_all ''<Button-5>'')}"
  by (auto simp: page_scroll_vinculos_def bind_mousewheel_def bind_def vinculos_vazios_def)

lemma evento_so_button5:
  "so_button5 v \<Longrightarrow> locais v = locais page_scroll_vinculos \<Longrightarrow> so_button5 (evento ws v)"
  using locais_page_scroll [of ws]
  by (auto simp: so_button5_def evento_def split: option.splits acao.splits)

subsection \<open>Properties of the scrolling frame\<close>

text \<open>
  C31.  Each of the three \<open><Enter>\<close> bindings of \<open>_bind_mousewheel\<close> replaces the one
  before, and so does each \<open><Leave>\<close> binding: whatever the pointer does over the
  canvas and the content frame, the wheel event \<open><MouseWheel>\<close> of Windows and macOS and
  the Linux scroll-up button \<open><Button-4>\<close> are never bound, while entering the canvas
  does bind \<open><Button-5>\<close>.
\<close>

theorem roda_nunca_vinculada:
  "globais (eventos es page_scroll_vinculos) ''<MouseWheel>'' = None
   \<and> globais (eventos es page_scroll_vinculos) ''<Button-4>'' = None
   \<and> globais (eventos [(''canvas'', ''<Enter>'')] page_scroll_vinculos) ''<Button-5>'' = Some Roda_linux"
proof -
  have "so_button5 (fold evento es v)" if "so_button5 v" "locais v = locais page_scroll_vinculos" for v
    using that
  proof (induction es arbitrary: v)
    case Nil then show ?case by simp
  next
    case (Cons e es)
    have "locais (evento e v) = locais v" by (simp add: evento_def split: option.splits acao.splits)
    then show ?case using Cons evento_so_button5 by simp
  qed
  moreover have "so_button5 page_scroll_vinculos"
    by (simp add: so_button5_def page_scroll_vinculos_def bind_mousewheel_def bind_def vinculos_vazios_def)
  ultimately have "so_button5 (eventos es page_scroll_vinculos)" by (simp add: eventos_def)
  moreover have "globais (eventos [(''canvas'', ''<Enter>'')] page_scroll_vinculos) ''<Button-5>'' = Some Roda_linux"
    by (simp add: eventos_def evento_def page_scroll_vinculos_def bind_mousewheel_def bind_def vinculos_vazios_def)
  ultimately show ?thesis by (auto simp: so_button5_def)
qed

text \<open>
  C32.  Off macOS a wheel event scrolls \<open>|delta| div 120\<close> units against the sign of
  \<open>delta\<close>, symmetrically in both directions, so a delta below 120 (a fine trackpad
  step) scrolls nothing; one notch of 120 scrolls one unit up, and on macOS each unit of
  delta is one unit.
\<close>

theorem rolagem_roda_bounds:
  "rolagem_roda Outra (- delta) = - rolagem_roda Outra delta
   \<and> \<bar>rolagem_roda Outra delta\<bar> = \<bar>delta\<bar> div 120
   \<and> rolagem_roda Outra 120 = -1 \<and> rolagem_roda Darwin 1 = -1"
  by (cases "delta = 0")
     (simp_all add: rolagem_roda_def minus_sdiv_eq signed_divide_int_def abs_mult abs_sgn_eq)

end
