(* ===== verification/Icones.thy ===== *)
theory Icones
  imports FileSystem
begin

text \<open>
  The icon loader of docket.py (lines 51--96): \<open>_resource_path\<close>, which finds the
  assets next to the script or in PyInstaller's unpack folder \<open>sys._MEIPASS\<close>, and
  \<open>_load_icon\<close>, which loads \<open>assets/icons/<name>.png\<close> through Pillow when it can,
  else through Tk with an integer subsampling, else returns a blank 1x1 image, and keeps
  every result in the module-level cache \<open>ICON_CACHE\<close>.  What Pillow and Tk manage to
  read is the environment: for each file, whether the Pillow chain succeeds at a size,
  and the dimensions Tk reads, if any.  \<open>App.__init__\<close> loads twelve icons (lines
  313--324).
\<close>

subsection \<open>State and environment\<close>

text \<open>The images \<open>_load_icon\<close> returns.\<close>

datatype imagem =
    Pil_img path nat
  | Tk_img path nat nat
  | Vazia

type_synonym icon_cache = "string \<times> nat \<Rightarrow> imagem option"

record icon_env =
  pil_ok :: "path \<Rightarrow> nat \<Rightarrow> bool"
  tk_dims :: "path \<Rightarrow> (nat \<times> nat) option"
  meipass :: "string option"
  script_dir :: path

text \<open>\<open>_resource_path\<close>: \<open>Path(base) if base else Path(__file__).parent\<close>, then \<open>/ rel\<close>.\<close>

definition resource_path :: "icon_env \<Rightarrow> string \<Rightarrow> path" where
  "resource_path env rel =
     path_join (case meipass env of Some b \<Rightarrow> if b \<noteq> [] then path_join [] b else script_dir env
                                  | None \<Rightarrow> script_dir env) rel"

text \<open>
  The fallback of \<open>_load_icon\<close>: \<open>fx = max(1, img.width() // size)\<close> and the same for
  the height, subsampling when either exceeds 1 (\<open>Tk_img p 1 1\<close> is the image as read).
  A size of 0 raises \<open>ZeroDivisionError\<close> inside the \<open>try\<close>, which yields the blank
  image; a file Tk cannot read does the same.
\<close>

definition fallback_tk :: "icon_env \<Rightarrow> path \<Rightarrow> nat \<Rightarrow> imagem" where
  "fallback_tk env p tam =
     (case tk_dims env p of
        None \<Rightarrow> Vazia
      | Some (w, h) \<Rightarrow> if tam = 0 then Vazia else Tk_img p (max 1 (w div tam)) (max 1 (h div tam)))"

definition load_icon :: "icon_env \<Rightarrow> icon_cache \<Rightarrow> string \<Rightarrow> nat \<Rightarrow> icon_cache \<times> imagem" where
  "load_icon env cache name tam =
     (case cache (name, tam) of
        Some img \<Rightarrow> (cache, img)
      | None \<Rightarrow>
          (let p = resource_path env (''assets/icons/'' @ name @ ''.png'');
               img = (if pil_ok env p tam then Pil_img p tam else fallback_tk env p tam)
           in (cache((name, tam) \<mapsto> img), img)))"

text \<open>The twelve icons of \<open>App.__init__\<close>, in order.\<close>

definition ICONES_DOCKET :: "(string \<times> nat) list" where
  "ICONES_DOCKET = [(''ic_app'', 48), (''ic_ok'', 24), (''ic_warn'', 24), (''ic_error'', 24),
     (''ic_calendar'', 24), (''ic_folder'', 24), (''ic_template'', 24), (''ic_detect'', 24),
     (''ic_attach'', 24), (''ic_trash'', 24), (''ic_open'', 24), (''ic_play'', 24)]"

definition carregar_icones :: "icon_env \<Rightarrow> icon_cache \<Rightarrow> (string \<times> nat) list \<Rightarrow> icon_cache \<times> imagem list" where
  "carregar_icones env cache ics =
     foldl (\<lambda>(c, imgs) (n, s). let (c', img) = load_icon env c n s in (c', imgs @ [img])) (cache, []) ics"

text \<open>A frozen executable without Pillow, whose Tk reads every icon as 48x48.\<close>

definition env_sem_pil :: icon_env where
  "env_sem_pil = \<lparr>pil_ok = (\<lambda>_ _. False), tk_dims = (\<lambda>_. Some (48, 48)), meipass = Some ''/tmp/_MEI1'',
                  script_dir = [''D'']\<rparr>"

subsection \<open>Lemmas\<close>

lemma load_icon_cached:
  "load_icon env c n s = (c', img) \<Longrightarrow> c' (n, s) = Some img \<and> (\<forall>k. k \<noteq> (n, s) \<longrightarrow> c' k = c k)
     \<and> (c (n, s) \<noteq> None \<longrightarrow> c' = c)"
  by (auto simp: load_icon_def Let_def split: option.splits)

lemma fallback_tk_bounds:
  "fallback_tk env p s = Tk_img q fx fy \<Longrightarrow> tk_dims env p = Some (w, h) \<Longrightarrow>
     0 < s \<and> q = p \<and> 1 \<le> fx \<and> (fx = 1 \<or> fx * s \<le> w) \<and> 1 \<le> fy \<and> (fy = 1 \<or> fy * s \<le> h)"
  by (auto simp: fallback_tk_def split: if_splits)
     (metis div_times_less_eq_dividend max_def)+

subsection \<open>Properties of the loader\<close>

text \<open>
  C33.  \<open>ICON_CACHE\<close> makes \<open>_load_icon\<close> idempotent: once an icon was loaded at a
  size, loading it again returns the same image and leaves the cache as it is, whatever
  Pillow and Tk would now read.
\<close>

theorem load_icon_idem:
  "load_icon env c n s = (c', img) \<Longrightarrow> load_icon env' c' n s = (c', img)"
  using load_icon_cached [of env c n s c' img] by (simp add: load_icon_def)

theorem load_icon_idem_witness:
  "snd (load_icon env_sem_pil Map.empty ''ic_ok'' 24) = Tk_img [''tmp'', ''_MEI1'', ''assets'', ''icons'', ''ic_ok.png''] 2 2
   \<and> load_icon env_sem_pil (fst (load_icon env_sem_pil Map.empty ''ic_ok'' 24)) ''ic_ok'' 24
       = load_icon env_sem_pil Map.empty ''ic_ok'' 24"
proof -
  have i: "snd (load_icon env_sem_pil Map.empty ''ic_ok'' 24) = Tk_img [''tmp'', ''_MEI1'', ''assets'', ''icons'', ''ic_ok.png''] 2 2"
    by (simp add: load_icon_def env_sem_pil_def resource_path_def fallback_tk_def path_join_def pystr_simps Let_def)
  have "load_icon env_sem_pil Map.empty ''ic_ok'' 24
          = (fst (load_icon env_sem_pil Map.empty ''ic_ok'' 24), snd (load_icon env_sem_pil Map.empty ''ic_ok'' 24))"
    by simp
  from load_icon_idem [OF this, of env_sem_pil] i show ?thesis by (metis prod.collapse)
qed

end
