(* ===== verification/Cartao.thy ===== *)
theory Cartao
  imports Main
begin

text \<open>
  The rounded card of docket.py (\<open>App._card\<close>, lines 461--499): a canvas behind a
  frame, redrawn on every \<open><Configure>\<close> by \<open>_redraw\<close>, which paints the card
  colour as two overlapping rectangles and four corner circles of radius \<open>r\<close>.  The
  drawing commands are the state the canvas keeps; the widgets around it are
  presentation.
\<close>

datatype forma = Retangulo int int int int | Oval int int int int

text \<open>\<open>container.winfo_width() or 200\<close>: a width of 0 falls back to the default.\<close>

definition ou_padrao :: "int \<Rightarrow> int \<Rightarrow> int" where
  "ou_padrao v d = (if v = 0 then d else v)"

text \<open>The six \<open>create_*\<close> calls of \<open>_redraw\<close>, in order, tagged \<open>"round"\<close>.\<close>

definition formas_card :: "int \<Rightarrow> int \<Rightarrow> int \<Rightarrow> forma list" where
  "formas_card w h r =
     [Retangulo r 0 (w - r) h, Retangulo 0 r w (h - r),
      Oval 0 0 (2 * r) (2 * r), Oval (w - 2 * r) 0 w (2 * r),
      Oval 0 (h - 2 * r) (2 * r) h, Oval (w - 2 * r) (h - 2 * r) w h]"

definition redraw_card :: "int \<Rightarrow> int \<Rightarrow> int \<Rightarrow> int \<times> int \<times> forma list" where
  "redraw_card winfo_w winfo_h r =
     (let w = ou_padrao winfo_w 200; h = ou_padrao winfo_h 100 in (w, h, formas_card w h r))"

text \<open>A shape lies on the canvas \<open>[0, w] \<times> [0, h]\<close>, corners in order.\<close>

fun dentro :: "int \<Rightarrow> int \<Rightarrow> forma \<Rightarrow> bool" where
  "dentro w h (Retangulo x1 y1 x2 y2) \<longleftrightarrow> 0 \<le> x1 \<and> x1 \<le> x2 \<and> x2 \<le> w \<and> 0 \<le> y1 \<and> y1 \<le> y2 \<and> y2 \<le> h"
| "dentro w h (Oval x1 y1 x2 y2) \<longleftrightarrow> 0 \<le> x1 \<and> x1 \<le> x2 \<and> x2 \<le> w \<and> 0 \<le> y1 \<and> y1 \<le> y2 \<and> y2 \<le> h"

text \<open>Mirroring a shape left to right on a canvas of width \<open>w\<close>.\<close>

fun espelho :: "int \<Rightarrow> forma \<Rightarrow> forma" where
  "espelho w (Retangulo x1 y1 x2 y2) = Retangulo (w - x2) y1 (w - x1) y2"
| "espelho w (Oval x1 y1 x2 y2) = Oval (w - x2) y1 (w - x1) y2"

subsection \<open>Properties of the drawing\<close>

text \<open>
  The six shapes stay on the canvas exactly when the card is at least two radii wide and
  high; a narrower card (Tk reports a width of 1 before the widget is mapped) is
  painted partly outside the canvas.
\<close>

theorem redraw_card_dentro:
  "redraw_card ww wh r = (w, h, fs) \<Longrightarrow> 0 \<le> r \<Longrightarrow> list_all (dentro w h) fs \<longleftrightarrow> 2 * r \<le> w \<and> 2 * r \<le> h"
  by (auto simp: redraw_card_def formas_card_def Let_def)

text \<open>The card is symmetric: mirroring the shapes left to right gives the same shapes.\<close>

theorem formas_card_simetrica:
  "set (map (espelho w) (formas_card w h r)) = set (formas_card w h r)"
  by (auto simp: formas_card_def)

theorem redraw_card_dentro_witness:
  "list_all (dentro 200 100) (formas_card 200 100 10) \<and> \<not> list_all (dentro 1 100) (formas_card 1 100 10)"
proof -
  have a: "redraw_card 0 0 10 = (200, 100, formas_card 200 100 10)"
    and b: "redraw_card 1 0 10 = (1, 100, formas_card 1 100 10)"
    by (simp_all add: redraw_card_def ou_padrao_def)
  show ?thesis using redraw_card_dentro [OF a] redraw_card_dentro [OF b] by simp
qed

end
