(* ===== verification/Spec2Isabelle.thy ===== *)
theory Spec2Isabelle
  imports Janelas Estruturas Versao VariantesUI Rolagem Icones Cartao
begin

text \<open>
  A verification development for the Licitagov folder utilities (src/).  Four
  near-duplicate Tkinter programs share one core: LicitagovLicitacaoMesApp.py (the
  month-based bid creator), LicitagovLicitacaoMesApp_UI.py (the same with a restyled
  window, class \<open>StyledApp\<close>), 4-PROJETOS/Docket/docket.py (the "Docket" organiser)
  and 4-PROJETOS/ADD_NOVO_CLIENTE/LicitagovEstruturasApp.py (a folder-tree creator with
  its PyInstaller resource version_info.py).  The core normalises folder names, finds
  the MODELOS and TEMPLATE folders, resolves requested sub-paths tolerantly, creates
  folder trees, and copies template files under a conflict policy, logging one event per
  file; each window's \<open>_criar\<close> chains these steps and reports through a console of
  counters and status labels.

  Theories, in import order, and the code they model:
  \<^item> Prelude: type names (a name is a string, a path the list of its components), the
    rule collections \<open>pystr_simps\<close> and \<open>fs_simps\<close>, facts on \<open>find\<close> and sorted lists.
  \<^item> PyLib: the Python string library the sources call (\<open>isspace\<close>, \<open>lower\<close>,
    \<open>upper\<close>, \<open>strip\<close>, \<open>split\<close>, \<open>in\<close>, \<open>str(n)\<close>, path parts, stem and
    suffix) on the Latin-1 range; strings are lists of 8-bit characters, so the emoji of
    the status badge become a datatype and the one em dash of LicitagovEstruturasApp.py
    is written as its UTF-8 bytes.
  \<^item> Normalize: \<open>_strip_accents\<close> and \<open>_normalize_token\<close> (MesApp lines 51--58):
    output alphabet, insensitivity to ordinal prefixes, and the exact condition under
    which it is idempotent (the specification claims it always is).
  \<^item> FileSystem: pathlib and shutil as the sources use them (not repository code): a
    record of entries in listing order, read-only folders and the working directory;
    \<open>mkdir(parents=True)\<close>, \<open>iterdir\<close>, \<open>copy2\<close> return their \<open>OSError\<close> as a
    value; the invariant \<open>wf_fs\<close> and the frame lemmas.
  \<^item> PathResolver: \<open>detectar_pasta_modelos\<close>, \<open>detectar_pasta_template\<close>,
    \<open>resolver_pasta_mes\<close>, \<open>_listar_subdirs\<close>, \<open>_resolver_subpasta_flex\<close> (MesApp
    60--129): soundness, no backtracking, exact matches first, least-name choices, the
    month folder always a directory, and the name clashes the normaliser lets through.
  \<^item> Copier: \<open>_proximo_nome_livre\<close> (a \<open>function\<close> whose termination measure counts
    the taken names from the counter on; the state is finite, so the loop ends; the loop is
    also a step relation \<open>passo_livre\<close>, whose runs reach a free name, with at most
    as many rounds as the file system has entries),
    the per-file policy \<open>transferir\<close>, \<open>copiar_padrao_resiliente\<close> and
    \<open>anexar_arquivos\<close> (MesApp 130--189): a log event per file, existing data kept
    except under \<open>"substituir"\<close>, well-formedness kept, abort on an exception outside
    the per-file \<open>try\<close>.
  \<^item> TreeBuilder: \<open>criar_arvore\<close> with \<open>ESTRUTURA_PADRAO\<close> (LicitagovEstruturasApp.py
    30--145; termination by the size of the schema) and \<open>criar_estrutura_licitacao\<close>
    (MesApp 106--108): 62 log lines, every named folder created when no line reports an
    error, idempotence after an error-free run, errors repeated on every run when a file
    blocks a folder, and the fixed list stopping at its first failing \<open>mkdir\<close>.
  \<^item> Console: \<open>_log\<close>, \<open>_log_clear\<close> of the three windows and the styled window's
    \<open>_set_status\<close>, \<open>_log_line\<close>, \<open>_apply_log_filter\<close>: the counters refine a
    fold over the logged levels, the invariant linking status and labels, the equivalence
    of the three variants through the projection \<open>vista\<close>, and the filter bug.
  \<^item> App: the window state of the three month-based windows as one record, the form
    handlers and the seven steps of \<open>_criar\<close> (MesApp 435--556, docket.py 572--652,
    UI 625--778), each step returning \<open>Continua\<close>, \<open>Retorna\<close> (the \<open>return\<close> after a
    logged error) or \<open>Excecao\<close> (an exception no \<open>try\<close> catches), chained by
    \<open>seguir\<close>; every caught error logs, shows its \<open>Erro\<close> box and returns.  A run to
    the end leaves the bid folder and its sub-folders in place; a run that returns has
    reported exactly one error box and an error status; a run ended by an uncaught
    exception (from \<open>resolver_pasta_mes\<close> or the MODELOS/TEMPLATE detection) has
    reported nothing; and the error branch of the month step can never be taken.
  \<^item> Janelas: the state \<open>__init__\<close> builds (defaults, one detection of MODELOS and
    TEMPLATE, the check boxes), the same in all three windows, and the path from an
    unsuccessful detection to templates copied from the working directory; and the
    handlers \<open>_criar\<close>, \<open>_detectar_template\<close>, \<open>_escolher_modelos\<close> of docket.py
    and of \<open>StyledApp\<close> as the instances of App's definitions at those windows.
  \<^item> Estruturas: the window of LicitagovEstruturasApp.py (\<open>log\<close>, \<open>limpar_log\<close>,
    \<open>selecionar_pasta\<close>, \<open>acao_criar\<close>), which reports success after every run; the
    \<open>except\<close> of \<open>acao_criar\<close> guards a call that catches every \<open>mkdir\<close> error
    itself and is not a branch of the model.
  \<^item> Versao: version_info.py as records; its strings agree with its numbers and its
    numbers fit the 16-bit halves PyInstaller packs them into (\<open>32 word\<close>).
  \<^item> VariantesUI: the loop-based copies of the lookups and of the copier in
    LicitagovLicitacaoMesApp_UI.py, proved equal to LicitagovLicitacaoMesApp.py's.
  \<^item> Rolagem: \<open>PageScroll\<close> (MesApp 191--235): the wheel handlers as integer
    functions (\<open>int()\<close> of a float quotient is \<open>sdiv\<close> of HOL-Library.Signed_Division)
    and \<open>_bind_mousewheel\<close> over Tk's binding tables (from Tk's documented
    semantics), where each \<open>bind\<close> replaces the last, so only one handler survives.
  \<^item> Icones: \<open>_resource_path\<close> and \<open>_load_icon\<close> of docket.py with
    \<open>ICON_CACHE\<close>; what Pillow and Tk read from the files is an environment record.
  \<^item> Cartao: the shapes \<open>_redraw\<close> of docket.py's \<open>_card\<close> paints, which stay on
    the canvas exactly when the card is two radii wide and high.

  No fuel is used: every loop of the programs runs over a finite list or is a
  \<open>function\<close> with a termination proof, so every definition is total and executable;
  the examples are evaluated with \<open>simp\<close> or \<open>code_simp\<close>.

  Not modelled: window layout, styles, scrolling canvases, icons, progress bars, button
  states and toast timers (presentation that no handler reads); the file and folder
  dialogs and message boxes beyond their results and titles; image decoding by Pillow
  and Tk (an input of the icon loader); the canvas geometry callbacks of
  \<open>PageScroll\<close>, which only resize widgets; the platform call of
  \<open>_abrir_destino\<close> (only its choice is modelled); the button and progress bar
  \<open>_criar\<close> disables and its \<open>finally\<close> enables again.  docket.py repeats the core
  functions of LicitagovLicitacaoMesApp.py verbatim, and the styled window and docket.py
  repeat \<open>_update_preview\<close>, \<open>_add_anexos\<close>, \<open>_limpar_anexos\<close> and
  \<open>_abrir_destino\<close>; one definition models each such text, and the map names the
  copy in LicitagovLicitacaoMesApp.py.  Paths are
  POSIX paths; Windows drive letters and the double leading slash are not modelled.
\<close>

end
